theory Spec2Isabelle
  imports Complex_Main "HOL-Library.Char_ord" "HOL-Library.List_Lexorder"
begin

section \<open>Python strings\<close>

text \<open>
  A Python \<open>str\<close> is modelled as a \<open>string\<close> whose characters are the code points
  below 256.  \<open>py_isspace\<close> is \<open>str.isspace\<close> on that range, \<open>strip\<close> is
  \<open>str.strip()\<close>, \<open>lower\<close> is \<open>str.lower()\<close> and \<open>py_in k s\<close> is the
  substring test \<open>k in s\<close>.
\<close>

definition py_isspace :: "char \<Rightarrow> bool" where
  "py_isspace c =
     (let n = (of_char c :: nat)
      in (9 \<le> n \<and> n \<le> 13) \<or> (28 \<le> n \<and> n \<le> 32) \<or> n = 133 \<or> n = 160)"

definition strip :: "string \<Rightarrow> string" where
  "strip s = rev (dropWhile py_isspace (rev (dropWhile py_isspace s)))"

definition py_lower_char :: "char \<Rightarrow> char" where
  "py_lower_char c =
     (let n = (of_char c :: nat)
      in if (65 \<le> n \<and> n \<le> 90) \<or> (192 \<le> n \<and> n \<le> 222 \<and> n \<noteq> 215)
         then char_of (n + 32) else c)"

definition lower :: "string \<Rightarrow> string" where
  "lower s = map py_lower_char s"

fun startswith :: "string \<Rightarrow> string \<Rightarrow> bool" where
  "startswith s [] = True"
| "startswith [] (k # ks) = False"
| "startswith (c # s) (k # ks) = (c = k \<and> startswith s ks)"

fun py_in :: "string \<Rightarrow> string \<Rightarrow> bool" where
  "py_in k [] = (k = [])"
| "py_in k (c # s) = (startswith (c # s) k \<or> py_in k s)"

text \<open>The separator \<open>"\n\n"\<close> of the dedup key.\<close>

definition nl2 :: string where
  "nl2 = [CHR 0x0A, CHR 0x0A]"

text \<open>Python's slice \<open>xs[:n]\<close>: a negative \<open>n\<close> counts from the end.\<close>

definition py_slice_to :: "'a list \<Rightarrow> int \<Rightarrow> 'a list" where
  "py_slice_to xs n =
     (if 0 \<le> n then take (nat n) xs else take (length xs - nat (- n)) xs)"

section \<open>Errors\<close>

text \<open>
  The exceptions of both programs.  \<open>DatasetLoadError\<close> stands for whatever
  \<open>load_dataset\<close> raises and \<open>PopenError\<close> for whatever \<open>subprocess.Popen\<close> raises;
  \<open>TimeoutExpired\<close> carries the timeout it was raised with, \<open>CalledProcessError\<close> the
  exit code and \<open>Exit\<close> the code of \<open>typer.Exit\<close>.
\<close>

datatype py_error =
    FileNotFoundError
  | ValueError
  | TypeError
  | IndexError
  | DatasetLoadError
  | CalledProcessError int
  | TimeoutExpired rat
  | UnicodeDecodeError
  | PopenError
  | Exit int

section \<open>Dataset canonicalization and deduplication (scripts/dataset_prep.py)\<close>

subsection \<open>Config structures\<close>

record DatasetEntry =
  entry_name :: string
  entry_hf_name :: string
  entry_subset :: "string option"
  entry_split :: string
  entry_prompt_field :: string
  entry_response_field :: string
  entry_context_field :: "string option"
  entry_language :: "string option"
  entry_max_examples :: "int option"

record PrepConfig =
  cfg_output_dir :: string
  cfg_langs :: "string list"
  cfg_max_per_dataset :: int
  cfg_metadata_file :: string
  cfg_cache_dir :: string
  cfg_seed :: int

subsection \<open>Dedup state\<close>

text \<open>
  What \<open>json.load\<close> returns (booleans and floats are left out), and what is found at
  the path of the dedup state: no file, a file that cannot be opened or parsed, or a
  parsed JSON value.
\<close>

datatype json =
    JNull
  | JNum int
  | JStr string
  | JList "json list"
  | JObj "(string \<times> json) list"

datatype state_file = Absent | Unparsable | Parsed json

fun hashable :: "json \<Rightarrow> bool" where
  "hashable (JList xs) = False"
| "hashable (JObj kvs) = False"
| "hashable j = True"

fun is_JStr :: "json \<Rightarrow> bool" where
  "is_JStr (JStr s) = True"
| "is_JStr j = False"

fun is_JNum :: "json \<Rightarrow> bool" where
  "is_JNum (JNum n) = True"
| "is_JNum j = False"

fun str_of :: "json \<Rightarrow> string" where
  "str_of (JStr s) = s"
| "str_of j = []"

fun num_of :: "json \<Rightarrow> int" where
  "num_of (JNum n) = n"
| "num_of j = 0"

record DedupState =
  seen_hashes :: "json set"

text \<open>
  \<open>DedupState.load\<close>: every exception (the file cannot be parsed, the value is not a
  list, \<open>set(hashes)\<close> meets an unhashable element) is caught and gives the empty set.
\<close>

definition DedupState_load :: "state_file \<Rightarrow> DedupState" where
  "DedupState_load path =
     (case path of
        Absent \<Rightarrow> \<lparr>seen_hashes = {}\<rparr>
      | Unparsable \<Rightarrow> \<lparr>seen_hashes = {}\<rparr>
      | Parsed hashes \<Rightarrow>
          (case hashes of
             JList xs \<Rightarrow>
               if list_all hashable xs then \<lparr>seen_hashes = set xs\<rparr>
               else \<lparr>seen_hashes = {}\<rparr>
           | _ \<Rightarrow> \<lparr>seen_hashes = {}\<rparr>))"

text \<open>
  \<open>sorted(self.seen_hashes)\<close>: strings compare by code point, numbers by value, and
  comparing values of different kinds (or two \<open>None\<close>) raises \<open>TypeError\<close>.
\<close>

definition py_sorted :: "json set \<Rightarrow> py_error + json list" where
  "py_sorted S =
     (if Ball S is_JStr then Inr (map JStr (sorted_list_of_set (str_of ` S)))
      else if Ball S is_JNum then Inr (map JNum (sorted_list_of_set (num_of ` S)))
      else if S = {JNull} then Inr [JNull]
      else Inl TypeError)"

text \<open>
  \<open>DedupState.save\<close> returns what it raised, if anything, and the new content of the
  state file.  The file is opened for writing, hence truncated, before the set is
  sorted: when sorting raises, an empty file is left, which does not parse.
\<close>

definition DedupState_save :: "DedupState \<Rightarrow> py_error option \<times> state_file" where
  "DedupState_save self =
     (case py_sorted (seen_hashes self) of
        Inl e \<Rightarrow> (Some e, Unparsable)
      | Inr xs \<Rightarrow> (None, Parsed (JList xs)))"

definition is_new :: "DedupState \<Rightarrow> string \<Rightarrow> bool \<times> DedupState" where
  "is_new self key =
     (if JStr key \<in> seen_hashes self then (False, self)
      else (True, self\<lparr>seen_hashes := insert (JStr key) (seen_hashes self)\<rparr>))"

subsection \<open>Core processing\<close>

text \<open>
  A row of a source dataset is a dictionary from field names to values; a value is
  \<open>None\<close> or is given by its \<open>str()\<close> rendering.
\<close>

datatype cell = CNone | CStr string

fun py_str :: "cell \<Rightarrow> string" where
  "py_str CNone = ''None''"
| "py_str (CStr s) = s"

type_synonym row = "(string \<times> cell) list"

record canonical =
  c_prompt :: string
  c_response :: string
  c_language :: string
  c_task :: string
  c_context :: "string option"
  c_source :: string

definition infer_task_from_name :: "string \<Rightarrow> string" where
  "infer_task_from_name name =
     (let lower = lower name
      in if list_ex (\<lambda>k. py_in k lower) [''dialog'', ''chat'', ''conversation'']
         then ''dialog''
         else if list_ex (\<lambda>k. py_in k lower) [''reason'', ''cot'', ''step'']
         then ''reasoning''
         else if list_ex (\<lambda>k. py_in k lower) [''retrieval'', ''qa'', ''q&a'', ''rag'']
         then ''retrieval''
         else ''instruction'')"

text \<open>
  The body of the loop \<open>for ex in ds\<close> of \<open>iter_examples_for_entry\<close>: \<open>None\<close> when
  the row is skipped (a missing field, an empty prompt or response, a language outside
  the allow-list), else the canonical example that is yielded.
\<close>

definition canonical_of_row :: "DatasetEntry \<Rightarrow> PrepConfig \<Rightarrow> row \<Rightarrow> canonical option" where
  "canonical_of_row entry cfg ex =
     (case map_of ex (entry_prompt_field entry) of
        None \<Rightarrow> None
      | Some pv \<Rightarrow>
          (case map_of ex (entry_response_field entry) of
             None \<Rightarrow> None
           | Some rv \<Rightarrow>
               (let prompt = strip (py_str pv);
                    response = strip (py_str rv)
                in if prompt = [] \<or> response = [] then None
                   else
                     (let context =
                            (case entry_context_field entry of
                               None \<Rightarrow> None
                             | Some cf \<Rightarrow>
                                 if cf = [] then None
                                 else
                                   (case map_of ex cf of
                                      None \<Rightarrow> None
                                    | Some CNone \<Rightarrow> None
                                    | Some c_val \<Rightarrow>
                                        (let c = strip (py_str c_val)
                                         in if c = [] then None else Some c)));
                          lang =
                            (case entry_language entry of
                               None \<Rightarrow> ''unknown''
                             | Some l \<Rightarrow> if l = [] then ''unknown'' else l)
                      in if cfg_langs cfg \<noteq> [] \<and> \<not> List.member (cfg_langs cfg) lang
                            \<and> lang \<noteq> ''unknown''
                         then None
                         else Some \<lparr>c_prompt = prompt, c_response = response,
                                    c_language = lang,
                                    c_task = infer_task_from_name (entry_name entry),
                                    c_context = context,
                                    c_source = entry_name entry\<rparr>))))"

text \<open>
  \<open>max_examples = entry.max_examples or cfg.max_per_dataset\<close>: Python's \<open>or\<close> takes
  the right operand when the left one is \<open>None\<close> or \<open>0\<close>.
\<close>

definition effective_max_examples :: "DatasetEntry \<Rightarrow> PrepConfig \<Rightarrow> int" where
  "effective_max_examples entry cfg =
     (case entry_max_examples entry of
        None \<Rightarrow> cfg_max_per_dataset cfg
      | Some n \<Rightarrow> if n \<noteq> 0 then n else cfg_max_per_dataset cfg)"

text \<open>\<open>ds.select(indices)\<close> raises on an index that is out of range.\<close>

definition select :: "'a list \<Rightarrow> nat list \<Rightarrow> py_error + 'a list" where
  "select ds indices =
     (if list_all (\<lambda>i. i < length ds) indices then Inr (map (\<lambda>i. ds ! i) indices)
      else Inl IndexError)"

text \<open>
  The rows kept by the block \<open># Subsample if needed\<close>.  \<open>shuffle\<close> is
  \<open>random.shuffle\<close> on the state \<open>g\<close> of the process-wide generator, which
  \<open>parse_args\<close> seeds: it returns the shuffled list and the next state.
\<close>

definition subsample ::
  "('g \<Rightarrow> nat list \<Rightarrow> nat list \<times> 'g) \<Rightarrow> DatasetEntry \<Rightarrow> PrepConfig \<Rightarrow> 'a list \<Rightarrow> 'g
     \<Rightarrow> py_error + ('a list \<times> 'g)" where
  "subsample shuffle entry cfg ds g =
     (let max_examples = effective_max_examples entry cfg
      in if max_examples \<noteq> 0 \<and> int (length ds) > max_examples
         then
           (case shuffle g [0..<length ds] of
              (indices, g') \<Rightarrow>
                (case select ds (py_slice_to indices max_examples) of
                   Inl e \<Rightarrow> Inl e
                 | Inr ds' \<Rightarrow> Inr (ds', g')))
         else Inr (ds, g))"

text \<open>
  \<open>iter_examples_for_entry\<close>, with the examples it yields collected in a list.
  \<open>load_dataset\<close> is the external source: it is given \<open>path\<close>, \<open>name\<close> (the subset,
  when it is not empty), \<open>split\<close> and \<open>cache_dir\<close>, and returns the rows or raises.
\<close>

definition iter_examples_for_entry ::
  "(string \<Rightarrow> string option \<Rightarrow> string \<Rightarrow> string \<Rightarrow> py_error + row list)
     \<Rightarrow> ('g \<Rightarrow> nat list \<Rightarrow> nat list \<times> 'g) \<Rightarrow> DatasetEntry \<Rightarrow> PrepConfig \<Rightarrow> 'g
     \<Rightarrow> py_error + (canonical list \<times> 'g)" where
  "iter_examples_for_entry load_dataset shuffle entry cfg g =
     (case load_dataset (entry_hf_name entry)
             (case entry_subset entry of
                None \<Rightarrow> None
              | Some s \<Rightarrow> if s = [] then None else Some s)
             (entry_split entry) (cfg_cache_dir cfg) of
        Inl e \<Rightarrow> Inl e
      | Inr ds \<Rightarrow>
          (case subsample shuffle entry cfg ds g of
             Inl e \<Rightarrow> Inl e
           | Inr (ds', g') \<Rightarrow> Inr (List.map_filter (canonical_of_row entry cfg) ds', g')))"

subsection \<open>The run\<close>

text \<open>
  The corpus file is modelled by the rows it holds, one per line in the file
  (\<open>json.dumps\<close> of the row); the files of the output directory are the corpus and
  the dedup state.  \<open>sha1\<close> is \<open>sha1(s.encode("utf-8")).hexdigest()\<close>.
\<close>

record dataset_fs =
  corpus :: "canonical list"
  dedup_state_file :: state_file

record run_state =
  dedup :: DedupState
  out_f :: "canonical list"
  total_seen :: nat
  total_written :: nat
  total_skipped_dup :: nat

definition dedup_message :: "canonical \<Rightarrow> string" where
  "dedup_message canonical = c_prompt canonical @ nl2 @ c_response canonical"

text \<open>The body of the loop \<open>for canonical in iter_examples_for_entry(entry, cfg)\<close>.\<close>

definition emit :: "(string \<Rightarrow> string) \<Rightarrow> run_state \<Rightarrow> canonical \<Rightarrow> run_state" where
  "emit sha1 st canonical =
     (let st1 = st\<lparr>total_seen := total_seen st + 1\<rparr>;
          key = sha1 (dedup_message canonical)
      in case is_new (dedup st1) key of
           (new, d) \<Rightarrow>
             if \<not> new
             then st1\<lparr>dedup := d, total_skipped_dup := total_skipped_dup st1 + 1\<rparr>
             else st1\<lparr>dedup := d, out_f := out_f st1 @ [canonical],
                      total_written := total_written st1 + 1\<rparr>)"

text \<open>
  The loop \<open>for entry in entries\<close>.  An exception of \<open>iter_examples_for_entry\<close> leaves
  the loop with the rows written so far.
\<close>

fun process_entries ::
  "(string \<Rightarrow> string)
     \<Rightarrow> (string \<Rightarrow> string option \<Rightarrow> string \<Rightarrow> string \<Rightarrow> py_error + row list)
     \<Rightarrow> ('g \<Rightarrow> nat list \<Rightarrow> nat list \<times> 'g) \<Rightarrow> PrepConfig \<Rightarrow> DatasetEntry list \<Rightarrow> 'g
     \<Rightarrow> run_state \<Rightarrow> py_error option \<times> run_state" where
  "process_entries sha1 load_dataset shuffle cfg [] g st = (None, st)"
| "process_entries sha1 load_dataset shuffle cfg (entry # entries) g st =
     (case iter_examples_for_entry load_dataset shuffle entry cfg g of
        Inl e \<Rightarrow> (Some e, st)
      | Inr (exs, g') \<Rightarrow>
          process_entries sha1 load_dataset shuffle cfg entries g' (foldl (emit sha1) st exs))"

record prep_result =
  raised :: "py_error option"
  fs_after :: dataset_fs
  seen_count :: nat
  written_count :: nat
  skipped_dup_count :: nat

text \<open>
  \<open>prepare_datasets\<close>, on the entries that \<open>load_metadata\<close> returned.  The dedup
  state is saved only when the loop over the entries ends without an exception.
\<close>

definition prepare_datasets ::
  "(string \<Rightarrow> string)
     \<Rightarrow> (string \<Rightarrow> string option \<Rightarrow> string \<Rightarrow> string \<Rightarrow> py_error + row list)
     \<Rightarrow> ('g \<Rightarrow> nat list \<Rightarrow> nat list \<times> 'g) \<Rightarrow> PrepConfig \<Rightarrow> DatasetEntry list \<Rightarrow> 'g
     \<Rightarrow> dataset_fs \<Rightarrow> prep_result" where
  "prepare_datasets sha1 load_dataset shuffle cfg entries g fs =
     (let dedup0 = DedupState_load (dedup_state_file fs)
      in case process_entries sha1 load_dataset shuffle cfg entries g
                \<lparr>dedup = dedup0, out_f = corpus fs, total_seen = 0, total_written = 0,
                 total_skipped_dup = 0\<rparr> of
           (err, st) \<Rightarrow>
             (case err of
                Some e \<Rightarrow>
                  \<lparr>raised = Some e, fs_after = fs\<lparr>corpus := out_f st\<rparr>,
                   seen_count = total_seen st, written_count = total_written st,
                   skipped_dup_count = total_skipped_dup st\<rparr>
              | None \<Rightarrow>
                  (case DedupState_save (dedup st) of
                     (r, file) \<Rightarrow>
                       \<lparr>raised = r,
                        fs_after = \<lparr>corpus = out_f st, dedup_state_file = file\<rparr>,
                        seen_count = total_seen st, written_count = total_written st,
                        skipped_dup_count = total_skipped_dup st\<rparr>)))"

text \<open>\<open>main\<close> returns 1 when \<open>prepare_datasets\<close> raises and 0 otherwise.\<close>

definition main_status :: "prep_result \<Rightarrow> int" where
  "main_status r = (case raised r of None \<Rightarrow> 0 | Some e \<Rightarrow> 1)"

section \<open>Stage orchestration (mongars_factory_cli.py)\<close>

subsection \<open>Data structures\<close>

type_synonym env = "string \<rightharpoonup> string"

record StageConfig =
  stage_enabled :: bool
  stage_script :: string
  stage_args :: "(string \<times> string) list"
  stage_env :: env
  stage_timeout_seconds :: "rat option"

record UnslothTaskConfig =
  task_name :: string
  task_args :: "(string \<times> string) list"
  task_env :: env

record UnslothConfig =
  unsloth_enabled :: bool
  unsloth_script :: string
  unsloth_env :: env
  unsloth_tasks :: "(string \<times> UnslothTaskConfig) list"

record FactoryConfig =
  fc_project_root :: string
  fc_python_bin :: string
  fc_model_profile :: string
  fc_datasets :: "StageConfig option"
  fc_embeddings :: "StageConfig option"
  fc_unsloth :: "UnslothConfig option"
  fc_export :: "StageConfig option"
  fc_mlc_export :: "StageConfig option"
  fc_global_env :: env
  fc_run_logs_dir :: string

subsection \<open>The host\<close>

text \<open>
  What a child process does, as the runner can observe it: the lines that the runner
  reads from its output, whether that output then reaches end of file (\<open>stdout_decodes\<close>)
  or the next read raises \<open>UnicodeDecodeError\<close> because the bytes are not text in the
  locale's encoding, the time after its start at which the output reaches end of file,
  the time after its start at which it exits when left alone, and its exit code.  Times
  are in seconds; every child closes its output and exits at some time.
\<close>

record child =
  stdout_lines :: "string list"
  stdout_decodes :: bool
  stdout_closes_at :: rat
  exits_at :: rat
  returncode :: int

text \<open>
  The host: the inherited environment \<open>os.environ\<close> and, for a command, an
  environment and a working directory, the child that \<open>subprocess.Popen\<close> starts, or
  \<open>None\<close> when \<open>subprocess.Popen\<close> raises.
\<close>

record host =
  os_environ :: env
  popen :: "string list \<Rightarrow> env \<Rightarrow> string \<Rightarrow> child option"

text \<open>
  What happens to child processes: \<open>Popen\<close> starts one or fails to; a started child is
  reaped with its exit code, killed, or left behind by an exception of the loop that
  reads its output.
\<close>

datatype event =
    Spawned "string list"
  | SpawnFailed "string list"
  | Exited "string list" int
  | Killed "string list"
  | Abandoned "string list"

record stage_row =
  row_name :: string
  row_status :: string
  row_elapsed :: rat
  row_note :: string

text \<open>The run summary document, without its two timestamps.\<close>

record run_summary =
  sum_command :: string
  sum_elapsed_seconds :: rat
  sum_stages :: "stage_row list"
  sum_model_profile :: string
  sum_log_dir :: string

text \<open>
  The world the orchestrator acts on: the paths at which a file or a directory exists,
  those of them that are directories, the text files by their lines (the stage logs, and
  any other file such as the corpus and the dedup state), the summary documents written,
  and what happened to child processes, in order.  A file can be created and written in
  every directory that exists; permissions and the space on the device are left out, and
  so is what the orchestrator prints on its console.
\<close>

record world =
  existing :: "string set"
  directories :: "string set"
  files :: "string \<rightharpoonup> string list"
  summaries :: "string \<rightharpoonup> run_summary"
  trace :: "event list"

fun is_failure :: "event \<Rightarrow> bool" where
  "is_failure (Spawned c) = False"
| "is_failure (SpawnFailed c) = True"
| "is_failure (Exited c rc) = (rc \<noteq> 0)"
| "is_failure (Killed c) = True"
| "is_failure (Abandoned c) = True"

text \<open>
  The directory of a path (\<open>Path.parent\<close>): what precedes its last slash.
\<close>

definition dirname :: "string \<Rightarrow> string" where
  "dirname path = rev (drop 1 (dropWhile (\<lambda>c. c \<noteq> CHR ''/'') (rev path)))"

subsection \<open>Utilities\<close>

definition replace_char :: "char \<Rightarrow> char \<Rightarrow> string \<Rightarrow> string" where
  "replace_char a b s = map (\<lambda>c. if c = a then b else c) s"

fun dict_to_cli_args :: "(string \<times> string) list \<Rightarrow> string list" where
  "dict_to_cli_args [] = []"
| "dict_to_cli_args ((key, v) # args) =
     (''--'' @ replace_char (CHR ''_'') (CHR ''-'') key) # v # dict_to_cli_args args"

fun join_space :: "string list \<Rightarrow> string" where
  "join_space [] = []"
| "join_space [x] = x"
| "join_space (x # y # ys) = x @ '' '' @ join_space (y # ys)"

definition MONGARS_MODEL_PROFILE :: string where
  "MONGARS_MODEL_PROFILE = ''MONGARS_MODEL_PROFILE''"

subsection \<open>Configuration\<close>

text \<open>
  The part of \<open>load_factory_config\<close> that builds the model profile and the global
  environment, from the values of the keys \<open>model_profile\<close> and \<open>global_env\<close> of the
  configuration mapping (\<open>None\<close> when the key is missing).
\<close>

definition load_model_profile :: "string option \<Rightarrow> py_error + string" where
  "load_model_profile raw =
     (let model_profile = strip (case raw of None \<Rightarrow> ''monGARS_webLLM'' | Some v \<Rightarrow> v)
      in if model_profile = [] then Inl ValueError else Inr model_profile)"

definition load_global_env :: "env option \<Rightarrow> string \<Rightarrow> env" where
  "load_global_env global_env_raw model_profile =
     (case global_env_raw of None \<Rightarrow> Map.empty | Some g \<Rightarrow> g)
       (MONGARS_MODEL_PROFILE \<mapsto> model_profile)"

subsection \<open>Environment composer\<close>

text \<open>
  \<open>_build_env\<close>.  An argument that is \<open>None\<close> is skipped; so is an empty dictionary,
  and merging it would change nothing.  \<open>setdefault\<close> inserts the marker only when the
  key is absent.
\<close>

definition build_env :: "env \<Rightarrow> env option \<Rightarrow> env option \<Rightarrow> string option \<Rightarrow> env" where
  "build_env environ global_env extra model_profile =
     (let merged = environ;
          merged = (case global_env of None \<Rightarrow> merged | Some g \<Rightarrow> merged ++ g);
          merged = (case extra of None \<Rightarrow> merged | Some e \<Rightarrow> merged ++ e)
      in case model_profile of
           None \<Rightarrow> merged
         | Some p \<Rightarrow>
             if p = [] then merged
             else (case merged MONGARS_MODEL_PROFILE of
                     None \<Rightarrow> merged(MONGARS_MODEL_PROFILE \<mapsto> p)
                   | Some v \<Rightarrow> merged))"

subsection \<open>Process runner\<close>

text \<open>
  \<open>log_file.open("a")\<close>, when there is a log file: it raises \<open>FileNotFoundError\<close> when
  the directory of the file does not exist, and creates the file when the file does not
  exist.  \<open>log_write\<close> writes lines to the file that is open.
\<close>

definition log_open :: "string option \<Rightarrow> world \<Rightarrow> py_error + world" where
  "log_open log_file w =
     (case log_file of
        None \<Rightarrow> Inr w
      | Some path \<Rightarrow>
          if dirname path \<notin> directories w then Inl FileNotFoundError
          else Inr (w\<lparr>files := (files w)(path \<mapsto> (case files w path of None \<Rightarrow> [] | Some old \<Rightarrow> old)),
                      existing := insert path (existing w)\<rparr>))"

definition log_write :: "string option \<Rightarrow> string list \<Rightarrow> world \<Rightarrow> world" where
  "log_write log_file ls w =
     (case log_file of
        None \<Rightarrow> w
      | Some path \<Rightarrow>
          w\<lparr>files := (files w)(path \<mapsto> (case files w path of None \<Rightarrow> [] | Some old \<Rightarrow> old) @ ls)\<rparr>)"

text \<open>
  \<open>proc.wait(timeout=timeout)\<close> is reached when the loop over \<open>proc.stdout\<close> ends,
  that is at end of file of the child's output.  It raises when the child has not
  exited by then and does not exit within the timeout; \<open>wait_timeout\<close> is the timeout
  it raises with, if it does.
\<close>

definition wait_timeout :: "child \<Rightarrow> rat option \<Rightarrow> rat option" where
  "wait_timeout proc timeout =
     (case timeout of
        None \<Rightarrow> None
      | Some t \<Rightarrow>
          if stdout_closes_at proc < exits_at proc \<and> stdout_closes_at proc + t < exits_at proc
          then Some t else None)"

text \<open>
  \<open>_run_subprocess\<close>: the elapsed seconds or the exception, and the world after.  The
  timestamps of the log's header and footer are left out.  The log is opened before the
  \<open>try\<close> statement, so an exception of the opening leaves no footer; \<open>Popen\<close>, the loop
  over the output and the wait are inside it, so the footer is written after their
  exceptions too.  An exception of the loop is not caught: the child is neither waited
  for nor killed.
\<close>

definition run_subprocess ::
  "host \<Rightarrow> string list \<Rightarrow> env \<Rightarrow> string \<Rightarrow> bool \<Rightarrow> rat option \<Rightarrow> string option \<Rightarrow> world
     \<Rightarrow> (py_error + rat) \<times> world" where
  "run_subprocess h command env cwd dry_run timeout log_file w =
     (if command = [] then (Inl ValueError, w)
      else if dry_run then (Inr 0, w)
      else
        (case log_open log_file w of
           Inl e \<Rightarrow> (Inl e, w)
         | Inr w0 \<Rightarrow>
             (let cmd_str = join_space command;
                  w1 = log_write log_file [''# Command: '' @ cmd_str, ''# Started'', ''''] w0
              in case popen h command env cwd of
                   None \<Rightarrow>
                     (Inl PopenError,
                      log_write log_file ['''', ''# Finished'']
                        (w1\<lparr>trace := trace w1 @ [SpawnFailed command]\<rparr>))
                 | Some proc \<Rightarrow>
                     (let w2 = w1\<lparr>trace := trace w1 @ [Spawned command]\<rparr>;
                          w3 = log_write log_file (stdout_lines proc) w2
                      in if \<not> stdout_decodes proc
                         then (Inl UnicodeDecodeError,
                               log_write log_file ['''', ''# Finished'']
                                 (w3\<lparr>trace := trace w3 @ [Abandoned command]\<rparr>))
                         else
                           (case wait_timeout proc timeout of
                              Some t \<Rightarrow>
                                (Inl (TimeoutExpired t),
                                 log_write log_file ['''', ''# Finished'']
                                   (w3\<lparr>trace := trace w3 @ [Killed command]\<rparr>))
                            | None \<Rightarrow>
                                (let w4 = w3\<lparr>trace := trace w3 @
                                            [Exited command (returncode proc)]\<rparr>;
                                     w5 = log_write log_file ['''', ''# Finished''] w4
                                 in if returncode proc \<noteq> 0
                                    then (Inl (CalledProcessError (returncode proc)), w5)
                                    else (Inr (max (stdout_closes_at proc) (exits_at proc)),
                                          w5)))))))"

subsection \<open>Stage runners\<close>

definition log_path :: "string option \<Rightarrow> string \<Rightarrow> string option" where
  "log_path run_dir file_name =
     (case run_dir of None \<Rightarrow> None | Some d \<Rightarrow> Some (d @ ''/'' @ file_name))"

definition run_stage ::
  "host \<Rightarrow> string \<Rightarrow> StageConfig \<Rightarrow> string \<Rightarrow> string \<Rightarrow> env option \<Rightarrow> string option
     \<Rightarrow> string option \<Rightarrow> bool \<Rightarrow> world \<Rightarrow> (py_error + rat) \<times> world" where
  "run_stage h stage_name cfg python_bin project_root global_env model_profile run_dir dry_run w =
     (if \<not> stage_enabled cfg then (Inr 0, w)
      else if stage_script cfg \<notin> existing w then (Inl FileNotFoundError, w)
      else
        (let command = [python_bin, stage_script cfg] @ dict_to_cli_args (stage_args cfg);
             env = build_env (os_environ h) global_env (Some (stage_env cfg)) model_profile;
             log_file = log_path run_dir (stage_name @ ''.log'')
         in run_subprocess h command env project_root dry_run (stage_timeout_seconds cfg)
              log_file w))"

definition run_unsloth_task ::
  "host \<Rightarrow> string \<Rightarrow> UnslothConfig \<Rightarrow> UnslothTaskConfig \<Rightarrow> string \<Rightarrow> string \<Rightarrow> env option
     \<Rightarrow> string option \<Rightarrow> string option \<Rightarrow> bool \<Rightarrow> world \<Rightarrow> (py_error + rat) \<times> world" where
  "run_unsloth_task h name cfg task_cfg python_bin project_root global_env model_profile
       run_dir dry_run w =
     (if \<not> unsloth_enabled cfg then (Inr 0, w)
      else if unsloth_script cfg \<notin> existing w then (Inl FileNotFoundError, w)
      else
        (let base_args =
               (if map_of (task_args task_cfg) ''task'' = None
                then task_args task_cfg @ [(''task'', name)] else task_args task_cfg);
             command = [python_bin, unsloth_script cfg] @ dict_to_cli_args base_args;
             env = build_env (os_environ h) global_env
                     (Some (unsloth_env cfg ++ task_env task_cfg)) model_profile;
             log_file = log_path run_dir (''unsloth_'' @ name @ ''.log'')
         in run_subprocess h command env project_root dry_run None log_file w))"

subsection \<open>The full pipeline\<close>

record run_all_state =
  grand_total :: rat
  summary :: "stage_row list"
  exit_code :: int

text \<open>Sequencing: an exception ends the invocation with the world as it is then.\<close>

definition and_then ::
  "(py_error + 'a) \<times> world \<Rightarrow> ('a \<Rightarrow> world \<Rightarrow> (py_error + 'b) \<times> world)
     \<Rightarrow> (py_error + 'b) \<times> world" where
  "and_then r f = (case r of (Inl e, w) \<Rightarrow> (Inl e, w) | (Inr x, w) \<Rightarrow> f x w)"

definition record_stage ::
  "host \<Rightarrow> FactoryConfig \<Rightarrow> bool \<Rightarrow> string \<Rightarrow> string \<Rightarrow> StageConfig option \<Rightarrow> bool
     \<Rightarrow> run_all_state \<Rightarrow> world \<Rightarrow> (py_error + run_all_state) \<times> world" where
  "record_stage h cfg dry_run run_dir name stage_cfg required st w =
     (case (case stage_cfg of None \<Rightarrow> None
                            | Some sc \<Rightarrow> if stage_enabled sc then Some sc else None) of
        Some sc \<Rightarrow>
          and_then
            (run_stage h name sc (fc_python_bin cfg) (fc_project_root cfg)
               (Some (fc_global_env cfg)) (Some (fc_model_profile cfg)) (Some run_dir) dry_run w)
            (\<lambda>elapsed w'.
               (Inr (st\<lparr>grand_total := grand_total st + elapsed,
                        summary := summary st @
                          [\<lparr>row_name = name, row_status = ''ran'', row_elapsed = elapsed,
                            row_note = run_dir @ ''/'' @ name @ ''.log''\<rparr>]\<rparr>), w'))
      | None \<Rightarrow>
          (let note = (if stage_cfg \<noteq> None then ''disabled'' else ''not configured'');
               st1 = (if required then st\<lparr>exit_code := 1\<rparr> else st)
           in (Inr (st1\<lparr>summary := summary st1 @
                          [\<lparr>row_name = name, row_status = ''skipped'', row_elapsed = 0,
                            row_note = note\<rparr>]\<rparr>), w)))"

text \<open>The loop over the tasks of \<open>_handle_unsloth\<close>.\<close>

fun run_unsloth_tasks ::
  "host \<Rightarrow> FactoryConfig \<Rightarrow> bool \<Rightarrow> string \<Rightarrow> UnslothConfig
     \<Rightarrow> (string \<times> UnslothTaskConfig) list \<Rightarrow> run_all_state \<Rightarrow> world
     \<Rightarrow> (py_error + run_all_state) \<times> world" where
  "run_unsloth_tasks h cfg dry_run run_dir ucfg [] st w = (Inr st, w)"
| "run_unsloth_tasks h cfg dry_run run_dir ucfg ((name, task_cfg) # tasks) st w =
     and_then
       (run_unsloth_task h name ucfg task_cfg (fc_python_bin cfg) (fc_project_root cfg)
          (Some (fc_global_env cfg)) (Some (fc_model_profile cfg)) (Some run_dir) dry_run w)
       (\<lambda>elapsed w'.
          run_unsloth_tasks h cfg dry_run run_dir ucfg tasks
            (st\<lparr>grand_total := grand_total st + elapsed,
                summary := summary st @
                  [\<lparr>row_name = ''unsloth:'' @ name, row_status = ''ran'', row_elapsed = elapsed,
                    row_note = run_dir @ ''/unsloth_'' @ name @ ''.log''\<rparr>]\<rparr>) w')"

definition handle_unsloth ::
  "host \<Rightarrow> FactoryConfig \<Rightarrow> bool \<Rightarrow> string \<Rightarrow> run_all_state \<Rightarrow> world
     \<Rightarrow> (py_error + run_all_state) \<times> world" where
  "handle_unsloth h cfg dry_run run_dir st w =
     (case (case fc_unsloth cfg of None \<Rightarrow> None
                                 | Some u \<Rightarrow> if unsloth_enabled u then Some u else None) of
        Some u \<Rightarrow>
          if unsloth_tasks u \<noteq> []
          then run_unsloth_tasks h cfg dry_run run_dir u (unsloth_tasks u) st w
          else (Inr (st\<lparr>summary := summary st @
                          [\<lparr>row_name = ''unsloth'', row_status = ''skipped'', row_elapsed = 0,
                            row_note = ''no tasks''\<rparr>]\<rparr>), w)
      | None \<Rightarrow>
          (let note = (if fc_unsloth cfg \<noteq> None then ''disabled'' else ''not configured'')
           in (Inr (st\<lparr>summary := summary st @
                          [\<lparr>row_name = ''unsloth'', row_status = ''skipped'', row_elapsed = 0,
                            row_note = note\<rparr>]\<rparr>), w)))"

text \<open>
  \<open>_start_run_dir\<close>: the run directory is named by the label and the time of the clock,
  and created in the directory of the run logs, which \<open>load_factory_config\<close> created.
\<close>

definition start_run_dir :: "string \<Rightarrow> string \<Rightarrow> string \<Rightarrow> world \<Rightarrow> string \<times> world" where
  "start_run_dir base_dir label timestamp_slug w =
     (let run_dir = base_dir @ ''/'' @ label @ ''_'' @ timestamp_slug
      in (run_dir, w\<lparr>directories := insert run_dir (directories w),
                      existing := insert run_dir (existing w)\<rparr>))"

text \<open>
  \<open>_write_run_summary\<close>: \<open>write_text\<close> opens the file and raises when its directory
  does not exist.
\<close>

definition write_run_summary :: "string \<Rightarrow> run_summary \<Rightarrow> world \<Rightarrow> py_error + world" where
  "write_run_summary run_dir doc w =
     (if run_dir \<notin> directories w then Inl FileNotFoundError
      else Inr (w\<lparr>summaries := (summaries w)(run_dir @ ''/summary.json'' \<mapsto> doc),
                  existing := insert (run_dir @ ''/summary.json'') (existing w)\<rparr>))"

text \<open>
  \<open>cli_run_all\<close>, on the configuration that \<open>load_factory_config\<close> returned and the
  time of the clock when the run directory is named.
\<close>

definition cli_run_all ::
  "host \<Rightarrow> FactoryConfig \<Rightarrow> bool \<Rightarrow> string \<Rightarrow> world \<Rightarrow> (py_error + unit) \<times> world" where
  "cli_run_all h cfg dry_run timestamp_slug w =
     (case start_run_dir (fc_run_logs_dir cfg) ''run_all'' timestamp_slug w of
        (run_dir, w0) \<Rightarrow>
     and_then
       (record_stage h cfg dry_run run_dir ''datasets'' (fc_datasets cfg) False
          \<lparr>grand_total = 0, summary = [], exit_code = 0\<rparr> w0)
       (\<lambda>st1 w1.
          and_then (record_stage h cfg dry_run run_dir ''embeddings'' (fc_embeddings cfg) False st1 w1)
            (\<lambda>st2 w2.
               and_then (handle_unsloth h cfg dry_run run_dir st2 w2)
                 (\<lambda>st3 w3.
                    and_then (record_stage h cfg dry_run run_dir ''export'' (fc_export cfg) False st3 w3)
                      (\<lambda>st4 w4.
                         and_then
                           (record_stage h cfg dry_run run_dir ''mlc_export'' (fc_mlc_export cfg)
                              True st4 w4)
                           (\<lambda>st5 w5.
                              (case write_run_summary run_dir
                                     \<lparr>sum_command = ''run-all'',
                                      sum_elapsed_seconds = grand_total st5,
                                      sum_stages = summary st5,
                                      sum_model_profile = fc_model_profile cfg,
                                      sum_log_dir = run_dir\<rparr> w5 of
                                 Inl e \<Rightarrow> (Inl e, w5)
                               | Inr w6 \<Rightarrow>
                                   if exit_code st5 \<noteq> 0 then (Inl (Exit (exit_code st5)), w6)
                                   else (Inr (), w6))))))))"

text \<open>
  The exit status of the process: that of \<open>typer.Exit\<close>, 1 for an exception that
  nothing catches, 0 when the command returns.
\<close>

fun exit_status :: "py_error + unit \<Rightarrow> int" where
  "exit_status (Inr u) = 0"
| "exit_status (Inl (Exit code)) = code"
| "exit_status (Inl e) = 1"

section \<open>The specification's words\<close>

text \<open>
  Case-insensitive substring containment, and the task label as the specification
  describes it: three keyword groups of three keywords each, then the default.
\<close>

definition contains_ci :: "string \<Rightarrow> string \<Rightarrow> bool" where
  "contains_ci name k = (\<exists>pre suf. lower name = pre @ k @ suf)"

definition spec_infer_task :: "string \<Rightarrow> string" where
  "spec_infer_task name =
     (if contains_ci name ''dialog'' \<or> contains_ci name ''chat''
         \<or> contains_ci name ''conversation''
      then ''dialog''
      else if contains_ci name ''reason'' \<or> contains_ci name ''cot''
         \<or> contains_ci name ''step''
      then ''reasoning''
      else if contains_ci name ''retrieval'' \<or> contains_ci name ''qa''
         \<or> contains_ci name ''rag''
      then ''retrieval''
      else ''instruction'')"


section \<open>Auxiliary definitions\<close>

text \<open>
  The canonical examples that a run meets, in order, up to the first exception of
  \<open>iter_examples_for_entry\<close>, and that exception.
\<close>

fun all_examples ::
  "(string \<Rightarrow> string option \<Rightarrow> string \<Rightarrow> string \<Rightarrow> py_error + row list)
     \<Rightarrow> ('g \<Rightarrow> nat list \<Rightarrow> nat list \<times> 'g) \<Rightarrow> PrepConfig \<Rightarrow> DatasetEntry list \<Rightarrow> 'g
     \<Rightarrow> py_error option \<times> canonical list" where
  "all_examples load_dataset shuffle cfg [] g = (None, [])"
| "all_examples load_dataset shuffle cfg (entry # entries) g =
     (case iter_examples_for_entry load_dataset shuffle entry cfg g of
        Inl e \<Rightarrow> (Some e, [])
      | Inr (exs, g') \<Rightarrow>
          (case all_examples load_dataset shuffle cfg entries g' of
             (r, rest) \<Rightarrow> (r, exs @ rest)))"

text \<open>The element of \<open>seen_hashes\<close> that stands for a canonical example.\<close>

definition dedup_key :: "(string \<Rightarrow> string) \<Rightarrow> canonical \<Rightarrow> json" where
  "dedup_key sha1 c = JStr (sha1 (dedup_message c))"

text \<open>The rows that a run appended to the corpus it found.\<close>

definition appended :: "dataset_fs \<Rightarrow> prep_result \<Rightarrow> canonical list" where
  "appended fs r = drop (length (corpus fs)) (corpus (fs_after r))"

text \<open>The state of \<open>prepare_datasets\<close> when the loop over the entries is left.\<close>

definition loop_state ::
  "(string \<Rightarrow> string)
     \<Rightarrow> (string \<Rightarrow> string option \<Rightarrow> string \<Rightarrow> string \<Rightarrow> py_error + row list)
     \<Rightarrow> ('g \<Rightarrow> nat list \<Rightarrow> nat list \<times> 'g) \<Rightarrow> PrepConfig \<Rightarrow> DatasetEntry list \<Rightarrow> 'g
     \<Rightarrow> dataset_fs \<Rightarrow> run_state" where
  "loop_state sha1 ld sh cfg entries g fs =
     foldl (emit sha1)
       \<lparr>dedup = DedupState_load (dedup_state_file fs), out_f = corpus fs,
        total_seen = 0, total_written = 0, total_skipped_dup = 0\<rparr>
       (snd (all_examples ld sh cfg entries g))"

text \<open>
  A run that has seen nothing, and the dedup decision on two canonical examples: the
  second is treated as a duplicate of the first when a run that starts from nothing and
  meets the first and then the second writes the first only.
\<close>

definition fresh_state :: run_state where
  "fresh_state =
     \<lparr>dedup = \<lparr>seen_hashes = {}\<rparr>, out_f = [], total_seen = 0, total_written = 0,
      total_skipped_dup = 0\<rparr>"

definition treated_as_duplicates :: "(string \<Rightarrow> string) \<Rightarrow> canonical \<Rightarrow> canonical \<Rightarrow> bool" where
  "treated_as_duplicates sha1 c1 c2 =
     (out_f (emit sha1 (emit sha1 fresh_state c1) c2) = [c1])"

text \<open>
  Events that are no failure, a list of events that ends with its only failure, the
  exception that the runner raises at a failure, the exceptions that a child makes the
  runner raise, and the events an invocation added to the trace.
\<close>

definition clean :: "event list \<Rightarrow> bool" where
  "clean evs = list_all (\<lambda>e. \<not> is_failure e) evs"

definition failed_last :: "event list \<Rightarrow> bool" where
  "failed_last evs = (evs \<noteq> [] \<and> is_failure (last evs) \<and> clean (butlast evs))"

fun raised_by :: "event \<Rightarrow> py_error \<Rightarrow> bool" where
  "raised_by (Spawned c) e = False"
| "raised_by (SpawnFailed c) e = (e = PopenError)"
| "raised_by (Exited c rc) e = (e = CalledProcessError rc)"
| "raised_by (Killed c) e = (case e of TimeoutExpired t \<Rightarrow> True | _ \<Rightarrow> False)"
| "raised_by (Abandoned c) e = (e = UnicodeDecodeError)"

fun child_error :: "py_error \<Rightarrow> bool" where
  "child_error (CalledProcessError rc) = True"
| "child_error (TimeoutExpired t) = True"
| "child_error UnicodeDecodeError = True"
| "child_error PopenError = True"
| "child_error e = False"

definition new_events :: "world \<Rightarrow> world \<Rightarrow> event list" where
  "new_events w w' = drop (length (trace w)) (trace w')"

text \<open>
  What a step of the pipeline does to the world: it extends the trace, writes no summary
  and removes no file and no directory; it returns after clean events, or raises
  \<open>FileNotFoundError\<close> after clean events when a script of \<open>S\<close> or a directory of \<open>D\<close> is
  missing, or raises the exception of its last event, the first failure.
\<close>

definition step_ok :: "string set \<Rightarrow> string set \<Rightarrow> world \<Rightarrow> (py_error + 'a) \<times> world \<Rightarrow> bool" where
  "step_ok S D w r =
     (\<exists>evs. trace (snd r) = trace w @ evs \<and> summaries (snd r) = summaries w
        \<and> existing w \<subseteq> existing (snd r) \<and> directories w \<subseteq> directories (snd r)
        \<and> (case fst r of
              Inr x \<Rightarrow> clean evs
            | Inl e \<Rightarrow>
                (e = FileNotFoundError \<and> clean evs
                   \<and> \<not> (S \<subseteq> existing w \<and> D \<subseteq> directories w))
                \<or> (failed_last evs \<and> raised_by (last evs) e)))"

text \<open>
  What the runner adds to the trace and what it returns, when the command is not empty
  and the log, if there is one, can be opened.
\<close>

definition runner_events :: "host \<Rightarrow> string list \<Rightarrow> env \<Rightarrow> string \<Rightarrow> bool \<Rightarrow> rat option \<Rightarrow> event list" where
  "runner_events h command env cwd dry_run timeout =
     (if dry_run then []
      else case popen h command env cwd of
             None \<Rightarrow> [SpawnFailed command]
           | Some proc \<Rightarrow>
               if \<not> stdout_decodes proc then [Spawned command, Abandoned command]
               else case wait_timeout proc timeout of
                      Some t \<Rightarrow> [Spawned command, Killed command]
                    | None \<Rightarrow> [Spawned command, Exited command (returncode proc)])"

definition runner_result :: "host \<Rightarrow> string list \<Rightarrow> env \<Rightarrow> string \<Rightarrow> bool \<Rightarrow> rat option \<Rightarrow> py_error + rat" where
  "runner_result h command env cwd dry_run timeout =
     (if dry_run then Inr 0
      else case popen h command env cwd of
             None \<Rightarrow> Inl PopenError
           | Some proc \<Rightarrow>
               if \<not> stdout_decodes proc then Inl UnicodeDecodeError
               else case wait_timeout proc timeout of
                      Some t \<Rightarrow> Inl (TimeoutExpired t)
                    | None \<Rightarrow>
                        if returncode proc \<noteq> 0 then Inl (CalledProcessError (returncode proc))
                        else Inr (max (stdout_closes_at proc) (exits_at proc)))"

definition log_dir :: "string option \<Rightarrow> string set" where
  "log_dir log_file = (case log_file of None \<Rightarrow> {} | Some path \<Rightarrow> {dirname path})"

text \<open>
  The scripts that the stages of a configuration need, the directories of the logs of
  its tasks, and whether it skips the required stage.
\<close>

definition stage_needs :: "StageConfig option \<Rightarrow> string set" where
  "stage_needs stage_cfg =
     (case stage_cfg of
        None \<Rightarrow> {}
      | Some sc \<Rightarrow> if stage_enabled sc then {stage_script sc} else {})"

definition unsloth_needs :: "UnslothConfig option \<Rightarrow> string set" where
  "unsloth_needs ucfg =
     (case ucfg of
        None \<Rightarrow> {}
      | Some u \<Rightarrow> if unsloth_enabled u \<and> unsloth_tasks u \<noteq> [] then {unsloth_script u} else {})"

definition needed_scripts :: "FactoryConfig \<Rightarrow> string set" where
  "needed_scripts cfg =
     stage_needs (fc_datasets cfg) \<union> stage_needs (fc_embeddings cfg)
       \<union> unsloth_needs (fc_unsloth cfg) \<union> stage_needs (fc_export cfg)
       \<union> stage_needs (fc_mlc_export cfg)"

definition task_log_dirs :: "string \<Rightarrow> (string \<times> UnslothTaskConfig) list \<Rightarrow> string set" where
  "task_log_dirs run_dir tasks =
     set (map (\<lambda>t. dirname (run_dir @ ''/'' @ ''unsloth_'' @ fst t @ ''.log'')) tasks)"

definition log_dirs :: "FactoryConfig \<Rightarrow> string \<Rightarrow> string set" where
  "log_dirs cfg run_dir =
     (case fc_unsloth cfg of
        None \<Rightarrow> {}
      | Some u \<Rightarrow> if unsloth_enabled u then task_log_dirs run_dir (unsloth_tasks u) else {})"

definition mlc_skipped :: "FactoryConfig \<Rightarrow> bool" where
  "mlc_skipped cfg =
     (case fc_mlc_export cfg of None \<Rightarrow> True | Some sc \<Rightarrow> \<not> stage_enabled sc)"

text \<open>
  The run directory of a run-all invocation, the world once it is created, and the two
  parts of \<open>cli_run_all\<close> after that: the stages, and the summary with the exit.
\<close>

definition run_all_dir :: "FactoryConfig \<Rightarrow> string \<Rightarrow> string" where
  "run_all_dir cfg timestamp_slug = fc_run_logs_dir cfg @ ''/'' @ ''run_all'' @ ''_'' @ timestamp_slug"

definition started :: "FactoryConfig \<Rightarrow> string \<Rightarrow> world \<Rightarrow> world" where
  "started cfg timestamp_slug w =
     snd (start_run_dir (fc_run_logs_dir cfg) ''run_all'' timestamp_slug w)"

definition stages :: "host \<Rightarrow> FactoryConfig \<Rightarrow> bool \<Rightarrow> string \<Rightarrow> world
     \<Rightarrow> (py_error + run_all_state) \<times> world" where
  "stages h cfg dry_run run_dir w =
     and_then
       (record_stage h cfg dry_run run_dir ''datasets'' (fc_datasets cfg) False
          \<lparr>grand_total = 0, summary = [], exit_code = 0\<rparr> w)
       (\<lambda>st1 w1.
          and_then (record_stage h cfg dry_run run_dir ''embeddings'' (fc_embeddings cfg) False st1 w1)
            (\<lambda>st2 w2.
               and_then (handle_unsloth h cfg dry_run run_dir st2 w2)
                 (\<lambda>st3 w3.
                    and_then (record_stage h cfg dry_run run_dir ''export'' (fc_export cfg) False st3 w3)
                      (\<lambda>st4 w4.
                         record_stage h cfg dry_run run_dir ''mlc_export'' (fc_mlc_export cfg)
                           True st4 w4))))"

definition finish :: "FactoryConfig \<Rightarrow> string \<Rightarrow> run_all_state \<Rightarrow> world \<Rightarrow> (py_error + unit) \<times> world" where
  "finish cfg run_dir st5 w5 =
     (case write_run_summary run_dir
             \<lparr>sum_command = ''run-all'',
              sum_elapsed_seconds = grand_total st5,
              sum_stages = summary st5,
              sum_model_profile = fc_model_profile cfg,
              sum_log_dir = run_dir\<rparr> w5 of
        Inl e \<Rightarrow> (Inl e, w5)
      | Inr w6 \<Rightarrow>
          if exit_code st5 \<noteq> 0 then (Inl (Exit (exit_code st5)), w6) else (Inr (), w6))"

definition stage_skipped :: "StageConfig option \<Rightarrow> bool" where
  "stage_skipped stage_cfg =
     (case stage_cfg of None \<Rightarrow> True | Some sc \<Rightarrow> \<not> stage_enabled sc)"

definition summary_path :: "string \<Rightarrow> string" where
  "summary_path run_dir = run_dir @ ''/summary.json''"

section \<open>Example inputs\<close>

text \<open>
  A source of three rows, a generator whose shuffle rotates the indices by its state,
  and a stand-in for the hash.
\<close>

definition demo_entry :: DatasetEntry where
  "demo_entry =
     \<lparr>entry_name = ''demo'', entry_hf_name = ''org/demo'', entry_subset = None,
      entry_split = ''train'', entry_prompt_field = ''prompt'',
      entry_response_field = ''response'', entry_context_field = None,
      entry_language = None, entry_max_examples = None\<rparr>"

definition demo_cfg :: PrepConfig where
  "demo_cfg =
     \<lparr>cfg_output_dir = ''out'', cfg_langs = [''en'', ''fr''], cfg_max_per_dataset = 2,
      cfg_metadata_file = ''meta.json'', cfg_cache_dir = ''cache'', cfg_seed = 42\<rparr>"

definition demo_rows :: "row list" where
  "demo_rows =
     [[(''prompt'', CStr ''p1''), (''response'', CStr ''r1'')],
      [(''prompt'', CStr ''p2''), (''response'', CStr ''r2'')],
      [(''prompt'', CStr ''p3''), (''response'', CStr ''r3'')]]"

definition demo_hub :: "string \<Rightarrow> string option \<Rightarrow> string \<Rightarrow> string \<Rightarrow> py_error + row list" where
  "demo_hub path name split cache_dir =
     (if path = ''org/demo'' then Inr demo_rows else Inl DatasetLoadError)"

text \<open>A source that the hub cannot load.\<close>

definition gone_entry :: DatasetEntry where
  "gone_entry = demo_entry\<lparr>entry_name := ''gone'', entry_hf_name := ''org/gone''\<rparr>"

definition demo_shuffle :: "nat \<Rightarrow> nat list \<Rightarrow> nat list \<times> nat" where
  "demo_shuffle g xs = (rotate g xs, Suc g)"

definition demo_hash :: "string \<Rightarrow> string" where
  "demo_hash s = rev s"

definition empty_fs :: dataset_fs where
  "empty_fs = \<lparr>corpus = [], dedup_state_file = Absent\<rparr>"

text \<open>An output directory whose dedup state holds the hash of the second row.\<close>

definition seeded_fs :: dataset_fs where
  "seeded_fs =
     \<lparr>corpus = [],
      dedup_state_file =
        Parsed (JList [JStr [CHR ''2'', CHR ''r'', CHR 0x0A, CHR 0x0A, CHR ''2'', CHR ''p'']])\<rparr>"

text \<open>
  Two canonical examples with different prompts and different responses but the same
  dedup message, the rows they come from, rows of two sources with the same trimmed
  prompt and response, and the files a first run leaves with the state file damaged.
\<close>

definition demo_c1 :: canonical where
  "demo_c1 = \<lparr>c_prompt = [CHR ''a'', CHR 0x0A, CHR 0x0A, CHR ''b''], c_response = ''c'',
      c_language = ''unknown'', c_task = ''instruction'', c_context = None, c_source = ''demo''\<rparr>"

definition demo_c2 :: canonical where
  "demo_c2 = \<lparr>c_prompt = ''a'', c_response = [CHR ''b'', CHR 0x0A, CHR 0x0A, CHR ''c''],
      c_language = ''unknown'', c_task = ''instruction'', c_context = None, c_source = ''demo''\<rparr>"

definition other_entry :: DatasetEntry where
  "other_entry =
     \<lparr>entry_name = ''other-chat'', entry_hf_name = ''org/other'', entry_subset = None,
      entry_split = ''train'', entry_prompt_field = ''q'',
      entry_response_field = ''a'', entry_context_field = None,
      entry_language = Some ''en'', entry_max_examples = None\<rparr>"

definition demo_row1 :: row where
  "demo_row1 = [(''prompt'', CStr '' Hi ''), (''response'', CStr ''Yo'')]"

definition demo_row2 :: row where
  "demo_row2 = [(''q'', CStr ''Hi''), (''a'', CStr [CHR ''Y'', CHR ''o'', CHR 0x0A])]"

definition demo_row3 :: row where
  "demo_row3 = [(''q'', CStr ''Hi''), (''a'', CStr ''Yo!'')]"

definition split_row1 :: row where
  "split_row1 =
     [(''prompt'', CStr [CHR ''a'', CHR 0x0A, CHR 0x0A, CHR ''b'']), (''response'', CStr ''c'')]"

definition split_row2 :: row where
  "split_row2 =
     [(''prompt'', CStr ''a''), (''response'', CStr [CHR ''b'', CHR 0x0A, CHR 0x0A, CHR ''c''])]"

definition corrupted_fs :: dataset_fs where
  "corrupted_fs =
     (fs_after (prepare_datasets demo_hash demo_hub demo_shuffle demo_cfg [demo_entry] 1 empty_fs))
       \<lparr>dedup_state_file := Unparsable\<rparr>"

text \<open>
  A host whose children succeed, fail, sleep or write bytes that are no text, by their
  script, a pipeline of the dataset stage and the export to MLC, and environments of
  three layers.
\<close>

definition ok_child :: child where
  "ok_child =
     \<lparr>stdout_lines = [''ok''], stdout_decodes = True, stdout_closes_at = 3, exits_at = 3,
      returncode = 0\<rparr>"

definition failing_child :: child where
  "failing_child =
     \<lparr>stdout_lines = [''boom''], stdout_decodes = True, stdout_closes_at = 2, exits_at = 2,
      returncode = 1\<rparr>"

definition sleeping_child :: child where
  "sleeping_child =
     \<lparr>stdout_lines = [], stdout_decodes = True, stdout_closes_at = 5, exits_at = 5,
      returncode = 0\<rparr>"

definition garbled_child :: child where
  "garbled_child =
     \<lparr>stdout_lines = [''ok''], stdout_decodes = False, stdout_closes_at = 3, exits_at = 3,
      returncode = 0\<rparr>"

definition demo_popen :: "string list \<Rightarrow> env \<Rightarrow> string \<Rightarrow> child option" where
  "demo_popen command env cwd =
     (case command of
        python # script # args \<Rightarrow>
          if script = ''/proj/fail.py'' then Some failing_child
          else if script = ''/proj/sleep5.py'' then Some sleeping_child
          else if script = ''/proj/garbled.py'' then Some garbled_child
          else Some ok_child
      | _ \<Rightarrow> Some ok_child)"

definition demo_host :: host where
  "demo_host =
     \<lparr>os_environ = [''HOME'' \<mapsto> ''/root'', ''HF_HOME'' \<mapsto> ''/inherited''],
      popen = demo_popen\<rparr>"

definition demo_stage :: "string \<Rightarrow> StageConfig" where
  "demo_stage script =
     \<lparr>stage_enabled = True, stage_script = script,
      stage_args = [(''output_dir'', ''data'')], stage_env = Map.empty,
      stage_timeout_seconds = None\<rparr>"

definition demo_factory :: FactoryConfig where
  "demo_factory =
     \<lparr>fc_project_root = ''/proj'', fc_python_bin = ''python'',
      fc_model_profile = ''monGARS_webLLM'',
      fc_datasets = Some (demo_stage ''/proj/prep.py''), fc_embeddings = None,
      fc_unsloth = None, fc_export = None,
      fc_mlc_export = Some (demo_stage ''/proj/mlc.py''),
      fc_global_env = load_global_env None ''monGARS_webLLM'',
      fc_run_logs_dir = ''/proj/runs''\<rparr>"

definition demo_world :: world where
  "demo_world =
     \<lparr>existing = {''/proj'', ''/proj/runs'', ''/proj/runs/r1'', ''/proj/prep.py'',
        ''/proj/mlc.py'', ''/proj/fail.py'', ''/proj/sleep5.py'', ''/proj/garbled.py''},
      directories = {''/proj'', ''/proj/runs'', ''/proj/runs/r1''},
      files = Map.empty, summaries = Map.empty, trace = []\<rparr>"

definition demo_now :: string where
  "demo_now = ''20260101T000000Z''"

definition prep_command :: "string list" where
  "prep_command = [''python'', ''/proj/prep.py'', ''--output-dir'', ''data'']"

definition mlc_command :: "string list" where
  "mlc_command = [''python'', ''/proj/mlc.py'', ''--output-dir'', ''data'']"

definition fail_command :: "string list" where
  "fail_command = [''python'', ''/proj/fail.py'', ''--output-dir'', ''data'']"

definition sleep_command :: "string list" where
  "sleep_command = [''python'', ''/proj/sleep5.py'']"

definition demo_task_env :: env where
  "demo_task_env = [''SEED'' \<mapsto> ''task'']"

definition demo_stage_env :: env where
  "demo_stage_env = [''SEED'' \<mapsto> ''stage'', ''LR'' \<mapsto> ''stage'', ''MONGARS_MODEL_PROFILE'' \<mapsto> ''stage-profile'']"

definition demo_global_raw :: env where
  "demo_global_raw =
     [''SEED'' \<mapsto> ''global'', ''LR'' \<mapsto> ''global'', ''HF_HOME'' \<mapsto> ''global'',
      ''MONGARS_MODEL_PROFILE'' \<mapsto> ''custom'']"

text \<open>
  A host whose child prints five variables of its environment, a task group, and a task
  group whose task has a slash in its name.
\<close>

definition echo_popen :: "string list \<Rightarrow> env \<Rightarrow> string \<Rightarrow> child option" where
  "echo_popen command env cwd =
     Some \<lparr>stdout_lines =
        map (\<lambda>k. k @ ''='' @ (case env k of None \<Rightarrow> '''' | Some v \<Rightarrow> v))
          [''SEED'', ''LR'', ''HF_HOME'', ''HOME'', ''MONGARS_MODEL_PROFILE''],
      stdout_decodes = True, stdout_closes_at = 1, exits_at = 1, returncode = 0\<rparr>"

definition echo_host :: host where
  "echo_host =
     \<lparr>os_environ = [''HOME'' \<mapsto> ''/root'', ''HF_HOME'' \<mapsto> ''/inherited''],
      popen = echo_popen\<rparr>"

definition demo_task :: UnslothTaskConfig where
  "demo_task = \<lparr>task_name = ''dialog'', task_args = [], task_env = demo_task_env\<rparr>"

definition demo_unsloth :: UnslothConfig where
  "demo_unsloth =
     \<lparr>unsloth_enabled = True, unsloth_script = ''/proj/mlc.py'', unsloth_env = demo_stage_env,
      unsloth_tasks = [(''dialog'', demo_task)]\<rparr>"

definition plain_unsloth :: UnslothConfig where
  "plain_unsloth =
     \<lparr>unsloth_enabled = True, unsloth_script = ''/proj/mlc.py'',
      unsloth_env = [''LR'' \<mapsto> ''stage''],
      unsloth_tasks = [(''dialog'', demo_task)]\<rparr>"

definition slash_unsloth :: UnslothConfig where
  "slash_unsloth =
     \<lparr>unsloth_enabled = True, unsloth_script = ''/proj/mlc.py'', unsloth_env = Map.empty,
      unsloth_tasks = [(''a/b'', \<lparr>task_name = ''a/b'', task_args = [], task_env = Map.empty\<rparr>)]\<rparr>"

section \<open>Substrings\<close>

lemma startswith_iff: "startswith s k \<longleftrightarrow> (\<exists>suf. s = k @ suf)"
  by (induction s k rule: startswith.induct) auto

lemma py_in_iff: "py_in k s \<longleftrightarrow> (\<exists>pre suf. s = pre @ k @ suf)"
proof (induction s)
  case Nil
  then show ?case by simp
next
  case (Cons c s)
  show ?case
  proof
    assume "py_in k (c # s)"
    then consider "startswith (c # s) k" | "py_in k s" by auto
    then show "\<exists>pre suf. c # s = pre @ k @ suf"
    proof cases
      case 1
      then obtain suf where "c # s = k @ suf" by (auto simp: startswith_iff)
      then have "c # s = [] @ k @ suf" by simp
      then show ?thesis by blast
    next
      case 2
      then obtain pre suf where "s = pre @ k @ suf" using Cons.IH by blast
      then have "c # s = (c # pre) @ k @ suf" by simp
      then show ?thesis by blast
    qed
  next
    assume "\<exists>pre suf. c # s = pre @ k @ suf"
    then obtain pre suf where eq: "c # s = pre @ k @ suf" by blast
    show "py_in k (c # s)"
    proof (cases pre)
      case Nil
      with eq have "startswith (c # s) k" unfolding startswith_iff by auto
      then show ?thesis by simp
    next
      case (Cons p ps)
      with eq have "s = ps @ k @ suf" by simp
      then have "py_in k s" using Cons.IH by blast
      then show ?thesis by simp
    qed
  qed
qed

lemma contains_ci_code: "contains_ci name k = py_in k (lower name)"
  by (simp add: contains_ci_def py_in_iff)

section \<open>The task label\<close>

lemma spec_infer_task_code:
  "spec_infer_task name =
     (let l = lower name
      in if py_in ''dialog'' l \<or> py_in ''chat'' l \<or> py_in ''conversation'' l then ''dialog''
         else if py_in ''reason'' l \<or> py_in ''cot'' l \<or> py_in ''step'' l then ''reasoning''
         else if py_in ''retrieval'' l \<or> py_in ''qa'' l \<or> py_in ''rag'' l then ''retrieval''
         else ''instruction'')"
  by (simp add: spec_infer_task_def contains_ci_code Let_def)

lemma infer_task_QA: "infer_task_from_name ''Q&A'' = ''retrieval''"
  by code_simp

lemma spec_infer_task_QA: "spec_infer_task ''Q&A'' = ''instruction''"
  unfolding spec_infer_task_code by code_simp

text \<open>
  C8, as the specification states it, fails: the third keyword group of
  \<open>infer_task_from_name\<close> has a fourth keyword, \<open>q&a\<close>.  A dataset named \<open>Q&A\<close>
  contains none of the nine keywords of the specification, which therefore labels it
  \<open>instruction\<close>, and the code labels it \<open>retrieval\<close>.
\<close>

theorem infer_task_from_name_counterexample:
  "infer_task_from_name ''Q&A'' = ''retrieval'' \<and> spec_infer_task ''Q&A'' = ''instruction''"
  using infer_task_QA spec_infer_task_QA by simp

text \<open>
  C8, amended: for every dataset name the task label is decided by four ordered groups,
  the first match winning, on case-insensitive substring containment: \<open>dialog\<close> when
  the name contains dialog, chat or conversation; else \<open>reasoning\<close> when it contains
  reason, cot or step; else \<open>retrieval\<close> when it contains retrieval, qa, q&a or rag;
  else \<open>instruction\<close>.
\<close>

theorem infer_task_from_name_groups:
  "infer_task_from_name name =
     (if contains_ci name ''dialog'' \<or> contains_ci name ''chat''
         \<or> contains_ci name ''conversation''
      then ''dialog''
      else if contains_ci name ''reason'' \<or> contains_ci name ''cot''
         \<or> contains_ci name ''step''
      then ''reasoning''
      else if contains_ci name ''retrieval'' \<or> contains_ci name ''qa''
         \<or> contains_ci name ''q&a'' \<or> contains_ci name ''rag''
      then ''retrieval''
      else ''instruction'')"
  by (simp add: infer_task_from_name_def contains_ci_code Let_def)

text \<open>
  The name \<open>OpenChat-CoT\<close> matches the first and the second group; the first wins.
\<close>

theorem infer_task_from_name_groups_witness:
  "infer_task_from_name ''OpenChat-CoT'' = ''dialog'' \<and> contains_ci ''OpenChat-CoT'' ''chat''
   \<and> contains_ci ''OpenChat-CoT'' ''cot''"
proof -
  have a: "contains_ci ''OpenChat-CoT'' ''chat''" unfolding contains_ci_code by code_simp
  have b: "contains_ci ''OpenChat-CoT'' ''cot''" unfolding contains_ci_code by code_simp
  from a have "infer_task_from_name ''OpenChat-CoT'' = ''dialog''"
    using infer_task_from_name_groups [of "''OpenChat-CoT''"] by simp
  with a b show ?thesis by simp
qed

section \<open>Subsampling\<close>










section \<open>Deduplication\<close>

lemma process_entries_all_examples:
  "process_entries sha1 ld sh cfg entries g st =
     (fst (all_examples ld sh cfg entries g),
      foldl (emit sha1) st (snd (all_examples ld sh cfg entries g)))"
proof (induction entries arbitrary: g st)
  case Nil
  then show ?case by simp
next
  case (Cons entry entries)
  show ?case
  proof (cases "iter_examples_for_entry ld sh entry cfg g")
    case (Inl e)
    then show ?thesis by simp
  next
    case (Inr p)
    obtain exs g' where p: "p = (exs, g')" by (cases p)
    show ?thesis using Inr p Cons.IH [of g' "foldl (emit sha1) st exs"]
      by (simp split: prod.splits)
  qed
qed

lemma emit_seen:
  "seen_hashes (dedup (emit sha1 st c)) = insert (dedup_key sha1 c) (seen_hashes (dedup st))"
  by (auto simp: emit_def is_new_def dedup_key_def Let_def)

lemma emit_skip:
  "dedup_key sha1 c \<in> seen_hashes (dedup st) \<Longrightarrow>
     emit sha1 st c = st\<lparr>total_seen := total_seen st + 1,
                         total_skipped_dup := total_skipped_dup st + 1\<rparr>"
  by (simp add: emit_def is_new_def dedup_key_def Let_def)

lemma emit_write:
  "dedup_key sha1 c \<notin> seen_hashes (dedup st) \<Longrightarrow>
     out_f (emit sha1 st c) = out_f st @ [c]
     \<and> total_written (emit sha1 st c) = total_written st + 1"
  by (simp add: emit_def is_new_def dedup_key_def Let_def)

lemma emit_skip_out:
  "dedup_key sha1 c \<in> seen_hashes (dedup st) \<Longrightarrow>
     out_f (emit sha1 st c) = out_f st \<and> total_written (emit sha1 st c) = total_written st
     \<and> dedup (emit sha1 st c) = dedup st"
  by (simp add: emit_skip)

lemma foldl_emit_seen:
  "seen_hashes (dedup (foldl (emit sha1) st xs)) =
     seen_hashes (dedup st) \<union> dedup_key sha1 ` set xs"
  by (induction xs arbitrary: st) (auto simp: emit_seen)

lemma foldl_emit_new:
  "\<exists>new. out_f (foldl (emit sha1) st xs) = out_f st @ new
      \<and> total_written (foldl (emit sha1) st xs) = total_written st + length new
      \<and> set new \<subseteq> set xs
      \<and> (\<forall>c\<in>set new. dedup_key sha1 c \<notin> seen_hashes (dedup st))
      \<and> seen_hashes (dedup (foldl (emit sha1) st xs)) =
          seen_hashes (dedup st) \<union> dedup_key sha1 ` set new"
proof (induction xs arbitrary: st)
  case Nil
  show ?case by simp
next
  case (Cons c xs)
  obtain new where new:
    "out_f (foldl (emit sha1) (emit sha1 st c) xs) = out_f (emit sha1 st c) @ new"
    "total_written (foldl (emit sha1) (emit sha1 st c) xs) =
       total_written (emit sha1 st c) + length new"
    "set new \<subseteq> set xs"
    "\<forall>c'\<in>set new. dedup_key sha1 c' \<notin> seen_hashes (dedup (emit sha1 st c))"
    "seen_hashes (dedup (foldl (emit sha1) (emit sha1 st c) xs)) =
       seen_hashes (dedup (emit sha1 st c)) \<union> dedup_key sha1 ` set new"
    using Cons.IH [of "emit sha1 st c"] by blast
  show ?case
  proof (cases "dedup_key sha1 c \<in> seen_hashes (dedup st)")
    case True
    have "out_f (foldl (emit sha1) st (c # xs)) = out_f st @ new"
      using new(1) emit_skip_out [OF True] by simp
    moreover have "total_written (foldl (emit sha1) st (c # xs)) = total_written st + length new"
      using new(2) emit_skip_out [OF True] by simp
    moreover have "set new \<subseteq> set (c # xs)" using new(3) by auto
    moreover have "\<forall>c'\<in>set new. dedup_key sha1 c' \<notin> seen_hashes (dedup st)"
      using new(4) emit_skip_out [OF True] by simp
    moreover have "seen_hashes (dedup (foldl (emit sha1) st (c # xs))) =
          seen_hashes (dedup st) \<union> dedup_key sha1 ` set new"
      using new(5) emit_skip_out [OF True] by simp
    ultimately show ?thesis by blast
  next
    case False
    have "out_f (foldl (emit sha1) st (c # xs)) = out_f st @ (c # new)"
      using new(1) emit_write [OF False] by simp
    moreover have "total_written (foldl (emit sha1) st (c # xs)) =
        total_written st + length (c # new)"
      using new(2) emit_write [OF False] by simp
    moreover have "set (c # new) \<subseteq> set (c # xs)" using new(3) by auto
    moreover have "\<forall>c'\<in>set (c # new). dedup_key sha1 c' \<notin> seen_hashes (dedup st)"
      using new(4) False by (auto simp: emit_seen)
    moreover have "seen_hashes (dedup (foldl (emit sha1) st (c # xs))) =
          seen_hashes (dedup st) \<union> dedup_key sha1 ` set (c # new)"
      using new(5) by (auto simp: emit_seen)
    ultimately show ?thesis by blast
  qed
qed

lemma foldl_emit_all_seen:
  "\<forall>c\<in>set xs. dedup_key sha1 c \<in> seen_hashes (dedup st) \<Longrightarrow>
     out_f (foldl (emit sha1) st xs) = out_f st
     \<and> total_written (foldl (emit sha1) st xs) = total_written st
     \<and> dedup (foldl (emit sha1) st xs) = dedup st"
proof (induction xs arbitrary: st)
  case Nil
  show ?case by simp
next
  case (Cons c xs)
  have c: "dedup_key sha1 c \<in> seen_hashes (dedup st)" using Cons.prems by simp
  have "\<forall>c'\<in>set xs. dedup_key sha1 c' \<in> seen_hashes (dedup (emit sha1 st c))"
    using Cons.prems emit_skip_out [OF c] by simp
  from Cons.IH [OF this] show ?case using emit_skip_out [OF c] by simp
qed

lemma finite_load: "finite (seen_hashes (DedupState_load f))"
  by (auto simp: DedupState_load_def split: state_file.splits json.splits)

lemma py_sorted_set:
  assumes "finite S" and "py_sorted S = Inr xs"
  shows "set xs = S \<and> list_all hashable xs"
proof -
  consider (s) "Ball S is_JStr" | (n) "\<not> Ball S is_JStr" "Ball S is_JNum"
    | (z) "\<not> Ball S is_JStr" "\<not> Ball S is_JNum" "S = {JNull}"
    using assms(2) by (auto simp: py_sorted_def split: if_splits)
  then show ?thesis
  proof cases
    case s
    then have xs: "xs = map JStr (sorted_list_of_set (str_of ` S))"
      using assms(2) by (simp add: py_sorted_def)
    have "\<And>j. j \<in> S \<Longrightarrow> JStr (str_of j) = j"
    proof -
      fix j assume "j \<in> S"
      with s have "is_JStr j" by blast
      then show "JStr (str_of j) = j" by (cases j) simp_all
    qed
    then have "JStr ` str_of ` S = S" by (auto simp: image_iff)
    then have "set xs = S" using assms(1) by (simp add: xs)
    moreover have "list_all hashable xs" by (simp add: xs list_all_iff)
    ultimately show ?thesis by simp
  next
    case n
    then have xs: "xs = map JNum (sorted_list_of_set (num_of ` S))"
      using assms(2) by (auto simp: py_sorted_def split: if_splits)
    have "\<And>j. j \<in> S \<Longrightarrow> JNum (num_of j) = j"
    proof -
      fix j assume "j \<in> S"
      with n(2) have "is_JNum j" by blast
      then show "JNum (num_of j) = j" by (cases j) simp_all
    qed
    then have "JNum ` num_of ` S = S" by (auto simp: image_iff)
    then have "set xs = S" using assms(1) by (simp add: xs)
    moreover have "list_all hashable xs" by (simp add: xs list_all_iff)
    ultimately show ?thesis by simp
  next
    case z
    then have "xs = [JNull]" using assms(2) by (auto simp: py_sorted_def split: if_splits)
    with z show ?thesis by simp
  qed
qed

lemma load_after_save:
  assumes "finite (seen_hashes d)" and "DedupState_save d = (None, file)"
  shows "seen_hashes (DedupState_load file) = seen_hashes d"
proof -
  from assms(2) obtain xs where xs: "py_sorted (seen_hashes d) = Inr xs" "file = Parsed (JList xs)"
    by (auto simp: DedupState_save_def split: sum.splits)
  from py_sorted_set [OF assms(1) xs(1)] show ?thesis
    by (simp add: xs(2) DedupState_load_def)
qed

lemma prepare_datasets_cases:
  "prepare_datasets sha1 ld sh cfg entries g fs =
     (case fst (all_examples ld sh cfg entries g) of
        Some e \<Rightarrow>
          \<lparr>raised = Some e,
           fs_after = fs\<lparr>corpus := out_f (loop_state sha1 ld sh cfg entries g fs)\<rparr>,
           seen_count = total_seen (loop_state sha1 ld sh cfg entries g fs),
           written_count = total_written (loop_state sha1 ld sh cfg entries g fs),
           skipped_dup_count = total_skipped_dup (loop_state sha1 ld sh cfg entries g fs)\<rparr>
      | None \<Rightarrow>
          \<lparr>raised = fst (DedupState_save (dedup (loop_state sha1 ld sh cfg entries g fs))),
           fs_after =
             \<lparr>corpus = out_f (loop_state sha1 ld sh cfg entries g fs),
              dedup_state_file =
                snd (DedupState_save (dedup (loop_state sha1 ld sh cfg entries g fs)))\<rparr>,
           seen_count = total_seen (loop_state sha1 ld sh cfg entries g fs),
           written_count = total_written (loop_state sha1 ld sh cfg entries g fs),
           skipped_dup_count = total_skipped_dup (loop_state sha1 ld sh cfg entries g fs)\<rparr>)"
proof -
  obtain r fl where sv:
    "DedupState_save (dedup (loop_state sha1 ld sh cfg entries g fs)) = (r, fl)"
    by (cases "DedupState_save (dedup (loop_state sha1 ld sh cfg entries g fs))")
  show ?thesis
  proof (cases "fst (all_examples ld sh cfg entries g)")
    case None
    then show ?thesis
      using sv unfolding prepare_datasets_def process_entries_all_examples Let_def loop_state_def
      by simp
  next
    case (Some e)
    then show ?thesis
      unfolding prepare_datasets_def process_entries_all_examples Let_def loop_state_def
      by simp
  qed
qed

lemma prepare_datasets_corpus:
  "corpus (fs_after (prepare_datasets sha1 ld sh cfg entries g fs)) =
     out_f (loop_state sha1 ld sh cfg entries g fs)"
  by (cases "fst (all_examples ld sh cfg entries g)") (simp_all add: prepare_datasets_cases)

lemma prepare_datasets_written:
  "written_count (prepare_datasets sha1 ld sh cfg entries g fs) =
     total_written (loop_state sha1 ld sh cfg entries g fs)"
  by (cases "fst (all_examples ld sh cfg entries g)") (simp_all add: prepare_datasets_cases)

lemma prepare_datasets_saved:
  assumes "raised (prepare_datasets sha1 ld sh cfg entries g fs) = None"
  shows "DedupState_save (dedup (loop_state sha1 ld sh cfg entries g fs)) =
     (None, dedup_state_file (fs_after (prepare_datasets sha1 ld sh cfg entries g fs)))"
proof (cases "fst (all_examples ld sh cfg entries g)")
  case None
  with assms show ?thesis by (simp add: prepare_datasets_cases prod_eq_iff)
next
  case (Some e)
  with assms show ?thesis by (simp add: prepare_datasets_cases)
qed

lemma loop_state_new:
  "\<exists>new. out_f (loop_state sha1 ld sh cfg entries g fs) = corpus fs @ new
      \<and> total_written (loop_state sha1 ld sh cfg entries g fs) = length new
      \<and> set new \<subseteq> set (snd (all_examples ld sh cfg entries g))
      \<and> (\<forall>c\<in>set new. dedup_key sha1 c \<notin> seen_hashes (DedupState_load (dedup_state_file fs)))
      \<and> seen_hashes (dedup (loop_state sha1 ld sh cfg entries g fs)) =
          seen_hashes (DedupState_load (dedup_state_file fs)) \<union> dedup_key sha1 ` set new"
  using foldl_emit_new [of sha1 "\<lparr>dedup = DedupState_load (dedup_state_file fs), out_f = corpus fs,
        total_seen = 0, total_written = 0, total_skipped_dup = 0\<rparr>"
        "snd (all_examples ld sh cfg entries g)"]
  unfolding loop_state_def by simp

lemma loop_state_seen:
  "seen_hashes (dedup (loop_state sha1 ld sh cfg entries g fs)) =
     seen_hashes (DedupState_load (dedup_state_file fs))
       \<union> dedup_key sha1 ` set (snd (all_examples ld sh cfg entries g))"
  unfolding loop_state_def by (simp add: foldl_emit_seen)

lemma loop_state_all_seen:
  assumes "\<forall>c\<in>set (snd (all_examples ld sh cfg entries g)).
             dedup_key sha1 c \<in> seen_hashes (DedupState_load (dedup_state_file fs))"
  shows "out_f (loop_state sha1 ld sh cfg entries g fs) = corpus fs
     \<and> total_written (loop_state sha1 ld sh cfg entries g fs) = 0"
  using foldl_emit_all_seen [of "snd (all_examples ld sh cfg entries g)" sha1
      "\<lparr>dedup = DedupState_load (dedup_state_file fs), out_f = corpus fs,
        total_seen = 0, total_written = 0, total_skipped_dup = 0\<rparr>"] assms
  unfolding loop_state_def by simp

lemma second_run_idle:
  assumes ok: "raised (prepare_datasets sha1 ld sh cfg entries g fs) = None"
  shows "out_f (loop_state sha1 ld sh cfg entries g
                  (fs_after (prepare_datasets sha1 ld sh cfg entries g fs))) =
           corpus (fs_after (prepare_datasets sha1 ld sh cfg entries g fs))
     \<and> total_written (loop_state sha1 ld sh cfg entries g
                  (fs_after (prepare_datasets sha1 ld sh cfg entries g fs))) = 0"
proof -
  let ?fs1 = "fs_after (prepare_datasets sha1 ld sh cfg entries g fs)"
  let ?st = "loop_state sha1 ld sh cfg entries g fs"
  have fin: "finite (seen_hashes (dedup ?st))"
    by (simp add: loop_state_seen finite_load)
  have "seen_hashes (DedupState_load (dedup_state_file ?fs1)) = seen_hashes (dedup ?st)"
    using load_after_save [OF fin prepare_datasets_saved [OF ok]] .
  then have "\<forall>c\<in>set (snd (all_examples ld sh cfg entries g)).
             dedup_key sha1 c \<in> seen_hashes (DedupState_load (dedup_state_file ?fs1))"
    by (simp add: loop_state_seen)
  then show ?thesis by (rule loop_state_all_seen)
qed

text \<open>
  C1, amended: the corpus after a run is the corpus before it followed by the rows the
  run appended; none of these rows has a content hash that was in the dedup state loaded
  at the start of the run.  When the run returns normally, and so has persisted its
  dedup state, a second run on the same manifest, sources and seed against the files it
  left writes no row and leaves the corpus as it is.
\<close>

theorem dedup_never_reemits:
  fixes fs :: dataset_fs and sha1 ld sh cfg entries g
  defines "r \<equiv> prepare_datasets sha1 ld sh cfg entries g fs"
  defines "r2 \<equiv> prepare_datasets sha1 ld sh cfg entries g (fs_after r)"
  shows "corpus (fs_after r) = corpus fs @ appended fs r
    \<and> length (appended fs r) = written_count r
    \<and> (\<forall>c\<in>set (appended fs r).
          JStr (sha1 (dedup_message c)) \<notin> seen_hashes (DedupState_load (dedup_state_file fs)))
    \<and> (raised r = None \<longrightarrow>
          written_count r2 = 0 \<and> appended (fs_after r) r2 = []
          \<and> corpus (fs_after r2) = corpus (fs_after r))"
proof -
  obtain new where new:
    "out_f (loop_state sha1 ld sh cfg entries g fs) = corpus fs @ new"
    "total_written (loop_state sha1 ld sh cfg entries g fs) = length new"
    "\<forall>c\<in>set new. dedup_key sha1 c \<notin> seen_hashes (DedupState_load (dedup_state_file fs))"
    using loop_state_new [of sha1 ld sh cfg entries g fs] by blast
  have corp: "corpus (fs_after r) = corpus fs @ new"
    unfolding r_def prepare_datasets_corpus by (rule new(1))
  then have app: "appended fs r = new" by (simp add: appended_def)
  have wr: "written_count r = length new"
    unfolding r_def prepare_datasets_written by (rule new(2))
  have fresh: "\<forall>c\<in>set (appended fs r).
          JStr (sha1 (dedup_message c)) \<notin> seen_hashes (DedupState_load (dedup_state_file fs))"
    using new(3) unfolding app dedup_key_def .
  have second: "written_count r2 = 0 \<and> appended (fs_after r) r2 = []
          \<and> corpus (fs_after r2) = corpus (fs_after r)" if ok: "raised r = None"
  proof -
    from ok have ok': "raised (prepare_datasets sha1 ld sh cfg entries g fs) = None"
      unfolding r_def .
    have a: "corpus (fs_after r2) = corpus (fs_after r)"
      unfolding r2_def r_def prepare_datasets_corpus [of sha1 ld sh cfg entries g "fs_after (prepare_datasets sha1 ld sh cfg entries g fs)"]
      using second_run_idle [OF ok'] by blast
    have b: "written_count r2 = 0"
      unfolding r2_def r_def prepare_datasets_written [of sha1 ld sh cfg entries g "fs_after (prepare_datasets sha1 ld sh cfg entries g fs)"]
      using second_run_idle [OF ok'] by blast
    from a b show ?thesis by (simp add: appended_def)
  qed
  show ?thesis
  proof (intro conjI impI)
    show "corpus (fs_after r) = corpus fs @ appended fs r" unfolding app by (rule corp)
    show "length (appended fs r) = written_count r" unfolding app wr by (rule refl)
    show "\<forall>c\<in>set (appended fs r).
          JStr (sha1 (dedup_message c)) \<notin> seen_hashes (DedupState_load (dedup_state_file fs))"
      by (rule fresh)
    show "written_count r2 = 0" if "raised r = None" using second [OF that] by blast
    show "appended (fs_after r) r2 = []" if "raised r = None" using second [OF that] by blast
    show "corpus (fs_after r2) = corpus (fs_after r)" if "raised r = None"
      using second [OF that] by blast
  qed
qed

lemma demo_first_run:
  "prepare_datasets demo_hash demo_hub demo_shuffle demo_cfg [demo_entry] 1 empty_fs =
    \<lparr>raised = None,
       fs_after =
         \<lparr>corpus =
            [\<lparr>c_prompt = ''p2'', c_response = ''r2'', c_language = ''unknown'',
                c_task = ''instruction'', c_context = None, c_source = ''demo''\<rparr>,
             \<lparr>c_prompt = ''p3'', c_response = ''r3'', c_language = ''unknown'',
                c_task = ''instruction'', c_context = None, c_source = ''demo''\<rparr>],
            dedup_state_file = Parsed (JList [JStr [CHR ''2'', CHR ''r'', CHR 0x0A, CHR 0x0A, CHR ''2'', CHR ''p''],
              JStr [CHR ''3'', CHR ''r'', CHR 0x0A, CHR 0x0A, CHR ''3'', CHR ''p'']])\<rparr>,
       seen_count = 2, written_count = 2, skipped_dup_count = 0\<rparr>"
  by code_simp

lemma seeded_run:
  "corpus (fs_after
      (prepare_datasets demo_hash demo_hub demo_shuffle demo_cfg [demo_entry] 1 seeded_fs)) =
     [\<lparr>c_prompt = ''p3'', c_response = ''r3'', c_language = ''unknown'',
         c_task = ''instruction'', c_context = None, c_source = ''demo''\<rparr>]"
  "skipped_dup_count
      (prepare_datasets demo_hash demo_hub demo_shuffle demo_cfg [demo_entry] 1 seeded_fs) = 1"
  "demo_hash (dedup_message \<lparr>c_prompt = ''p2'', c_response = ''r2'', c_language = ''unknown'',
         c_task = ''instruction'', c_context = None, c_source = ''demo''\<rparr>) =
     [CHR ''2'', CHR ''r'', CHR 0x0A, CHR 0x0A, CHR ''2'', CHR ''p'']"
  "seen_hashes (DedupState_load (dedup_state_file seeded_fs)) =
     {JStr [CHR ''2'', CHR ''r'', CHR 0x0A, CHR 0x0A, CHR ''2'', CHR ''p'']}"
  by code_simp+

text \<open>
  A first run on the example source from an empty output directory writes two rows and
  returns normally; the second run writes none and leaves the corpus as it is.  From a
  state that holds the hash of the second row, only the third row is written.
\<close>

theorem dedup_never_reemits_witness:
  "raised (prepare_datasets demo_hash demo_hub demo_shuffle demo_cfg [demo_entry] 1 empty_fs) = None
   \<and> written_count
        (prepare_datasets demo_hash demo_hub demo_shuffle demo_cfg [demo_entry] 1 empty_fs) = 2
   \<and> written_count
        (prepare_datasets demo_hash demo_hub demo_shuffle demo_cfg [demo_entry] 1
          (fs_after
            (prepare_datasets demo_hash demo_hub demo_shuffle demo_cfg [demo_entry] 1 empty_fs))) = 0
   \<and> corpus (fs_after
        (prepare_datasets demo_hash demo_hub demo_shuffle demo_cfg [demo_entry] 1
          (fs_after
            (prepare_datasets demo_hash demo_hub demo_shuffle demo_cfg [demo_entry] 1 empty_fs)))) =
       corpus (fs_after
         (prepare_datasets demo_hash demo_hub demo_shuffle demo_cfg [demo_entry] 1 empty_fs))
   \<and> corpus (fs_after
        (prepare_datasets demo_hash demo_hub demo_shuffle demo_cfg [demo_entry] 1 seeded_fs)) =
       [\<lparr>c_prompt = ''p3'', c_response = ''r3'', c_language = ''unknown'',
          c_task = ''instruction'', c_context = None, c_source = ''demo''\<rparr>]
   \<and> JStr (demo_hash (dedup_message \<lparr>c_prompt = ''p3'', c_response = ''r3'',
         c_language = ''unknown'', c_task = ''instruction'', c_context = None,
         c_source = ''demo''\<rparr>))
       \<notin> seen_hashes (DedupState_load (dedup_state_file seeded_fs))"
proof -
  have ok: "raised (prepare_datasets demo_hash demo_hub demo_shuffle demo_cfg [demo_entry] 1 empty_fs) = None"
    unfolding demo_first_run by simp
  have two: "written_count
        (prepare_datasets demo_hash demo_hub demo_shuffle demo_cfg [demo_entry] 1 empty_fs) = 2"
    unfolding demo_first_run by simp
  note t = dedup_never_reemits [where fs = empty_fs and ?sha1.0 = demo_hash and ld = demo_hub
      and sh = demo_shuffle and cfg = demo_cfg and entries = "[demo_entry]" and g = 1]
  from t have imp: "raised (prepare_datasets demo_hash demo_hub demo_shuffle demo_cfg [demo_entry] 1 empty_fs) = None \<longrightarrow>
      written_count
        (prepare_datasets demo_hash demo_hub demo_shuffle demo_cfg [demo_entry] 1
          (fs_after
            (prepare_datasets demo_hash demo_hub demo_shuffle demo_cfg [demo_entry] 1 empty_fs))) = 0
      \<and> appended (fs_after
            (prepare_datasets demo_hash demo_hub demo_shuffle demo_cfg [demo_entry] 1 empty_fs))
          (prepare_datasets demo_hash demo_hub demo_shuffle demo_cfg [demo_entry] 1
          (fs_after
            (prepare_datasets demo_hash demo_hub demo_shuffle demo_cfg [demo_entry] 1 empty_fs))) = []
      \<and> corpus (fs_after
        (prepare_datasets demo_hash demo_hub demo_shuffle demo_cfg [demo_entry] 1
          (fs_after
            (prepare_datasets demo_hash demo_hub demo_shuffle demo_cfg [demo_entry] 1 empty_fs)))) =
       corpus (fs_after
         (prepare_datasets demo_hash demo_hub demo_shuffle demo_cfg [demo_entry] 1 empty_fs))"
    by (elim conjE)
  from imp ok have second: "written_count
        (prepare_datasets demo_hash demo_hub demo_shuffle demo_cfg [demo_entry] 1
          (fs_after
            (prepare_datasets demo_hash demo_hub demo_shuffle demo_cfg [demo_entry] 1 empty_fs))) = 0
      \<and> appended (fs_after
            (prepare_datasets demo_hash demo_hub demo_shuffle demo_cfg [demo_entry] 1 empty_fs))
          (prepare_datasets demo_hash demo_hub demo_shuffle demo_cfg [demo_entry] 1
          (fs_after
            (prepare_datasets demo_hash demo_hub demo_shuffle demo_cfg [demo_entry] 1 empty_fs))) = []
      \<and> corpus (fs_after
        (prepare_datasets demo_hash demo_hub demo_shuffle demo_cfg [demo_entry] 1
          (fs_after
            (prepare_datasets demo_hash demo_hub demo_shuffle demo_cfg [demo_entry] 1 empty_fs)))) =
       corpus (fs_after
         (prepare_datasets demo_hash demo_hub demo_shuffle demo_cfg [demo_entry] 1 empty_fs))"
    by (rule mp)
  note t' = dedup_never_reemits [where fs = seeded_fs and ?sha1.0 = demo_hash and ld = demo_hub
      and sh = demo_shuffle and cfg = demo_cfg and entries = "[demo_entry]" and g = 1]
  have app: "appended seeded_fs
      (prepare_datasets demo_hash demo_hub demo_shuffle demo_cfg [demo_entry] 1 seeded_fs) =
     [\<lparr>c_prompt = ''p3'', c_response = ''r3'', c_language = ''unknown'',
         c_task = ''instruction'', c_context = None, c_source = ''demo''\<rparr>]"
    unfolding appended_def seeded_run(1) by (simp add: seeded_fs_def)
  from t' have "\<forall>c\<in>set (appended seeded_fs
      (prepare_datasets demo_hash demo_hub demo_shuffle demo_cfg [demo_entry] 1 seeded_fs)).
      JStr (demo_hash (dedup_message c))
        \<notin> seen_hashes (DedupState_load (dedup_state_file seeded_fs))"
    by (elim conjE)
  then have fresh: "JStr (demo_hash (dedup_message \<lparr>c_prompt = ''p3'', c_response = ''r3'',
         c_language = ''unknown'', c_task = ''instruction'', c_context = None,
         c_source = ''demo''\<rparr>))
       \<notin> seen_hashes (DedupState_load (dedup_state_file seeded_fs))"
    unfolding app by simp
  show ?thesis
  proof (intro conjI)
    show "raised (prepare_datasets demo_hash demo_hub demo_shuffle demo_cfg [demo_entry] 1 empty_fs) = None"
      by (rule ok)
    show "written_count
        (prepare_datasets demo_hash demo_hub demo_shuffle demo_cfg [demo_entry] 1 empty_fs) = 2"
      by (rule two)
    show "written_count
        (prepare_datasets demo_hash demo_hub demo_shuffle demo_cfg [demo_entry] 1
          (fs_after
            (prepare_datasets demo_hash demo_hub demo_shuffle demo_cfg [demo_entry] 1 empty_fs))) = 0"
      using second by (elim conjE)
    show "corpus (fs_after
        (prepare_datasets demo_hash demo_hub demo_shuffle demo_cfg [demo_entry] 1
          (fs_after
            (prepare_datasets demo_hash demo_hub demo_shuffle demo_cfg [demo_entry] 1 empty_fs)))) =
       corpus (fs_after
         (prepare_datasets demo_hash demo_hub demo_shuffle demo_cfg [demo_entry] 1 empty_fs))"
      using second by (elim conjE)
    show "corpus (fs_after
        (prepare_datasets demo_hash demo_hub demo_shuffle demo_cfg [demo_entry] 1 seeded_fs)) =
       [\<lparr>c_prompt = ''p3'', c_response = ''r3'', c_language = ''unknown'',
          c_task = ''instruction'', c_context = None, c_source = ''demo''\<rparr>]"
      by (rule seeded_run(1))
    show "JStr (demo_hash (dedup_message \<lparr>c_prompt = ''p3'', c_response = ''r3'',
         c_language = ''unknown'', c_task = ''instruction'', c_context = None,
         c_source = ''demo''\<rparr>))
       \<notin> seen_hashes (DedupState_load (dedup_state_file seeded_fs))"
      by (rule fresh)
  qed
qed

lemma gone_first_run:
  "raised (prepare_datasets demo_hash demo_hub demo_shuffle demo_cfg [demo_entry, gone_entry] 1
      empty_fs) = Some DatasetLoadError"
  "fs_after (prepare_datasets demo_hash demo_hub demo_shuffle demo_cfg [demo_entry, gone_entry] 1
      empty_fs) =
     \<lparr>corpus =
        [\<lparr>c_prompt = ''p2'', c_response = ''r2'', c_language = ''unknown'',
          c_task = ''instruction'', c_context = None, c_source = ''demo''\<rparr>,
         \<lparr>c_prompt = ''p3'', c_response = ''r3'', c_language = ''unknown'',
          c_task = ''instruction'', c_context = None, c_source = ''demo''\<rparr>],
      dedup_state_file = Absent\<rparr>"
  by code_simp+

lemma gone_second_run:
  "written_count (prepare_datasets demo_hash demo_hub demo_shuffle demo_cfg
      [demo_entry, gone_entry] 1
      (fs_after (prepare_datasets demo_hash demo_hub demo_shuffle demo_cfg
         [demo_entry, gone_entry] 1 empty_fs))) = 2"
  "corpus (fs_after (prepare_datasets demo_hash demo_hub demo_shuffle demo_cfg
      [demo_entry, gone_entry] 1
      (fs_after (prepare_datasets demo_hash demo_hub demo_shuffle demo_cfg
         [demo_entry, gone_entry] 1 empty_fs)))) =
     [\<lparr>c_prompt = ''p2'', c_response = ''r2'', c_language = ''unknown'',
       c_task = ''instruction'', c_context = None, c_source = ''demo''\<rparr>,
      \<lparr>c_prompt = ''p3'', c_response = ''r3'', c_language = ''unknown'',
       c_task = ''instruction'', c_context = None, c_source = ''demo''\<rparr>,
      \<lparr>c_prompt = ''p2'', c_response = ''r2'', c_language = ''unknown'',
       c_task = ''instruction'', c_context = None, c_source = ''demo''\<rparr>,
      \<lparr>c_prompt = ''p3'', c_response = ''r3'', c_language = ''unknown'',
       c_task = ''instruction'', c_context = None, c_source = ''demo''\<rparr>]"
  by code_simp+

text \<open>
  C1, as the specification states it, fails: the manifest lists the example source and
  a source that cannot be loaded.  The first run appends two rows and ends with the
  exception of \<open>load_dataset\<close>, before the dedup state is saved; the second run, on the
  same manifest and the files the first run left, appends the same two rows again.
\<close>

theorem dedup_never_reemits_counterexample:
  "raised (prepare_datasets demo_hash demo_hub demo_shuffle demo_cfg [demo_entry, gone_entry] 1
      empty_fs) = Some DatasetLoadError
   \<and> fs_after (prepare_datasets demo_hash demo_hub demo_shuffle demo_cfg
        [demo_entry, gone_entry] 1 empty_fs) =
     \<lparr>corpus =
        [\<lparr>c_prompt = ''p2'', c_response = ''r2'', c_language = ''unknown'',
          c_task = ''instruction'', c_context = None, c_source = ''demo''\<rparr>,
         \<lparr>c_prompt = ''p3'', c_response = ''r3'', c_language = ''unknown'',
          c_task = ''instruction'', c_context = None, c_source = ''demo''\<rparr>],
      dedup_state_file = Absent\<rparr>
   \<and> written_count (prepare_datasets demo_hash demo_hub demo_shuffle demo_cfg
        [demo_entry, gone_entry] 1
        (fs_after (prepare_datasets demo_hash demo_hub demo_shuffle demo_cfg
           [demo_entry, gone_entry] 1 empty_fs))) = 2
   \<and> corpus (fs_after (prepare_datasets demo_hash demo_hub demo_shuffle demo_cfg
        [demo_entry, gone_entry] 1
        (fs_after (prepare_datasets demo_hash demo_hub demo_shuffle demo_cfg
           [demo_entry, gone_entry] 1 empty_fs)))) =
     [\<lparr>c_prompt = ''p2'', c_response = ''r2'', c_language = ''unknown'',
       c_task = ''instruction'', c_context = None, c_source = ''demo''\<rparr>,
      \<lparr>c_prompt = ''p3'', c_response = ''r3'', c_language = ''unknown'',
       c_task = ''instruction'', c_context = None, c_source = ''demo''\<rparr>,
      \<lparr>c_prompt = ''p2'', c_response = ''r2'', c_language = ''unknown'',
       c_task = ''instruction'', c_context = None, c_source = ''demo''\<rparr>,
      \<lparr>c_prompt = ''p3'', c_response = ''r3'', c_language = ''unknown'',
       c_task = ''instruction'', c_context = None, c_source = ''demo''\<rparr>]"
  using gone_first_run gone_second_run by (intro conjI)

section \<open>Subsampling: a cap of zero\<close>







section \<open>The dedup decision\<close>

lemma treated_as_duplicates_iff:
  "treated_as_duplicates sha1 c1 c2 \<longleftrightarrow> sha1 (dedup_message c1) = sha1 (dedup_message c2)"
  by (auto simp: treated_as_duplicates_def emit_def is_new_def fresh_state_def Let_def)

lemma strip_last:
  assumes "strip s \<noteq> []"
  shows "\<not> py_isspace (last (strip s))"
proof -
  define t where "t = dropWhile py_isspace (rev (dropWhile py_isspace s))"
  have st: "strip s = rev t" by (simp add: strip_def t_def)
  with assms have ne: "t \<noteq> []" by simp
  have "\<not> py_isspace (hd t)" using ne unfolding t_def by (rule hd_dropWhile)
  moreover have "last (rev t) = hd t" using ne by (simp add: last_rev)
  ultimately show ?thesis unfolding st by simp
qed

lemma newline_space: "py_isspace (CHR 0x0A)"
  by code_simp

lemma nl2_head:
  assumes "(x # xs) @ nl2 @ r1 = nl2 @ r2"
  shows "x = CHR 0x0A"
  using assms unfolding nl2_def by simp

lemma nl2_head2:
  assumes "(x # y # ys) @ nl2 @ r1 = nl2 @ r2"
  shows "x # y # ys = nl2 @ ys"
  using assms unfolding nl2_def by simp

lemma message_split_aux:
  assumes eq: "us @ nl2 @ r1 = nl2 @ r2"
    and no: "\<not> py_in nl2 (p2 @ us)"
    and lst: "p2 @ us \<noteq> [] \<longrightarrow> last (p2 @ us) \<noteq> CHR 0x0A"
  shows "us = []"
proof (rule ccontr)
  assume "us \<noteq> []"
  then obtain x xs where us: "us = x # xs" by (cases us) auto
  show False
  proof (cases xs)
    case Nil
    from eq have "x = CHR 0x0A" unfolding us by (rule nl2_head)
    moreover have "last (p2 @ us) = x" unfolding us Nil by simp
    moreover have "p2 @ us \<noteq> []" unfolding us by simp
    ultimately show False using lst by blast
  next
    case (Cons y ys)
    from eq have "x # y # ys = nl2 @ ys" unfolding us Cons by (rule nl2_head2)
    then have "p2 @ us = p2 @ nl2 @ ys" unfolding us Cons by simp
    then have "py_in nl2 (p2 @ us)" unfolding py_in_iff by blast
    with no show False by blast
  qed
qed

lemma message_inj:
  assumes eq: "p1 @ nl2 @ r1 = p2 @ nl2 @ r2"
    and no1: "\<not> py_in nl2 p1" and no2: "\<not> py_in nl2 p2"
    and l1: "p1 \<noteq> [] \<longrightarrow> last p1 \<noteq> CHR 0x0A"
    and l2: "p2 \<noteq> [] \<longrightarrow> last p2 \<noteq> CHR 0x0A"
  shows "p1 = p2 \<and> r1 = r2"
proof -
  from append_eq_append_conv2 [THEN iffD1, OF eq] obtain us where
    us: "(p1 = p2 @ us \<and> us @ nl2 @ r1 = nl2 @ r2) \<or> (p1 @ us = p2 \<and> nl2 @ r1 = us @ nl2 @ r2)"
    by (elim exE)
  from us show ?thesis
  proof
    assume a: "p1 = p2 @ us \<and> us @ nl2 @ r1 = nl2 @ r2"
    then have p: "p1 = p2 @ us" and e: "us @ nl2 @ r1 = nl2 @ r2" by blast+
    have "us = []"
      using e no1 l1 unfolding p by (rule message_split_aux)
    with p e show ?thesis by simp
  next
    assume a: "p1 @ us = p2 \<and> nl2 @ r1 = us @ nl2 @ r2"
    then have p: "p2 = p1 @ us" and e: "us @ nl2 @ r2 = nl2 @ r1" by (blast, simp)
    have "us = []"
      using e no2 l2 unfolding p by (rule message_split_aux)
    with p e show ?thesis by simp
  qed
qed

lemma canonical_of_row_fields:
  assumes "canonical_of_row entry cfg ex = Some c"
  shows "\<exists>pv rv. map_of ex (entry_prompt_field entry) = Some pv
      \<and> map_of ex (entry_response_field entry) = Some rv
      \<and> c_prompt c = strip (py_str pv) \<and> c_response c = strip (py_str rv)
      \<and> c_prompt c \<noteq> [] \<and> c_response c \<noteq> [] \<and> c_source c = entry_name entry"
  using assms
  by (auto simp: canonical_of_row_def Let_def split: option.splits if_splits)

lemma canonical_prompt_last:
  assumes "canonical_of_row entry cfg ex = Some c"
  shows "c_prompt c \<noteq> [] \<longrightarrow> last (c_prompt c) \<noteq> CHR 0x0A"
proof -
  from canonical_of_row_fields [OF assms] obtain pv where pv: "c_prompt c = strip (py_str pv)"
    by blast
  show ?thesis
  proof
    assume "c_prompt c \<noteq> []"
    then have sp: "\<not> py_isspace (last (c_prompt c))" unfolding pv by (rule strip_last)
    show "last (c_prompt c) \<noteq> CHR 0x0A"
    proof
      assume "last (c_prompt c) = CHR 0x0A"
      with sp newline_space show False by simp
    qed
  qed
qed

lemma split_rows:
  "canonical_of_row demo_entry demo_cfg split_row1 = Some demo_c1"
  "canonical_of_row demo_entry demo_cfg split_row2 = Some demo_c2"
  by code_simp+

lemma split_message: "dedup_message demo_c1 = dedup_message demo_c2"
  by code_simp

lemma split_differ:
  "c_prompt demo_c1 \<noteq> c_prompt demo_c2" "c_response demo_c1 \<noteq> c_response demo_c2"
  by code_simp+

text \<open>
  C4, as the specification states it, fails.  The rows with prompt \<open>a\n\nb\<close>,
  response \<open>c\<close> and with prompt \<open>a\<close>, response \<open>b\n\nc\<close> differ in both fields
  by characters that are not whitespace, but the text that is hashed, prompt, two
  newlines, response, is the same for both: whatever the hash, they are treated as
  duplicates.
\<close>

theorem duplicate_decision_counterexample:
  "canonical_of_row demo_entry demo_cfg split_row1 = Some demo_c1
   \<and> canonical_of_row demo_entry demo_cfg split_row2 = Some demo_c2
   \<and> c_prompt demo_c1 \<noteq> c_prompt demo_c2
   \<and> c_response demo_c1 \<noteq> c_response demo_c2
   \<and> dedup_message demo_c1 = dedup_message demo_c2
   \<and> treated_as_duplicates demo_hash demo_c1 demo_c2"
proof -
  have "treated_as_duplicates demo_hash demo_c1 demo_c2"
    unfolding treated_as_duplicates_iff split_message by (rule refl)
  with split_rows split_differ split_message show ?thesis by (intro conjI)
qed

text \<open>
  C4, amended: the prompt and the response of a canonical example are the trimmed
  fields of its row, and two canonical examples are treated as duplicates if and only
  if the content hashes of trimmed prompt, two newlines, trimmed response are equal.
  Two examples with the same trimmed prompt and the same trimmed response are
  duplicates, whatever their sources.  Two examples whose trimmed prompts or trimmed
  responses differ are not duplicates when the hash does not collide on them and
  neither trimmed prompt contains two consecutive newlines.
\<close>

theorem duplicate_decision:
  assumes c1: "canonical_of_row e1 cfg ex1 = Some c1"
    and c2: "canonical_of_row e2 cfg ex2 = Some c2"
  shows "(\<exists>pv rv. map_of ex1 (entry_prompt_field e1) = Some pv
            \<and> map_of ex1 (entry_response_field e1) = Some rv
            \<and> c_prompt c1 = strip (py_str pv) \<and> c_response c1 = strip (py_str rv))
    \<and> (\<exists>pv rv. map_of ex2 (entry_prompt_field e2) = Some pv
            \<and> map_of ex2 (entry_response_field e2) = Some rv
            \<and> c_prompt c2 = strip (py_str pv) \<and> c_response c2 = strip (py_str rv))
    \<and> (treated_as_duplicates sha1 c1 c2 \<longleftrightarrow>
          sha1 (c_prompt c1 @ nl2 @ c_response c1) = sha1 (c_prompt c2 @ nl2 @ c_response c2))
    \<and> (c_prompt c1 = c_prompt c2 \<and> c_response c1 = c_response c2 \<longrightarrow>
          treated_as_duplicates sha1 c1 c2)
    \<and> ((sha1 (dedup_message c1) = sha1 (dedup_message c2) \<longrightarrow>
            dedup_message c1 = dedup_message c2)
        \<and> \<not> py_in nl2 (c_prompt c1) \<and> \<not> py_in nl2 (c_prompt c2)
        \<and> (c_prompt c1 \<noteq> c_prompt c2 \<or> c_response c1 \<noteq> c_response c2) \<longrightarrow>
          \<not> treated_as_duplicates sha1 c1 c2)"
proof (intro conjI impI)
  from canonical_of_row_fields [OF c1]
  show "\<exists>pv rv. map_of ex1 (entry_prompt_field e1) = Some pv
            \<and> map_of ex1 (entry_response_field e1) = Some rv
            \<and> c_prompt c1 = strip (py_str pv) \<and> c_response c1 = strip (py_str rv)"
    by blast
  from canonical_of_row_fields [OF c2]
  show "\<exists>pv rv. map_of ex2 (entry_prompt_field e2) = Some pv
            \<and> map_of ex2 (entry_response_field e2) = Some rv
            \<and> c_prompt c2 = strip (py_str pv) \<and> c_response c2 = strip (py_str rv)"
    by blast
  show "treated_as_duplicates sha1 c1 c2 \<longleftrightarrow>
          sha1 (c_prompt c1 @ nl2 @ c_response c1) = sha1 (c_prompt c2 @ nl2 @ c_response c2)"
    unfolding treated_as_duplicates_iff dedup_message_def by (rule refl)
  show "treated_as_duplicates sha1 c1 c2"
    if "c_prompt c1 = c_prompt c2 \<and> c_response c1 = c_response c2"
    using that unfolding treated_as_duplicates_iff dedup_message_def by simp
  show "\<not> treated_as_duplicates sha1 c1 c2"
    if h: "(sha1 (dedup_message c1) = sha1 (dedup_message c2) \<longrightarrow>
            dedup_message c1 = dedup_message c2)
        \<and> \<not> py_in nl2 (c_prompt c1) \<and> \<not> py_in nl2 (c_prompt c2)
        \<and> (c_prompt c1 \<noteq> c_prompt c2 \<or> c_response c1 \<noteq> c_response c2)"
  proof
    assume "treated_as_duplicates sha1 c1 c2"
    then have "sha1 (dedup_message c1) = sha1 (dedup_message c2)"
      unfolding treated_as_duplicates_iff .
    with h have "dedup_message c1 = dedup_message c2" by blast
    then have eq: "c_prompt c1 @ nl2 @ c_response c1 = c_prompt c2 @ nl2 @ c_response c2"
      unfolding dedup_message_def .
    from h have n1: "\<not> py_in nl2 (c_prompt c1)" and n2: "\<not> py_in nl2 (c_prompt c2)" by blast+
    have "c_prompt c1 = c_prompt c2 \<and> c_response c1 = c_response c2"
      using eq n1 n2 canonical_prompt_last [OF c1] canonical_prompt_last [OF c2]
      by (rule message_inj)
    with h show False by blast
  qed
qed

lemma demo_rows_canonical:
  "canonical_of_row demo_entry demo_cfg demo_row1 =
     Some \<lparr>c_prompt = ''Hi'', c_response = ''Yo'', c_language = ''unknown'',
           c_task = ''instruction'', c_context = None, c_source = ''demo''\<rparr>"
  "canonical_of_row other_entry demo_cfg demo_row2 =
     Some \<lparr>c_prompt = ''Hi'', c_response = ''Yo'', c_language = ''en'',
           c_task = ''dialog'', c_context = None, c_source = ''other-chat''\<rparr>"
  "canonical_of_row other_entry demo_cfg demo_row3 =
     Some \<lparr>c_prompt = ''Hi'', c_response = ''Yo!'', c_language = ''en'',
           c_task = ''dialog'', c_context = None, c_source = ''other-chat''\<rparr>"
  by code_simp+

lemma demo_hash_inj: "demo_hash a = demo_hash b \<longrightarrow> a = b"
  by (simp add: demo_hash_def)

text \<open>
  Rows of two sources with the same trimmed prompt and response are duplicates; a row
  whose response has one more character is not.
\<close>

theorem duplicate_decision_witness:
  "canonical_of_row demo_entry demo_cfg demo_row1 =
     Some \<lparr>c_prompt = ''Hi'', c_response = ''Yo'', c_language = ''unknown'',
           c_task = ''instruction'', c_context = None, c_source = ''demo''\<rparr>
   \<and> canonical_of_row other_entry demo_cfg demo_row2 =
     Some \<lparr>c_prompt = ''Hi'', c_response = ''Yo'', c_language = ''en'',
           c_task = ''dialog'', c_context = None, c_source = ''other-chat''\<rparr>
   \<and> canonical_of_row other_entry demo_cfg demo_row3 =
     Some \<lparr>c_prompt = ''Hi'', c_response = ''Yo!'', c_language = ''en'',
           c_task = ''dialog'', c_context = None, c_source = ''other-chat''\<rparr>
   \<and> treated_as_duplicates demo_hash
        \<lparr>c_prompt = ''Hi'', c_response = ''Yo'', c_language = ''unknown'',
           c_task = ''instruction'', c_context = None, c_source = ''demo''\<rparr>
        \<lparr>c_prompt = ''Hi'', c_response = ''Yo'', c_language = ''en'',
           c_task = ''dialog'', c_context = None, c_source = ''other-chat''\<rparr>
   \<and> \<not> treated_as_duplicates demo_hash
        \<lparr>c_prompt = ''Hi'', c_response = ''Yo'', c_language = ''unknown'',
           c_task = ''instruction'', c_context = None, c_source = ''demo''\<rparr>
        \<lparr>c_prompt = ''Hi'', c_response = ''Yo!'', c_language = ''en'',
           c_task = ''dialog'', c_context = None, c_source = ''other-chat''\<rparr>"
proof -
  let ?a = "\<lparr>c_prompt = ''Hi'', c_response = ''Yo'', c_language = ''unknown'',
           c_task = ''instruction'', c_context = None, c_source = ''demo''\<rparr>"
  let ?b = "\<lparr>c_prompt = ''Hi'', c_response = ''Yo'', c_language = ''en'',
           c_task = ''dialog'', c_context = None, c_source = ''other-chat''\<rparr>"
  let ?c = "\<lparr>c_prompt = ''Hi'', c_response = ''Yo!'', c_language = ''en'',
           c_task = ''dialog'', c_context = None, c_source = ''other-chat''\<rparr>"
  note ab = duplicate_decision [OF demo_rows_canonical(1) demo_rows_canonical(2), of demo_hash]
  note ac = duplicate_decision [OF demo_rows_canonical(1) demo_rows_canonical(3), of demo_hash]
  have same: "c_prompt ?a = c_prompt ?b \<and> c_response ?a = c_response ?b" by simp
  from ab same have dup: "treated_as_duplicates demo_hash ?a ?b" by blast
  have n1: "\<not> py_in nl2 (c_prompt ?a)" by code_simp
  have n2: "\<not> py_in nl2 (c_prompt ?c)" by code_simp
  have d: "c_prompt ?a \<noteq> c_prompt ?c \<or> c_response ?a \<noteq> c_response ?c" by simp
  from ac demo_hash_inj [of "dedup_message ?a" "dedup_message ?c"] n1 n2 d
  have ndup: "\<not> treated_as_duplicates demo_hash ?a ?c" by blast
  from demo_rows_canonical dup ndup show ?thesis by (intro conjI)
qed

section \<open>A damaged dedup state\<close>

lemma loop_state_cong:
  assumes "DedupState_load (dedup_state_file fs) = DedupState_load (dedup_state_file fs')"
    and "corpus fs = corpus fs'"
  shows "loop_state sha1 ld sh cfg entries g fs = loop_state sha1 ld sh cfg entries g fs'"
  using assms unfolding loop_state_def by simp

lemma load_corrupt:
  assumes "f = Unparsable \<or> (\<exists>j. f = Parsed j \<and> (\<forall>xs. j \<noteq> JList xs))"
  shows "DedupState_load f = \<lparr>seen_hashes = {}\<rparr>"
  using assms by (auto simp: DedupState_load_def split: json.splits)

lemma load_absent: "DedupState_load Absent = \<lparr>seen_hashes = {}\<rparr>"
  by (simp add: DedupState_load_def)

lemma prepare_datasets_raised:
  "raised (prepare_datasets sha1 ld sh cfg entries g fs) =
     (case fst (all_examples ld sh cfg entries g) of
        Some e \<Rightarrow> Some e
      | None \<Rightarrow> fst (DedupState_save (dedup (loop_state sha1 ld sh cfg entries g fs))))"
  by (cases "fst (all_examples ld sh cfg entries g)") (simp_all add: prepare_datasets_cases)

text \<open>
  C10: when the dedup state file exists but cannot be parsed, or its top-level value is
  not a list, loading gives the empty set instead of failing, and the run is the run on
  an output directory with no state file: it raises the same, writes as many rows and
  leaves the same corpus.  Every example the run meets then has a row of its hash
  appended to the corpus in this run, whatever earlier runs wrote.
\<close>

theorem corrupt_state_starts_fresh:
  assumes bad: "dedup_state_file fs = Unparsable
      \<or> (\<exists>j. dedup_state_file fs = Parsed j \<and> (\<forall>xs. j \<noteq> JList xs))"
  shows "seen_hashes (DedupState_load (dedup_state_file fs)) = {}
    \<and> raised (prepare_datasets sha1 ld sh cfg entries g fs) =
        raised (prepare_datasets sha1 ld sh cfg entries g (fs\<lparr>dedup_state_file := Absent\<rparr>))
    \<and> corpus (fs_after (prepare_datasets sha1 ld sh cfg entries g fs)) =
        corpus (fs_after
          (prepare_datasets sha1 ld sh cfg entries g (fs\<lparr>dedup_state_file := Absent\<rparr>)))
    \<and> written_count (prepare_datasets sha1 ld sh cfg entries g fs) =
        written_count
          (prepare_datasets sha1 ld sh cfg entries g (fs\<lparr>dedup_state_file := Absent\<rparr>))
    \<and> (\<forall>c\<in>set (snd (all_examples ld sh cfg entries g)).
          \<exists>c'\<in>set (appended fs (prepare_datasets sha1 ld sh cfg entries g fs)).
            sha1 (dedup_message c') = sha1 (dedup_message c))"
proof -
  have ld0: "DedupState_load (dedup_state_file fs) = \<lparr>seen_hashes = {}\<rparr>"
    using bad by (rule load_corrupt)
  have same: "loop_state sha1 ld sh cfg entries g fs =
      loop_state sha1 ld sh cfg entries g (fs\<lparr>dedup_state_file := Absent\<rparr>)"
    by (rule loop_state_cong) (simp_all add: ld0 load_absent)
  obtain new where new:
    "out_f (loop_state sha1 ld sh cfg entries g fs) = corpus fs @ new"
    "seen_hashes (dedup (loop_state sha1 ld sh cfg entries g fs)) =
          seen_hashes (DedupState_load (dedup_state_file fs)) \<union> dedup_key sha1 ` set new"
    using loop_state_new [of sha1 ld sh cfg entries g fs] by blast
  have app: "appended fs (prepare_datasets sha1 ld sh cfg entries g fs) = new"
    unfolding appended_def prepare_datasets_corpus new(1) by simp
  have keys: "dedup_key sha1 ` set (snd (all_examples ld sh cfg entries g)) = dedup_key sha1 ` set new"
    using new(2) unfolding loop_state_seen ld0 by simp
  have re: "\<exists>c'\<in>set new. sha1 (dedup_message c') = sha1 (dedup_message c)"
    if "c \<in> set (snd (all_examples ld sh cfg entries g))" for c
  proof -
    from that have "dedup_key sha1 c \<in> dedup_key sha1 ` set new" unfolding keys [symmetric] by (rule imageI)
    then obtain c' where "c' \<in> set new" "dedup_key sha1 c = dedup_key sha1 c'" by (rule imageE)
    then show ?thesis unfolding dedup_key_def by auto
  qed
  show ?thesis
  proof (intro conjI ballI)
    show "seen_hashes (DedupState_load (dedup_state_file fs)) = {}" unfolding ld0 by simp
    show "raised (prepare_datasets sha1 ld sh cfg entries g fs) =
        raised (prepare_datasets sha1 ld sh cfg entries g (fs\<lparr>dedup_state_file := Absent\<rparr>))"
      unfolding prepare_datasets_raised same by (rule refl)
    show "corpus (fs_after (prepare_datasets sha1 ld sh cfg entries g fs)) =
        corpus (fs_after
          (prepare_datasets sha1 ld sh cfg entries g (fs\<lparr>dedup_state_file := Absent\<rparr>)))"
      unfolding prepare_datasets_corpus same by (rule refl)
    show "written_count (prepare_datasets sha1 ld sh cfg entries g fs) =
        written_count
          (prepare_datasets sha1 ld sh cfg entries g (fs\<lparr>dedup_state_file := Absent\<rparr>))"
      unfolding prepare_datasets_written same by (rule refl)
    show "\<exists>c'\<in>set (appended fs (prepare_datasets sha1 ld sh cfg entries g fs)).
            sha1 (dedup_message c') = sha1 (dedup_message c)"
      if "c \<in> set (snd (all_examples ld sh cfg entries g))" for c
      unfolding app using that by (rule re)
  qed
qed

lemma corrupted_fs_eval:
  "corrupted_fs =
     \<lparr>corpus =
        [\<lparr>c_prompt = ''p2'', c_response = ''r2'', c_language = ''unknown'',
            c_task = ''instruction'', c_context = None, c_source = ''demo''\<rparr>,
         \<lparr>c_prompt = ''p3'', c_response = ''r3'', c_language = ''unknown'',
            c_task = ''instruction'', c_context = None, c_source = ''demo''\<rparr>],
      dedup_state_file = Unparsable\<rparr>"
  by code_simp

lemma corrupted_run:
  "corpus (fs_after
      (prepare_datasets demo_hash demo_hub demo_shuffle demo_cfg [demo_entry] 1 corrupted_fs)) =
     [\<lparr>c_prompt = ''p2'', c_response = ''r2'', c_language = ''unknown'',
         c_task = ''instruction'', c_context = None, c_source = ''demo''\<rparr>,
      \<lparr>c_prompt = ''p3'', c_response = ''r3'', c_language = ''unknown'',
         c_task = ''instruction'', c_context = None, c_source = ''demo''\<rparr>,
      \<lparr>c_prompt = ''p2'', c_response = ''r2'', c_language = ''unknown'',
         c_task = ''instruction'', c_context = None, c_source = ''demo''\<rparr>,
      \<lparr>c_prompt = ''p3'', c_response = ''r3'', c_language = ''unknown'',
         c_task = ''instruction'', c_context = None, c_source = ''demo''\<rparr>]"
  by code_simp

text \<open>
  After a first run wrote two rows, the state file is damaged; the next run appends the
  same two rows again.
\<close>

theorem corrupt_state_starts_fresh_witness:
  "dedup_state_file corrupted_fs = Unparsable
   \<and> seen_hashes (DedupState_load (dedup_state_file corrupted_fs)) = {}
   \<and> written_count
        (prepare_datasets demo_hash demo_hub demo_shuffle demo_cfg [demo_entry] 1 corrupted_fs) =
      written_count
        (prepare_datasets demo_hash demo_hub demo_shuffle demo_cfg [demo_entry] 1
           (corrupted_fs\<lparr>dedup_state_file := Absent\<rparr>))
   \<and> corpus (fs_after
      (prepare_datasets demo_hash demo_hub demo_shuffle demo_cfg [demo_entry] 1 corrupted_fs)) =
     [\<lparr>c_prompt = ''p2'', c_response = ''r2'', c_language = ''unknown'',
         c_task = ''instruction'', c_context = None, c_source = ''demo''\<rparr>,
      \<lparr>c_prompt = ''p3'', c_response = ''r3'', c_language = ''unknown'',
         c_task = ''instruction'', c_context = None, c_source = ''demo''\<rparr>,
      \<lparr>c_prompt = ''p2'', c_response = ''r2'', c_language = ''unknown'',
         c_task = ''instruction'', c_context = None, c_source = ''demo''\<rparr>,
      \<lparr>c_prompt = ''p3'', c_response = ''r3'', c_language = ''unknown'',
         c_task = ''instruction'', c_context = None, c_source = ''demo''\<rparr>]"
proof -
  have bad: "dedup_state_file corrupted_fs = Unparsable" unfolding corrupted_fs_eval by simp
  then have hyp: "dedup_state_file corrupted_fs = Unparsable
      \<or> (\<exists>j. dedup_state_file corrupted_fs = Parsed j \<and> (\<forall>xs. j \<noteq> JList xs))"
    by (rule disjI1)
  note t = corrupt_state_starts_fresh [OF hyp, of demo_hash demo_hub demo_shuffle demo_cfg
      "[demo_entry]" 1]
  from t have a: "seen_hashes (DedupState_load (dedup_state_file corrupted_fs)) = {}"
    by (elim conjE)
  from t have b: "written_count
        (prepare_datasets demo_hash demo_hub demo_shuffle demo_cfg [demo_entry] 1 corrupted_fs) =
      written_count
        (prepare_datasets demo_hash demo_hub demo_shuffle demo_cfg [demo_entry] 1
           (corrupted_fs\<lparr>dedup_state_file := Absent\<rparr>))"
    by (elim conjE)
  from bad a b corrupted_run show ?thesis by (intro conjI)
qed

section \<open>The trace of an invocation\<close>

lemma clean_Nil: "clean []"
  by (simp add: clean_def)

lemma clean_append: "clean (a @ b) \<longleftrightarrow> clean a \<and> clean b"
  by (simp add: clean_def)

lemma failed_last_append: "clean a \<Longrightarrow> failed_last b \<Longrightarrow> failed_last (a @ b)"
  by (auto simp: failed_last_def clean_def butlast_append)

lemma failed_last_not_clean: "failed_last evs \<Longrightarrow> \<not> clean evs"
proof
  assume f: "failed_last evs" and c: "clean evs"
  from f have "evs \<noteq> []" "is_failure (last evs)" by (simp_all add: failed_last_def)
  then have "last evs \<in> set evs" by simp
  with c \<open>is_failure (last evs)\<close> show False by (auto simp: clean_def list_all_iff)
qed

lemma failed_last_last: "failed_last b \<Longrightarrow> last (a @ b) = last b"
  by (simp add: failed_last_def)

lemma raised_by_child_error: "is_failure ev \<Longrightarrow> raised_by ev e \<Longrightarrow> child_error e"
  by (cases ev; cases e) simp_all

lemma dirname_join: "CHR ''/'' \<notin> set file_name \<Longrightarrow> dirname (d @ ''/'' @ file_name) = d"
proof -
  assume a: "CHR ''/'' \<notin> set file_name"
  then have "dropWhile (\<lambda>c. c \<noteq> CHR ''/'') (rev file_name @ CHR ''/'' # rev d) = CHR ''/'' # rev d"
    by (simp add: dropWhile_append)
  then show ?thesis by (simp add: dirname_def)
qed

lemma log_write_trace: "trace (log_write lf ls w) = trace w"
  and log_write_summaries: "summaries (log_write lf ls w) = summaries w"
  and log_write_existing: "existing (log_write lf ls w) = existing w"
  and log_write_directories: "directories (log_write lf ls w) = directories w"
  by (auto simp: log_write_def split: option.splits)

lemma log_open_Inr:
  assumes "log_open lf w = Inr w0"
  shows "trace w0 = trace w" and "summaries w0 = summaries w"
    and "existing w \<subseteq> existing w0" and "directories w0 = directories w"
  using assms by (auto simp: log_open_def split: option.splits if_splits)

lemma log_open_Inl:
  assumes "log_open lf w = Inl e"
  shows "e = FileNotFoundError \<and> \<not> log_dir lf \<subseteq> directories w"
  using assms by (auto simp: log_open_def log_dir_def split: option.splits if_splits)

lemma log_open_ok: "log_dir lf \<subseteq> directories w \<Longrightarrow> \<exists>w0. log_open lf w = Inr w0"
  by (auto simp: log_open_def log_dir_def split: option.splits)

lemma step_ok_refl: "step_ok S D w (Inr x, w)"
  unfolding step_ok_def by (intro exI [of _ "[]"]) (simp add: clean_Nil)

lemma step_ok_fnf:
  "\<not> (S \<subseteq> existing w \<and> D \<subseteq> directories w) \<Longrightarrow> step_ok S D w (Inl FileNotFoundError, w)"
  unfolding step_ok_def by (intro exI [of _ "[]"]) (simp add: clean_Nil)

lemma step_ok_mono:
  assumes "step_ok S D w r" and "S \<subseteq> S'" and "D \<subseteq> D'"
  shows "step_ok S' D' w r"
proof -
  from assms(1) obtain evs where evs: "trace (snd r) = trace w @ evs"
    "summaries (snd r) = summaries w" "existing w \<subseteq> existing (snd r)"
    "directories w \<subseteq> directories (snd r)"
    "(case fst r of
              Inr x \<Rightarrow> clean evs
            | Inl e \<Rightarrow>
                (e = FileNotFoundError \<and> clean evs
                   \<and> \<not> (S \<subseteq> existing w \<and> D \<subseteq> directories w))
                \<or> (failed_last evs \<and> raised_by (last evs) e))"
    unfolding step_ok_def by blast
  from evs(5) assms(2,3) have "(case fst r of
              Inr x \<Rightarrow> clean evs
            | Inl e \<Rightarrow>
                (e = FileNotFoundError \<and> clean evs
                   \<and> \<not> (S' \<subseteq> existing w \<and> D' \<subseteq> directories w))
                \<or> (failed_last evs \<and> raised_by (last evs) e))"
    by (auto split: sum.splits)
  with evs(1,2,3,4) show ?thesis unfolding step_ok_def by blast
qed

lemma run_subprocess_dry:
  "command \<noteq> [] \<Longrightarrow> run_subprocess h command env cwd True timeout log_file w = (Inr 0, w)"
  by (simp add: run_subprocess_def)

lemma run_subprocess_unopened:
  assumes "command \<noteq> []" and "\<not> dry_run" and "log_open log_file w = Inl e"
  shows "run_subprocess h command env cwd dry_run timeout log_file w = (Inl e, w)"
  using assms by (simp add: run_subprocess_def)

lemma run_subprocess_opened:
  assumes "command \<noteq> []" and "\<not> dry_run" and "log_open log_file w = Inr w0"
  shows "fst (run_subprocess h command env cwd dry_run timeout log_file w) =
           runner_result h command env cwd dry_run timeout"
    and "trace (snd (run_subprocess h command env cwd dry_run timeout log_file w)) =
           trace w @ runner_events h command env cwd dry_run timeout"
    and "summaries (snd (run_subprocess h command env cwd dry_run timeout log_file w)) =
           summaries w"
    and "existing (snd (run_subprocess h command env cwd dry_run timeout log_file w)) =
           existing w0"
    and "directories (snd (run_subprocess h command env cwd dry_run timeout log_file w)) =
           directories w"
  using assms log_open_Inr [OF assms(3)]
  by (simp_all add: run_subprocess_def runner_result_def runner_events_def Let_def
        log_write_trace log_write_summaries log_write_existing log_write_directories
        split: option.splits)

lemma runner_result_events:
  "(case runner_result h command env cwd dry_run timeout of
      Inr x \<Rightarrow> clean (runner_events h command env cwd dry_run timeout)
    | Inl e \<Rightarrow> failed_last (runner_events h command env cwd dry_run timeout)
        \<and> raised_by (last (runner_events h command env cwd dry_run timeout)) e)"
  by (simp add: runner_result_def runner_events_def clean_def failed_last_def split: option.splits)

lemma run_subprocess_step:
  assumes ne: "command \<noteq> []"
  shows "step_ok S (log_dir log_file) w
           (run_subprocess h command env cwd dry_run timeout log_file w)"
proof (cases dry_run)
  case True
  then show ?thesis by (simp add: run_subprocess_dry [OF ne] step_ok_refl)
next
  case False
  show ?thesis
  proof (cases "log_open log_file w")
    case (Inl e)
    from log_open_Inl [OF Inl] show ?thesis
      unfolding run_subprocess_unopened [OF ne False Inl]
      by (simp add: step_ok_fnf)
  next
    case (Inr w0)
    note o = run_subprocess_opened [OF ne False Inr, of h env cwd timeout]
    have "(case fst (run_subprocess h command env cwd dry_run timeout log_file w) of
           Inr x \<Rightarrow> clean (runner_events h command env cwd dry_run timeout)
         | Inl e \<Rightarrow>
             (e = FileNotFoundError \<and> clean (runner_events h command env cwd dry_run timeout)
                \<and> \<not> (S \<subseteq> existing w \<and> log_dir log_file \<subseteq> directories w))
             \<or> (failed_last (runner_events h command env cwd dry_run timeout)
                  \<and> raised_by (last (runner_events h command env cwd dry_run timeout)) e))"
      using runner_result_events [of h command env cwd dry_run timeout]
      unfolding o(1) by (simp split: sum.splits)
    moreover have "existing w \<subseteq> existing (snd (run_subprocess h command env cwd dry_run timeout log_file w))"
      unfolding o(4) by (rule log_open_Inr(3) [OF Inr])
    moreover have "directories w \<subseteq> directories (snd (run_subprocess h command env cwd dry_run timeout log_file w))"
      unfolding o(5) by simp
    ultimately show ?thesis
      using o(2) o(3)
      unfolding step_ok_def
      by (intro exI [of _ "runner_events h command env cwd dry_run timeout"] conjI)
  qed
qed

lemma log_dir_log_path:
  "log_dir (log_path (Some rd) file_name) = {dirname (rd @ ''/'' @ file_name)}"
  "log_dir (log_path None file_name) = {}"
  by (simp_all add: log_dir_def log_path_def)

lemma run_stage_step:
  "step_ok {stage_script sc} (log_dir (log_path rd (name @ ''.log''))) w
     (run_stage h name sc pb pr ge mp rd dry_run w)"
  unfolding run_stage_def Let_def
  by (simp add: step_ok_refl step_ok_fnf run_subprocess_step)

lemma run_unsloth_task_step:
  "step_ok {unsloth_script u} (log_dir (log_path rd (''unsloth_'' @ name @ ''.log''))) w
     (run_unsloth_task h name u tc pb pr ge mp rd dry_run w)"
  unfolding run_unsloth_task_def Let_def
  by (simp add: step_ok_refl step_ok_fnf run_subprocess_step)

lemma step_ok_and_then:
  assumes r: "step_ok S D w r"
    and f: "\<And>x. fst r = Inr x \<Longrightarrow> step_ok S D (snd r) (f x (snd r))"
  shows "step_ok S D w (and_then r f)"
proof (cases "fst r")
  case (Inl e)
  then have "and_then r f = (Inl e, snd r)" by (cases r) (simp add: and_then_def)
  with r Inl show ?thesis by (simp add: step_ok_def)
next
  case (Inr x)
  then have at: "and_then r f = f x (snd r)" by (cases r) (simp add: and_then_def)
  from r Inr obtain e1 where e1: "trace (snd r) = trace w @ e1" "summaries (snd r) = summaries w"
    "existing w \<subseteq> existing (snd r)" "directories w \<subseteq> directories (snd r)" "clean e1"
    by (auto simp: step_ok_def)
  from f [OF Inr] obtain e2 where e2: "trace (snd (f x (snd r))) = trace (snd r) @ e2"
    "summaries (snd (f x (snd r))) = summaries (snd r)"
    "existing (snd r) \<subseteq> existing (snd (f x (snd r)))"
    "directories (snd r) \<subseteq> directories (snd (f x (snd r)))"
    "(case fst (f x (snd r)) of
              Inr x \<Rightarrow> clean e2
            | Inl e \<Rightarrow>
                (e = FileNotFoundError \<and> clean e2
                   \<and> \<not> (S \<subseteq> existing (snd r) \<and> D \<subseteq> directories (snd r)))
                \<or> (failed_last e2 \<and> raised_by (last e2) e))"
    unfolding step_ok_def by blast
  have "(case fst (f x (snd r)) of
              Inr x \<Rightarrow> clean (e1 @ e2)
            | Inl e \<Rightarrow>
                (e = FileNotFoundError \<and> clean (e1 @ e2)
                   \<and> \<not> (S \<subseteq> existing w \<and> D \<subseteq> directories w))
                \<or> (failed_last (e1 @ e2) \<and> raised_by (last (e1 @ e2)) e))"
  proof (cases "fst (f x (snd r))")
    case (Inr y)
    with e2(5) e1(5) show ?thesis by (simp add: clean_append)
  next
    case (Inl e)
    with e2(5) have d: "(e = FileNotFoundError \<and> clean e2
                   \<and> \<not> (S \<subseteq> existing (snd r) \<and> D \<subseteq> directories (snd r)))
                \<or> (failed_last e2 \<and> raised_by (last e2) e)" by simp
    then show ?thesis
    proof
      assume a: "e = FileNotFoundError \<and> clean e2
                   \<and> \<not> (S \<subseteq> existing (snd r) \<and> D \<subseteq> directories (snd r))"
      with e1(3,4) have "\<not> (S \<subseteq> existing w \<and> D \<subseteq> directories w)" by blast
      with a e1(5) Inl show ?thesis by (simp add: clean_append)
    next
      assume a: "failed_last e2 \<and> raised_by (last e2) e"
      then have "failed_last (e1 @ e2)" "last (e1 @ e2) = last e2"
        using e1(5) by (simp_all add: failed_last_append failed_last_last)
      with a Inl show ?thesis by simp
    qed
  qed
  moreover have "trace (snd (f x (snd r))) = trace w @ (e1 @ e2)" using e1(1) e2(1) by simp
  moreover have "summaries (snd (f x (snd r))) = summaries w" using e1(2) e2(2) by simp
  moreover have "existing w \<subseteq> existing (snd (f x (snd r)))" using e1(3) e2(3) by blast
  moreover have "directories w \<subseteq> directories (snd (f x (snd r)))" using e1(4) e2(4) by blast
  ultimately show ?thesis unfolding at step_ok_def by blast
qed

lemma and_then_assoc:
  "and_then (and_then r f) g = and_then r (\<lambda>x w. and_then (f x w) g)"
  by (cases r; cases "fst r") (auto simp: and_then_def)


lemma start_run_dir_eq:
  "start_run_dir (fc_run_logs_dir cfg) ''run_all'' now w = (run_all_dir cfg now, started cfg now w)"
  by (simp add: start_run_dir_def run_all_dir_def started_def Let_def)

lemma started_world:
  "trace (started cfg now w) = trace w"
  "summaries (started cfg now w) = summaries w"
  "existing (started cfg now w) = insert (run_all_dir cfg now) (existing w)"
  "directories (started cfg now w) = insert (run_all_dir cfg now) (directories w)"
  by (simp_all add: started_def start_run_dir_def run_all_dir_def Let_def)

lemma cli_run_all_stages:
  "cli_run_all h cfg dry_run now w =
     and_then (stages h cfg dry_run (run_all_dir cfg now) (started cfg now w))
       (finish cfg (run_all_dir cfg now))"
  unfolding cli_run_all_def start_run_dir_eq prod.case stages_def and_then_assoc finish_def ..

lemma record_stage_step:
  "step_ok (stage_needs stage_cfg) {dirname (run_dir @ ''/'' @ name @ ''.log'')} w
     (record_stage h cfg dry_run run_dir name stage_cfg required st w)"
proof (cases "(case stage_cfg of None \<Rightarrow> None
                            | Some sc \<Rightarrow> if stage_enabled sc then Some sc else None)")
  case None
  then show ?thesis
    unfolding record_stage_def Let_def by (simp add: step_ok_refl)
next
  case (Some sc)
  then have sc: "stage_cfg = Some sc" "stage_enabled sc"
    by (auto split: option.splits if_splits)
  then have needs: "stage_needs stage_cfg = {stage_script sc}" by (simp add: stage_needs_def)
  show ?thesis
    unfolding record_stage_def Some option.case needs log_dir_log_path(1) [symmetric]
    by (rule step_ok_and_then [OF run_stage_step]) (rule step_ok_refl)
qed

lemma task_log_dirs_Cons:
  "task_log_dirs run_dir ((name, tc) # tasks) =
     insert (dirname (run_dir @ ''/'' @ ''unsloth_'' @ name @ ''.log'')) (task_log_dirs run_dir tasks)"
  by (simp add: task_log_dirs_def)

lemma run_unsloth_tasks_step:
  "step_ok {unsloth_script u} (task_log_dirs run_dir tasks) w
     (run_unsloth_tasks h cfg dry_run run_dir u tasks st w)"
proof (induction tasks arbitrary: st w)
  case Nil
  show ?case by (simp add: step_ok_refl)
next
  case (Cons t tasks)
  obtain name tc where t: "t = (name, tc)" by (cases t)
  have first: "step_ok {unsloth_script u} (task_log_dirs run_dir ((name, tc) # tasks)) w
     (run_unsloth_task h name u tc (fc_python_bin cfg) (fc_project_root cfg)
          (Some (fc_global_env cfg)) (Some (fc_model_profile cfg)) (Some run_dir) dry_run w)"
    by (rule step_ok_mono [OF run_unsloth_task_step])
       (simp_all add: log_dir_log_path task_log_dirs_Cons)
  have rest: "\<And>st w. step_ok {unsloth_script u} (task_log_dirs run_dir ((name, tc) # tasks)) w
     (run_unsloth_tasks h cfg dry_run run_dir u tasks st w)"
    by (rule step_ok_mono [OF Cons.IH]) (auto simp: task_log_dirs_Cons)
  show ?case
    unfolding t run_unsloth_tasks.simps
    by (rule step_ok_and_then [OF first]) (rule rest)
qed

lemma handle_unsloth_step:
  "step_ok (unsloth_needs (fc_unsloth cfg)) (log_dirs cfg run_dir) w
     (handle_unsloth h cfg dry_run run_dir st w)"
proof (cases "(case fc_unsloth cfg of None \<Rightarrow> None
                                 | Some u \<Rightarrow> if unsloth_enabled u then Some u else None)")
  case None
  then show ?thesis unfolding handle_unsloth_def Let_def by (simp add: step_ok_refl)
next
  case (Some u)
  then have u: "fc_unsloth cfg = Some u" "unsloth_enabled u"
    by (auto split: option.splits if_splits)
  show ?thesis
  proof (cases "unsloth_tasks u = []")
    case True
    then show ?thesis unfolding handle_unsloth_def Some option.case by (simp add: step_ok_refl)
  next
    case False
    with u have needs: "unsloth_needs (fc_unsloth cfg) = {unsloth_script u}"
      by (simp add: unsloth_needs_def)
    from u have dirs: "log_dirs cfg run_dir = task_log_dirs run_dir (unsloth_tasks u)"
      by (simp add: log_dirs_def)
    from False show ?thesis
      unfolding handle_unsloth_def Some option.case needs dirs
      by (simp add: run_unsloth_tasks_step)
  qed
qed

lemma needed_scripts_subsets:
  "stage_needs (fc_datasets cfg) \<subseteq> needed_scripts cfg"
  "stage_needs (fc_embeddings cfg) \<subseteq> needed_scripts cfg"
  "unsloth_needs (fc_unsloth cfg) \<subseteq> needed_scripts cfg"
  "stage_needs (fc_export cfg) \<subseteq> needed_scripts cfg"
  "stage_needs (fc_mlc_export cfg) \<subseteq> needed_scripts cfg"
  by (auto simp: needed_scripts_def)

lemma stage_log_dirs:
  "{dirname (run_dir @ ''/'' @ ''datasets'' @ ''.log'')} \<subseteq> insert run_dir D"
  "{dirname (run_dir @ ''/'' @ ''embeddings'' @ ''.log'')} \<subseteq> insert run_dir D"
  "{dirname (run_dir @ ''/'' @ ''export'' @ ''.log'')} \<subseteq> insert run_dir D"
  "{dirname (run_dir @ ''/'' @ ''mlc_export'' @ ''.log'')} \<subseteq> insert run_dir D"
  using dirname_join [of "''datasets.log''" run_dir] dirname_join [of "''embeddings.log''" run_dir]
    dirname_join [of "''export.log''" run_dir] dirname_join [of "''mlc_export.log''" run_dir]
  by simp_all

lemma stages_step:
  "step_ok (needed_scripts cfg) (insert run_dir (log_dirs cfg run_dir)) w
     (stages h cfg dry_run run_dir w)"
  unfolding stages_def
  apply (rule step_ok_and_then)
   apply (rule step_ok_mono [OF record_stage_step needed_scripts_subsets(1) stage_log_dirs(1)])
  apply (rule step_ok_and_then)
   apply (rule step_ok_mono [OF record_stage_step needed_scripts_subsets(2) stage_log_dirs(2)])
  apply (rule step_ok_and_then)
   apply (rule step_ok_mono [OF handle_unsloth_step needed_scripts_subsets(3)])
   apply blast
  apply (rule step_ok_and_then)
   apply (rule step_ok_mono [OF record_stage_step needed_scripts_subsets(4) stage_log_dirs(3)])
  apply (rule step_ok_mono [OF record_stage_step needed_scripts_subsets(5) stage_log_dirs(4)])
  done

lemma and_then_InrD:
  assumes "fst (and_then r f) = Inr y"
  shows "\<exists>x. fst r = Inr x \<and> fst (f x (snd r)) = Inr y"
  using assms by (cases r; cases "fst r") (auto simp: and_then_def)

lemma record_stage_exit_code:
  assumes "fst (record_stage h cfg dry_run run_dir name stage_cfg required st w) = Inr st'"
  shows "exit_code st' = (if required \<and> stage_skipped stage_cfg then 1 else exit_code st)"
proof (cases "(case stage_cfg of None \<Rightarrow> None
                            | Some sc \<Rightarrow> if stage_enabled sc then Some sc else None)")
  case None
  then have sk: "stage_skipped stage_cfg"
    by (auto simp: stage_skipped_def split: option.splits if_splits)
  from assms show ?thesis
    unfolding record_stage_def None option.case Let_def using sk by (auto split: if_splits)
next
  case (Some sc)
  then have sk: "\<not> stage_skipped stage_cfg"
    by (auto simp: stage_skipped_def split: option.splits if_splits)
  from and_then_InrD [OF assms [unfolded record_stage_def Some option.case]]
  obtain x where "st' = st\<lparr>grand_total := grand_total st + x,
               summary := summary st @
                 [\<lparr>row_name = name, row_status = ''ran'', row_elapsed = x,
                   row_note = run_dir @ ''/'' @ name @ ''.log''\<rparr>]\<rparr>"
    by auto
  with sk show ?thesis by simp
qed

lemma run_unsloth_tasks_exit_code:
  "fst (run_unsloth_tasks h cfg dry_run run_dir u tasks st w) = Inr st' \<Longrightarrow>
     exit_code st' = exit_code st"
proof (induction tasks arbitrary: st w)
  case Nil
  then show ?case by simp
next
  case (Cons t tasks)
  obtain name tc where t: "t = (name, tc)" by (cases t)
  from and_then_InrD [OF Cons.prems [unfolded t run_unsloth_tasks.simps]]
  obtain x w1 where
    "fst (run_unsloth_tasks h cfg dry_run run_dir u tasks
            (st\<lparr>grand_total := grand_total st + x,
                summary := summary st @
                  [\<lparr>row_name = ''unsloth:'' @ name, row_status = ''ran'', row_elapsed = x,
                    row_note = run_dir @ ''/unsloth_'' @ name @ ''.log''\<rparr>]\<rparr>) w1) = Inr st'"
    by blast
  from Cons.IH [OF this] show ?case by simp
qed

lemma handle_unsloth_exit_code:
  "fst (handle_unsloth h cfg dry_run run_dir st w) = Inr st' \<Longrightarrow> exit_code st' = exit_code st"
  unfolding handle_unsloth_def Let_def
  by (auto split: option.splits if_splits dest: run_unsloth_tasks_exit_code)

lemma stages_exit_code:
  assumes "fst (stages h cfg dry_run run_dir w) = Inr st5"
  shows "exit_code st5 = (if mlc_skipped cfg then 1 else 0)"
proof -
  from and_then_InrD [OF assms [unfolded stages_def]] obtain st1 w1 where
    s1: "fst (record_stage h cfg dry_run run_dir ''datasets'' (fc_datasets cfg) False
          \<lparr>grand_total = 0, summary = [], exit_code = 0\<rparr> w) = Inr st1"
    and r1: "fst (and_then (record_stage h cfg dry_run run_dir ''embeddings'' (fc_embeddings cfg) False st1 w1)
            (\<lambda>st2 w2.
               and_then (handle_unsloth h cfg dry_run run_dir st2 w2)
                 (\<lambda>st3 w3.
                    and_then (record_stage h cfg dry_run run_dir ''export'' (fc_export cfg) False st3 w3)
                      (\<lambda>st4 w4.
                         record_stage h cfg dry_run run_dir ''mlc_export'' (fc_mlc_export cfg)
                           True st4 w4)))) = Inr st5"
    by blast
  from and_then_InrD [OF r1] obtain st2 w2 where
    s2: "fst (record_stage h cfg dry_run run_dir ''embeddings'' (fc_embeddings cfg) False st1 w1) = Inr st2"
    and r2: "fst (and_then (handle_unsloth h cfg dry_run run_dir st2 w2)
                 (\<lambda>st3 w3.
                    and_then (record_stage h cfg dry_run run_dir ''export'' (fc_export cfg) False st3 w3)
                      (\<lambda>st4 w4.
                         record_stage h cfg dry_run run_dir ''mlc_export'' (fc_mlc_export cfg)
                           True st4 w4))) = Inr st5"
    by blast
  from and_then_InrD [OF r2] obtain st3 w3 where
    s3: "fst (handle_unsloth h cfg dry_run run_dir st2 w2) = Inr st3"
    and r3: "fst (and_then (record_stage h cfg dry_run run_dir ''export'' (fc_export cfg) False st3 w3)
                      (\<lambda>st4 w4.
                         record_stage h cfg dry_run run_dir ''mlc_export'' (fc_mlc_export cfg)
                           True st4 w4)) = Inr st5"
    by blast
  from and_then_InrD [OF r3] obtain st4 w4 where
    s4: "fst (record_stage h cfg dry_run run_dir ''export'' (fc_export cfg) False st3 w3) = Inr st4"
    and r4: "fst (record_stage h cfg dry_run run_dir ''mlc_export'' (fc_mlc_export cfg) True st4 w4) = Inr st5"
    by blast
  have "exit_code st1 = 0" using record_stage_exit_code [OF s1] by simp
  then have "exit_code st2 = 0" using record_stage_exit_code [OF s2] by simp
  then have "exit_code st3 = 0" using handle_unsloth_exit_code [OF s3] by simp
  then have "exit_code st4 = 0" using record_stage_exit_code [OF s4] by simp
  then show ?thesis using record_stage_exit_code [OF r4]
    by (simp add: mlc_skipped_def stage_skipped_def)
qed

lemma step_ok_new_events:
  assumes "step_ok S D w r"
  shows "(case fst r of
              Inr x \<Rightarrow> clean (new_events w (snd r))
            | Inl e \<Rightarrow>
                (e = FileNotFoundError \<and> clean (new_events w (snd r))
                   \<and> \<not> (S \<subseteq> existing w \<and> D \<subseteq> directories w))
                \<or> (failed_last (new_events w (snd r)) \<and> raised_by (last (new_events w (snd r))) e))"
    and "summaries (snd r) = summaries w"
    and "directories w \<subseteq> directories (snd r)"
proof -
  from assms obtain evs where evs: "trace (snd r) = trace w @ evs"
    "summaries (snd r) = summaries w" "directories w \<subseteq> directories (snd r)"
    "(case fst r of
              Inr x \<Rightarrow> clean evs
            | Inl e \<Rightarrow>
                (e = FileNotFoundError \<and> clean evs
                   \<and> \<not> (S \<subseteq> existing w \<and> D \<subseteq> directories w))
                \<or> (failed_last evs \<and> raised_by (last evs) e))"
    unfolding step_ok_def by blast
  have ne: "new_events w (snd r) = evs" by (simp add: new_events_def evs(1))
  show "(case fst r of
              Inr x \<Rightarrow> clean (new_events w (snd r))
            | Inl e \<Rightarrow>
                (e = FileNotFoundError \<and> clean (new_events w (snd r))
                   \<and> \<not> (S \<subseteq> existing w \<and> D \<subseteq> directories w))
                \<or> (failed_last (new_events w (snd r)) \<and> raised_by (last (new_events w (snd r))) e))"
    unfolding ne by (rule evs(4))
  show "summaries (snd r) = summaries w" by (rule evs(2))
  show "directories w \<subseteq> directories (snd r)" by (rule evs(3))
qed

lemma finish_written:
  assumes "run_dir \<in> directories w"
  shows "fst (finish cfg run_dir st w) =
           (if exit_code st \<noteq> 0 then Inl (Exit (exit_code st)) else Inr ())"
    and "trace (snd (finish cfg run_dir st w)) = trace w"
    and "summaries (snd (finish cfg run_dir st w)) (summary_path run_dir) =
           Some \<lparr>sum_command = ''run-all'', sum_elapsed_seconds = grand_total st,
                 sum_stages = summary st, sum_model_profile = fc_model_profile cfg,
                 sum_log_dir = run_dir\<rparr>"
  using assms by (simp_all add: finish_def write_run_summary_def summary_path_def)

lemma cli_run_all_raised:
  assumes "fst (stages h cfg dry_run (run_all_dir cfg now) (started cfg now w)) = Inl e"
  shows "cli_run_all h cfg dry_run now w =
     (Inl e, snd (stages h cfg dry_run (run_all_dir cfg now) (started cfg now w)))"
  using assms unfolding cli_run_all_stages
  by (cases "stages h cfg dry_run (run_all_dir cfg now) (started cfg now w)")
     (simp add: and_then_def)

lemma cli_run_all_finished:
  assumes "fst (stages h cfg dry_run (run_all_dir cfg now) (started cfg now w)) = Inr st5"
  shows "cli_run_all h cfg dry_run now w =
     finish cfg (run_all_dir cfg now) st5
       (snd (stages h cfg dry_run (run_all_dir cfg now) (started cfg now w)))"
  using assms unfolding cli_run_all_stages
  by (cases "stages h cfg dry_run (run_all_dir cfg now) (started cfg now w)")
     (simp add: and_then_def)

lemma new_events_started: "new_events (started cfg now w) w' = new_events w w'"
  by (simp add: new_events_def started_world)

lemma stages_run_dir:
  "run_all_dir cfg now
     \<in> directories (snd (stages h cfg dry_run (run_all_dir cfg now) (started cfg now w)))"
  using step_ok_new_events(3) [OF stages_step [of cfg "run_all_dir cfg now" "started cfg now w"
      h dry_run]]
  by (auto simp: started_world)

lemma stages_summaries:
  "summaries (snd (stages h cfg dry_run (run_all_dir cfg now) (started cfg now w))) = summaries w"
  using step_ok_new_events(2) [OF stages_step [of cfg "run_all_dir cfg now" "started cfg now w"
      h dry_run]]
  by (simp add: started_world)

lemma stages_result_kind:
  "(case fst (stages h cfg dry_run (run_all_dir cfg now) (started cfg now w)) of
      Inr st \<Rightarrow>
        clean (new_events w (snd (stages h cfg dry_run (run_all_dir cfg now) (started cfg now w))))
    | Inl e \<Rightarrow>
        (e = FileNotFoundError
           \<and> clean (new_events w
                (snd (stages h cfg dry_run (run_all_dir cfg now) (started cfg now w))))
           \<and> \<not> (needed_scripts cfg \<subseteq> existing w
                 \<and> log_dirs cfg (run_all_dir cfg now)
                      \<subseteq> insert (run_all_dir cfg now) (directories w)))
        \<or> (failed_last (new_events w
                (snd (stages h cfg dry_run (run_all_dir cfg now) (started cfg now w))))
            \<and> raised_by (last (new_events w
                (snd (stages h cfg dry_run (run_all_dir cfg now) (started cfg now w))))) e))"
proof -
  have sub: "needed_scripts cfg \<subseteq> existing w
        \<and> log_dirs cfg (run_all_dir cfg now) \<subseteq> insert (run_all_dir cfg now) (directories w)
     \<Longrightarrow> needed_scripts cfg \<subseteq> existing (started cfg now w)
        \<and> insert (run_all_dir cfg now) (log_dirs cfg (run_all_dir cfg now))
             \<subseteq> directories (started cfg now w)"
    by (auto simp: started_world)
  from step_ok_new_events(1) [OF stages_step [of cfg "run_all_dir cfg now" "started cfg now w"
      h dry_run]] sub
  show ?thesis
    unfolding new_events_started by (auto split: sum.splits)
qed

lemma child_error_exit_status: "child_error e \<Longrightarrow> exit_status (Inl e) = 1"
  by (cases e) simp_all

lemma failed_last_child_error:
  "failed_last evs \<Longrightarrow> raised_by (last evs) e \<Longrightarrow> child_error e"
  by (rule raised_by_child_error) (simp_all add: failed_last_def)


lemma task_log_dirs_slash_free:
  assumes "\<forall>t\<in>set tasks. CHR ''/'' \<notin> set (fst t)"
  shows "task_log_dirs run_dir tasks \<subseteq> {run_dir}"
proof
  fix d assume "d \<in> task_log_dirs run_dir tasks"
  then obtain t where t: "t \<in> set tasks" "d = dirname (run_dir @ ''/'' @ ''unsloth_'' @ fst t @ ''.log'')"
    by (auto simp: task_log_dirs_def)
  from assms t(1) have "CHR ''/'' \<notin> set (''unsloth_'' @ fst t @ ''.log'')" by simp
  from dirname_join [OF this, of run_dir] t(2) show "d \<in> {run_dir}" by simp
qed

section \<open>The example pipeline\<close>

lemma demo_run_dir: "run_all_dir demo_factory demo_now = ''/proj/runs/run_all_20260101T000000Z''"
  by code_simp

lemma demo_ok_status:
  "fst (cli_run_all demo_host demo_factory False demo_now demo_world) = Inr ()"
  by code_simp

lemma demo_ok_trace:
  "trace (snd (cli_run_all demo_host demo_factory False demo_now demo_world)) =
     [Spawned prep_command, Exited prep_command 0, Spawned mlc_command, Exited mlc_command 0]"
  by code_simp

lemma demo_ok_summary:
  "summaries (snd (cli_run_all demo_host demo_factory False demo_now demo_world))
     (summary_path ''/proj/runs/run_all_20260101T000000Z'') =
   Some \<lparr>sum_command = ''run-all'', sum_elapsed_seconds = 6,
         sum_stages =
           [\<lparr>row_name = ''datasets'', row_status = ''ran'', row_elapsed = 3,
             row_note = ''/proj/runs/run_all_20260101T000000Z/datasets.log''\<rparr>,
            \<lparr>row_name = ''embeddings'', row_status = ''skipped'', row_elapsed = 0,
             row_note = ''not configured''\<rparr>,
            \<lparr>row_name = ''unsloth'', row_status = ''skipped'', row_elapsed = 0,
             row_note = ''not configured''\<rparr>,
            \<lparr>row_name = ''export'', row_status = ''skipped'', row_elapsed = 0,
             row_note = ''not configured''\<rparr>,
            \<lparr>row_name = ''mlc_export'', row_status = ''ran'', row_elapsed = 3,
             row_note = ''/proj/runs/run_all_20260101T000000Z/mlc_export.log''\<rparr>],
         sum_model_profile = ''monGARS_webLLM'',
         sum_log_dir = ''/proj/runs/run_all_20260101T000000Z''\<rparr>"
  by code_simp

lemma demo_nomlc_trace:
  "trace (snd (cli_run_all demo_host (demo_factory\<lparr>fc_mlc_export := None\<rparr>) False
      demo_now demo_world)) =
     [Spawned prep_command, Exited prep_command 0]"
  by code_simp

lemma demo_nomlc_status:
  "fst (cli_run_all demo_host (demo_factory\<lparr>fc_mlc_export := None\<rparr>) False
      demo_now demo_world) = Inl (Exit 1)"
  by code_simp

lemma demo_missing_status:
  "fst (cli_run_all demo_host
      (demo_factory\<lparr>fc_mlc_export := Some (demo_stage ''/proj/absent.py'')\<rparr>) False
      demo_now demo_world) = Inl FileNotFoundError"
  by code_simp

lemma demo_missing_trace:
  "trace (snd (cli_run_all demo_host
      (demo_factory\<lparr>fc_mlc_export := Some (demo_stage ''/proj/absent.py'')\<rparr>) False
      demo_now demo_world)) =
     [Spawned prep_command, Exited prep_command 0]"
  by code_simp

lemma demo_slash_status:
  "fst (cli_run_all demo_host (demo_factory\<lparr>fc_unsloth := Some slash_unsloth\<rparr>) False
      demo_now demo_world) = Inl FileNotFoundError"
  by code_simp

lemma demo_slash_trace:
  "trace (snd (cli_run_all demo_host (demo_factory\<lparr>fc_unsloth := Some slash_unsloth\<rparr>) False
      demo_now demo_world)) =
     [Spawned prep_command, Exited prep_command 0]"
  by code_simp

lemma demo_fail_status:
  "fst (cli_run_all demo_host
      (demo_factory\<lparr>fc_datasets := Some (demo_stage ''/proj/fail.py'')\<rparr>) False
      demo_now demo_world) = Inl (CalledProcessError 1)"
  by code_simp

lemma demo_fail_trace:
  "trace (snd (cli_run_all demo_host
      (demo_factory\<lparr>fc_datasets := Some (demo_stage ''/proj/fail.py'')\<rparr>) False
      demo_now demo_world)) =
     [Spawned fail_command, Exited fail_command 1]"
  by code_simp

lemma demo_fail_summary:
  "summaries (snd (cli_run_all demo_host
      (demo_factory\<lparr>fc_datasets := Some (demo_stage ''/proj/fail.py'')\<rparr>) False
      demo_now demo_world)) (summary_path ''/proj/runs/run_all_20260101T000000Z'') = None"
  by code_simp

lemma demo_sft_status:
  "fst (cli_run_all demo_host (demo_factory\<lparr>fc_unsloth := Some demo_unsloth\<rparr>) False
      demo_now demo_world) = Inr ()"
  by code_simp

lemma demo_sft_trace:
  "trace (snd (cli_run_all demo_host (demo_factory\<lparr>fc_unsloth := Some demo_unsloth\<rparr>) False
      demo_now demo_world)) =
     [Spawned prep_command, Exited prep_command 0,
      Spawned [''python'', ''/proj/mlc.py'', ''--task'', ''dialog''],
      Exited [''python'', ''/proj/mlc.py'', ''--task'', ''dialog''] 0,
      Spawned mlc_command, Exited mlc_command 0]"
  by code_simp

lemma demo_sft_ready:
  "\<not> mlc_skipped (demo_factory\<lparr>fc_unsloth := Some demo_unsloth\<rparr>)"
  "needed_scripts (demo_factory\<lparr>fc_unsloth := Some demo_unsloth\<rparr>) \<subseteq> existing demo_world"
  "log_dirs (demo_factory\<lparr>fc_unsloth := Some demo_unsloth\<rparr>)
       (run_all_dir (demo_factory\<lparr>fc_unsloth := Some demo_unsloth\<rparr>) demo_now)
     \<subseteq> insert (run_all_dir (demo_factory\<lparr>fc_unsloth := Some demo_unsloth\<rparr>) demo_now)
          (directories demo_world)"
  by code_simp+

lemma demo_sleep:
  "fst (run_subprocess demo_host sleep_command Map.empty ''/proj'' False (Some 1) None demo_world)
     = Inr 5"
  "trace (snd (run_subprocess demo_host sleep_command Map.empty ''/proj'' False (Some 1) None
      demo_world)) = [Spawned sleep_command, Exited sleep_command 0]"
  by code_simp+

lemma demo_nomlc_skipped: "mlc_skipped (demo_factory\<lparr>fc_mlc_export := None\<rparr>)"
  by code_simp

lemma demo_missing_configured:
  "\<not> mlc_skipped (demo_factory\<lparr>fc_mlc_export := Some (demo_stage ''/proj/absent.py'')\<rparr>)"
  by code_simp

lemma demo_slash_configured:
  "\<not> mlc_skipped (demo_factory\<lparr>fc_unsloth := Some slash_unsloth\<rparr>)"
  "needed_scripts (demo_factory\<lparr>fc_unsloth := Some slash_unsloth\<rparr>) \<subseteq> existing demo_world"
  by code_simp+

lemma demo_trace0: "trace demo_world = []"
  by (simp add: demo_world_def)

lemma demo_new_events: "new_events demo_world w = trace w"
  by (simp add: new_events_def demo_trace0)

lemma demo_sft_clean:
  "clean (new_events demo_world
     (snd (cli_run_all demo_host (demo_factory\<lparr>fc_unsloth := Some demo_unsloth\<rparr>) False
        demo_now demo_world)))"
  unfolding demo_new_events demo_sft_trace by (simp add: clean_def)

lemma demo_stage_ready:
  "stage_enabled (demo_stage ''/proj/prep.py'')"
  "stage_script (demo_stage ''/proj/prep.py'') \<in> existing demo_world"
  by code_simp+

lemma demo_wet_run:
  "trace (snd (run_stage demo_host ''datasets'' (demo_stage ''/proj/prep.py'') ''python'' ''/proj''
      (Some (load_global_env None ''monGARS_webLLM'')) (Some ''monGARS_webLLM'')
      (Some ''/proj/runs/r1'') False demo_world)) = [Spawned prep_command, Exited prep_command 0]"
  "files (snd (run_stage demo_host ''datasets'' (demo_stage ''/proj/prep.py'') ''python'' ''/proj''
      (Some (load_global_env None ''monGARS_webLLM'')) (Some ''monGARS_webLLM'')
      (Some ''/proj/runs/r1'') False demo_world)) ''/proj/runs/r1/datasets.log'' =
    Some [''# Command: python /proj/prep.py --output-dir data'', ''# Started'', '''', ''ok'', '''',
          ''# Finished'']"
  by code_simp+

lemma demo_garbled:
  "fst (run_stage demo_host ''datasets'' (demo_stage ''/proj/garbled.py'') ''python'' ''/proj''
      None None None False demo_world) = Inl UnicodeDecodeError"
  "trace (snd (run_stage demo_host ''datasets'' (demo_stage ''/proj/garbled.py'') ''python''
      ''/proj'' None None None False demo_world)) =
     [Spawned [''python'', ''/proj/garbled.py'', ''--output-dir'', ''data''],
      Abandoned [''python'', ''/proj/garbled.py'', ''--output-dir'', ''data'']]"
  by code_simp+

section \<open>Exit status and run summary\<close>

text \<open>
  C3, amended: when the \<open>mlc_export\<close> stage is absent or disabled, the run-all
  invocation exits with a non-zero status, whatever the other stages do.  When it is
  configured and enabled, the script of every enabled stage exists, the directory of
  the log of every task is the run directory or exists (as it is when no task name
  contains a slash), and no child process of the invocation fails to start, exits with
  a code other than 0, is killed or writes output that cannot be decoded, the exit
  status is zero.
\<close>

theorem run_all_exit_status:
  "(mlc_skipped cfg \<longrightarrow> exit_status (fst (cli_run_all h cfg dry_run now w)) \<noteq> 0)
   \<and> (\<not> mlc_skipped cfg \<and> needed_scripts cfg \<subseteq> existing w
        \<and> log_dirs cfg (run_all_dir cfg now) \<subseteq> insert (run_all_dir cfg now) (directories w)
        \<and> clean (new_events w (snd (cli_run_all h cfg dry_run now w))) \<longrightarrow>
      exit_status (fst (cli_run_all h cfg dry_run now w)) = 0)"
proof (cases "fst (stages h cfg dry_run (run_all_dir cfg now) (started cfg now w))")
  case (Inl e)
  note raised = cli_run_all_raised [OF Inl]
  note kind = stages_result_kind [where h = h and cfg = cfg and dry_run = dry_run and now = now and w = w,
      unfolded Inl sum.case]
  from kind have st: "exit_status (Inl e) = 1"
    by (auto simp: child_error_exit_status dest: failed_last_child_error)
  from kind
  have "\<not> (needed_scripts cfg \<subseteq> existing w
        \<and> log_dirs cfg (run_all_dir cfg now) \<subseteq> insert (run_all_dir cfg now) (directories w)
        \<and> clean (new_events w
             (snd (stages h cfg dry_run (run_all_dir cfg now) (started cfg now w)))))"
    by (auto dest: failed_last_not_clean)
  with st show ?thesis unfolding raised by simp
next
  case (Inr st5)
  note fin = cli_run_all_finished [OF Inr]
  from stages_exit_code [OF Inr] show ?thesis
    unfolding fin finish_written(1) [OF stages_run_dir] by simp
qed

text \<open>
  C5, amended: when a child process of a run-all invocation fails or times out, the
  failure is the last thing that happens to any child process, so no child of a later
  stage is started, the invocation ends with the exception of that failure, and no run
  summary is written.  Nor is one written when the invocation ends with another
  exception of a stage, such as that of a missing script.  The summary is written when
  no stage raises, also when the invocation then exits with the status of the
  required-stage violation; it lists the stages as recorded.
\<close>

theorem run_all_failure_aborts:
  "(\<not> clean (new_events w (snd (cli_run_all h cfg dry_run now w))) \<longrightarrow>
        failed_last (new_events w (snd (cli_run_all h cfg dry_run now w)))
        \<and> (\<exists>e. fst (cli_run_all h cfg dry_run now w) = Inl e \<and> child_error e
              \<and> raised_by (last (new_events w (snd (cli_run_all h cfg dry_run now w)))) e)
        \<and> summaries (snd (cli_run_all h cfg dry_run now w)) = summaries w)
   \<and> (\<forall>e. fst (cli_run_all h cfg dry_run now w) = Inl e \<and> (\<forall>code. e \<noteq> Exit code) \<longrightarrow>
        summaries (snd (cli_run_all h cfg dry_run now w)) = summaries w)
   \<and> ((\<forall>e. fst (cli_run_all h cfg dry_run now w) = Inl e \<longrightarrow> (\<exists>code. e = Exit code)) \<longrightarrow>
        clean (new_events w (snd (cli_run_all h cfg dry_run now w)))
        \<and> (\<exists>st. fst (stages h cfg dry_run (run_all_dir cfg now) (started cfg now w)) = Inr st
             \<and> summaries (snd (cli_run_all h cfg dry_run now w))
                  (summary_path (run_all_dir cfg now)) =
                 Some \<lparr>sum_command = ''run-all'', sum_elapsed_seconds = grand_total st,
                       sum_stages = summary st, sum_model_profile = fc_model_profile cfg,
                       sum_log_dir = run_all_dir cfg now\<rparr>))"
proof (cases "fst (stages h cfg dry_run (run_all_dir cfg now) (started cfg now w))")
  case (Inl e)
  note raised = cli_run_all_raised [OF Inl]
  note kind = stages_result_kind [where h = h and cfg = cfg and dry_run = dry_run and now = now and w = w,
      unfolded Inl sum.case]
  from kind have notexit: "\<not> (\<exists>code. e = Exit code)"
    by (auto dest: failed_last_child_error)
  from kind have
    "\<not> clean (new_events w (snd (stages h cfg dry_run (run_all_dir cfg now) (started cfg now w))))
     \<longrightarrow> failed_last (new_events w
            (snd (stages h cfg dry_run (run_all_dir cfg now) (started cfg now w))))
        \<and> child_error e
        \<and> raised_by (last (new_events w
            (snd (stages h cfg dry_run (run_all_dir cfg now) (started cfg now w))))) e"
    by (auto dest: failed_last_child_error)
  with stages_summaries [where h = h and cfg = cfg and dry_run = dry_run and now = now and w = w] notexit show ?thesis
    unfolding raised by simp
next
  case (Inr st5)
  note fin = cli_run_all_finished [OF Inr]
  note written = finish_written [OF stages_run_dir [where h = h and cfg = cfg and dry_run = dry_run
      and now = now and w = w], where cfg = cfg and st = st5]
  have cl: "clean (new_events w
      (snd (stages h cfg dry_run (run_all_dir cfg now) (started cfg now w))))"
    using stages_result_kind [where h = h and cfg = cfg and dry_run = dry_run and now = now and w = w] Inr by simp
  have ne: "new_events w (snd (finish cfg (run_all_dir cfg now) st5
        (snd (stages h cfg dry_run (run_all_dir cfg now) (started cfg now w))))) =
      new_events w (snd (stages h cfg dry_run (run_all_dir cfg now) (started cfg now w)))"
    by (simp add: new_events_def written(2))
  have second: "\<exists>st. fst (stages h cfg dry_run (run_all_dir cfg now) (started cfg now w)) = Inr st
             \<and> summaries (snd (finish cfg (run_all_dir cfg now) st5
                    (snd (stages h cfg dry_run (run_all_dir cfg now) (started cfg now w)))))
                   (summary_path (run_all_dir cfg now)) =
                 Some \<lparr>sum_command = ''run-all'', sum_elapsed_seconds = grand_total st,
                       sum_stages = summary st, sum_model_profile = fc_model_profile cfg,
                       sum_log_dir = run_all_dir cfg now\<rparr>"
    using Inr written(3) by blast
  have third: "\<forall>e. fst (finish cfg (run_all_dir cfg now) st5
        (snd (stages h cfg dry_run (run_all_dir cfg now) (started cfg now w)))) = Inl e
      \<and> (\<forall>code. e \<noteq> Exit code) \<longrightarrow>
        summaries (snd (finish cfg (run_all_dir cfg now) st5
          (snd (stages h cfg dry_run (run_all_dir cfg now) (started cfg now w))))) = summaries w"
    unfolding written(1) by (auto split: if_splits)
  show ?thesis
    unfolding fin ne
    using second third cl by blast
qed

text \<open>
  With \<open>mlc_export\<close> absent the dataset stage runs and succeeds and the status is not
  zero; with the dataset stage, a task and \<open>mlc_export\<close> configured, their scripts
  present, the log of the task in the run directory and their children succeeding, it
  is zero.
\<close>

theorem run_all_exit_status_witness:
  "mlc_skipped (demo_factory\<lparr>fc_mlc_export := None\<rparr>)
   \<and> trace (snd (cli_run_all demo_host (demo_factory\<lparr>fc_mlc_export := None\<rparr>) False
        demo_now demo_world)) = [Spawned prep_command, Exited prep_command 0]
   \<and> exit_status (fst (cli_run_all demo_host (demo_factory\<lparr>fc_mlc_export := None\<rparr>) False
        demo_now demo_world)) \<noteq> 0
   \<and> \<not> mlc_skipped (demo_factory\<lparr>fc_unsloth := Some demo_unsloth\<rparr>)
   \<and> needed_scripts (demo_factory\<lparr>fc_unsloth := Some demo_unsloth\<rparr>) \<subseteq> existing demo_world
   \<and> log_dirs (demo_factory\<lparr>fc_unsloth := Some demo_unsloth\<rparr>)
         (run_all_dir (demo_factory\<lparr>fc_unsloth := Some demo_unsloth\<rparr>) demo_now)
       \<subseteq> insert (run_all_dir (demo_factory\<lparr>fc_unsloth := Some demo_unsloth\<rparr>) demo_now)
            (directories demo_world)
   \<and> clean (new_events demo_world
        (snd (cli_run_all demo_host (demo_factory\<lparr>fc_unsloth := Some demo_unsloth\<rparr>) False
           demo_now demo_world)))
   \<and> exit_status (fst (cli_run_all demo_host (demo_factory\<lparr>fc_unsloth := Some demo_unsloth\<rparr>)
        False demo_now demo_world)) = 0"
proof -
  from run_all_exit_status [of "demo_factory\<lparr>fc_mlc_export := None\<rparr>" demo_host False
      demo_now demo_world] demo_nomlc_skipped
  have a: "exit_status (fst (cli_run_all demo_host (demo_factory\<lparr>fc_mlc_export := None\<rparr>) False
        demo_now demo_world)) \<noteq> 0"
    by blast
  from run_all_exit_status [of "demo_factory\<lparr>fc_unsloth := Some demo_unsloth\<rparr>" demo_host False
      demo_now demo_world] demo_sft_ready demo_sft_clean
  have b: "exit_status (fst (cli_run_all demo_host (demo_factory\<lparr>fc_unsloth := Some demo_unsloth\<rparr>)
        False demo_now demo_world)) = 0"
    by blast
  from demo_nomlc_skipped demo_nomlc_trace a demo_sft_ready demo_sft_clean b
  show ?thesis by (intro conjI)
qed

text \<open>
  C3, as the specification states it, fails: \<open>mlc_export\<close> is configured and enabled,
  the only child process that is started succeeds, and the status is 1, because the
  script of \<open>mlc_export\<close> does not exist and \<open>_ensure_script_exists\<close> raises.  It is 1
  too when every script exists and a task is named \<open>a/b\<close>: the log of the task cannot
  be opened, as its directory does not exist.
\<close>

theorem run_all_exit_status_counterexample:
  "\<not> mlc_skipped (demo_factory\<lparr>fc_mlc_export := Some (demo_stage ''/proj/absent.py'')\<rparr>)
   \<and> trace (snd (cli_run_all demo_host
        (demo_factory\<lparr>fc_mlc_export := Some (demo_stage ''/proj/absent.py'')\<rparr>) False
        demo_now demo_world)) = [Spawned prep_command, Exited prep_command 0]
   \<and> fst (cli_run_all demo_host
        (demo_factory\<lparr>fc_mlc_export := Some (demo_stage ''/proj/absent.py'')\<rparr>) False
        demo_now demo_world) = Inl FileNotFoundError
   \<and> exit_status (fst (cli_run_all demo_host
        (demo_factory\<lparr>fc_mlc_export := Some (demo_stage ''/proj/absent.py'')\<rparr>) False
        demo_now demo_world)) = 1
   \<and> \<not> mlc_skipped (demo_factory\<lparr>fc_unsloth := Some slash_unsloth\<rparr>)
   \<and> needed_scripts (demo_factory\<lparr>fc_unsloth := Some slash_unsloth\<rparr>) \<subseteq> existing demo_world
   \<and> trace (snd (cli_run_all demo_host (demo_factory\<lparr>fc_unsloth := Some slash_unsloth\<rparr>) False
        demo_now demo_world)) = [Spawned prep_command, Exited prep_command 0]
   \<and> exit_status (fst (cli_run_all demo_host (demo_factory\<lparr>fc_unsloth := Some slash_unsloth\<rparr>)
        False demo_now demo_world)) = 1"
proof -
  have a: "exit_status (fst (cli_run_all demo_host
        (demo_factory\<lparr>fc_mlc_export := Some (demo_stage ''/proj/absent.py'')\<rparr>) False
        demo_now demo_world)) = 1"
    unfolding demo_missing_status by simp
  have b: "exit_status (fst (cli_run_all demo_host (demo_factory\<lparr>fc_unsloth := Some slash_unsloth\<rparr>)
        False demo_now demo_world)) = 1"
    unfolding demo_slash_status by simp
  from demo_missing_configured demo_missing_trace demo_missing_status a demo_slash_configured
    demo_slash_trace b
  show ?thesis by (intro conjI)
qed

text \<open>
  C5, as the specification states it, fails: the dataset stage exits with code 1, the
  invocation ends with that error, and there is no summary document in the run
  directory.
\<close>

theorem run_all_failure_aborts_counterexample:
  "fst (cli_run_all demo_host
      (demo_factory\<lparr>fc_datasets := Some (demo_stage ''/proj/fail.py'')\<rparr>) False
      demo_now demo_world) = Inl (CalledProcessError 1)
   \<and> trace (snd (cli_run_all demo_host
      (demo_factory\<lparr>fc_datasets := Some (demo_stage ''/proj/fail.py'')\<rparr>) False
      demo_now demo_world)) = [Spawned fail_command, Exited fail_command 1]
   \<and> summaries (snd (cli_run_all demo_host
      (demo_factory\<lparr>fc_datasets := Some (demo_stage ''/proj/fail.py'')\<rparr>) False
      demo_now demo_world)) (summary_path ''/proj/runs/run_all_20260101T000000Z'') = None"
  using demo_fail_status demo_fail_trace demo_fail_summary by (intro conjI)

text \<open>
  The dataset stage fails: the export to MLC, which is configured and enabled, is not
  run, the invocation ends with the error of the exit code, and the summaries are as
  they were; so they are when the script of the export to MLC is missing.  The
  invocation whose stages succeed writes its summary.
\<close>

theorem run_all_failure_aborts_witness:
  "\<not> clean (new_events demo_world (snd (cli_run_all demo_host
      (demo_factory\<lparr>fc_datasets := Some (demo_stage ''/proj/fail.py'')\<rparr>) False
      demo_now demo_world)))
   \<and> new_events demo_world (snd (cli_run_all demo_host
      (demo_factory\<lparr>fc_datasets := Some (demo_stage ''/proj/fail.py'')\<rparr>) False
      demo_now demo_world)) = [Spawned fail_command, Exited fail_command 1]
   \<and> fst (cli_run_all demo_host
      (demo_factory\<lparr>fc_datasets := Some (demo_stage ''/proj/fail.py'')\<rparr>) False
      demo_now demo_world) = Inl (CalledProcessError 1)
   \<and> summaries (snd (cli_run_all demo_host
      (demo_factory\<lparr>fc_datasets := Some (demo_stage ''/proj/fail.py'')\<rparr>) False
      demo_now demo_world)) = summaries demo_world
   \<and> fst (cli_run_all demo_host
        (demo_factory\<lparr>fc_mlc_export := Some (demo_stage ''/proj/absent.py'')\<rparr>) False
        demo_now demo_world) = Inl FileNotFoundError
   \<and> summaries (snd (cli_run_all demo_host
        (demo_factory\<lparr>fc_mlc_export := Some (demo_stage ''/proj/absent.py'')\<rparr>) False
        demo_now demo_world)) = summaries demo_world
   \<and> fst (cli_run_all demo_host demo_factory False demo_now demo_world) = Inr ()
   \<and> clean (new_events demo_world
        (snd (cli_run_all demo_host demo_factory False demo_now demo_world)))
   \<and> summaries (snd (cli_run_all demo_host demo_factory False demo_now demo_world))
        (summary_path (run_all_dir demo_factory demo_now)) \<noteq> None"
proof -
  have fnf: "\<forall>code. FileNotFoundError \<noteq> Exit code" by simp
  from run_all_failure_aborts [of demo_world demo_host
      "demo_factory\<lparr>fc_mlc_export := Some (demo_stage ''/proj/absent.py'')\<rparr>" False demo_now]
    demo_missing_status fnf
  have m: "summaries (snd (cli_run_all demo_host
        (demo_factory\<lparr>fc_mlc_export := Some (demo_stage ''/proj/absent.py'')\<rparr>) False
        demo_now demo_world)) = summaries demo_world"
    by blast
  have nc: "\<not> clean (new_events demo_world (snd (cli_run_all demo_host
      (demo_factory\<lparr>fc_datasets := Some (demo_stage ''/proj/fail.py'')\<rparr>) False
      demo_now demo_world)))"
    unfolding demo_new_events demo_fail_trace by (simp add: clean_def)
  have ev: "new_events demo_world (snd (cli_run_all demo_host
      (demo_factory\<lparr>fc_datasets := Some (demo_stage ''/proj/fail.py'')\<rparr>) False
      demo_now demo_world)) = [Spawned fail_command, Exited fail_command 1]"
    unfolding demo_new_events by (rule demo_fail_trace)
  from run_all_failure_aborts [of demo_world demo_host
      "demo_factory\<lparr>fc_datasets := Some (demo_stage ''/proj/fail.py'')\<rparr>" False demo_now] nc
  have a: "summaries (snd (cli_run_all demo_host
      (demo_factory\<lparr>fc_datasets := Some (demo_stage ''/proj/fail.py'')\<rparr>) False
      demo_now demo_world)) = summaries demo_world"
    by blast
  have noexc: "\<forall>e. fst (cli_run_all demo_host demo_factory False demo_now demo_world) = Inl e
      \<longrightarrow> (\<exists>code. e = Exit code)"
    unfolding demo_ok_status by simp
  from run_all_failure_aborts [of demo_world demo_host demo_factory False demo_now] noexc
  have b: "clean (new_events demo_world
        (snd (cli_run_all demo_host demo_factory False demo_now demo_world)))
     \<and> summaries (snd (cli_run_all demo_host demo_factory False demo_now demo_world))
        (summary_path (run_all_dir demo_factory demo_now)) \<noteq> None"
    by auto
  from nc ev demo_fail_status a demo_missing_status m demo_ok_status b
  show ?thesis by (intro conjI) blast+
qed

section \<open>Dry run\<close>

text \<open>
  C9, amended: with dry-run enabled the process runner returns 0 seconds and leaves the
  world as it is: no process is started, and no file, be it the stage log, the corpus or
  the dedup state, is touched.  The stage and task runners leave the world as it is too;
  they return 0 seconds unless the stage is enabled and its script does not exist: then
  they raise \<open>FileNotFoundError\<close>, before the process runner is called.
\<close>

theorem dry_run_no_op:
  "(command \<noteq> [] \<longrightarrow>
      run_subprocess h command env cwd True timeout log_file w = (Inr 0, w))
   \<and> run_stage h name sc pb pr ge mp rd True w =
       (if stage_enabled sc \<and> stage_script sc \<notin> existing w then Inl FileNotFoundError
        else Inr 0, w)
   \<and> run_unsloth_task h tname u tc pb pr ge mp rd True w =
       (if unsloth_enabled u \<and> unsloth_script u \<notin> existing w then Inl FileNotFoundError
        else Inr 0, w)"
  by (simp add: run_subprocess_def run_stage_def run_unsloth_task_def Let_def)

text \<open>
  The dataset stage of the example: nothing happens in a dry run; without dry-run a
  child is started and the log is written.
\<close>

theorem dry_run_no_op_witness:
  "prep_command \<noteq> []
   \<and> run_subprocess demo_host prep_command Map.empty ''/proj'' True (Some 1)
        (Some ''/proj/runs/r1/datasets.log'') demo_world = (Inr 0, demo_world)
   \<and> stage_enabled (demo_stage ''/proj/prep.py'')
   \<and> stage_script (demo_stage ''/proj/prep.py'') \<in> existing demo_world
   \<and> run_stage demo_host ''datasets'' (demo_stage ''/proj/prep.py'') ''python'' ''/proj''
        (Some (load_global_env None ''monGARS_webLLM'')) (Some ''monGARS_webLLM'')
        (Some ''/proj/runs/r1'') True demo_world = (Inr 0, demo_world)
   \<and> trace (snd (run_stage demo_host ''datasets'' (demo_stage ''/proj/prep.py'') ''python''
        ''/proj'' (Some (load_global_env None ''monGARS_webLLM'')) (Some ''monGARS_webLLM'')
        (Some ''/proj/runs/r1'') False demo_world)) =
       [Spawned prep_command, Exited prep_command 0]
   \<and> files (snd (run_stage demo_host ''datasets'' (demo_stage ''/proj/prep.py'') ''python''
        ''/proj'' (Some (load_global_env None ''monGARS_webLLM'')) (Some ''monGARS_webLLM'')
        (Some ''/proj/runs/r1'') False demo_world)) ''/proj/runs/r1/datasets.log'' \<noteq> None"
proof -
  have ne: "prep_command \<noteq> []" by (simp add: prep_command_def)
  note t1 = dry_run_no_op [of prep_command demo_host Map.empty "''/proj''" "Some 1"
      "Some ''/proj/runs/r1/datasets.log''" demo_world]
  from t1 ne have a: "run_subprocess demo_host prep_command Map.empty ''/proj'' True (Some 1)
        (Some ''/proj/runs/r1/datasets.log'') demo_world = (Inr 0, demo_world)"
    by blast
  note t2 = dry_run_no_op [where w = demo_world and sc = "demo_stage ''/proj/prep.py''"
      and h = demo_host and name = "''datasets''" and pb = "''python''" and pr = "''/proj''"
      and ge = "Some (load_global_env None ''monGARS_webLLM'')" and mp = "Some ''monGARS_webLLM''"
      and rd = "Some ''/proj/runs/r1''"]
  from t2 demo_stage_ready have b: "run_stage demo_host ''datasets'' (demo_stage ''/proj/prep.py'')
        ''python'' ''/proj''
        (Some (load_global_env None ''monGARS_webLLM'')) (Some ''monGARS_webLLM'')
        (Some ''/proj/runs/r1'') True demo_world = (Inr 0, demo_world)"
    by simp
  have c: "files (snd (run_stage demo_host ''datasets'' (demo_stage ''/proj/prep.py'') ''python''
        ''/proj'' (Some (load_global_env None ''monGARS_webLLM'')) (Some ''monGARS_webLLM'')
        (Some ''/proj/runs/r1'') False demo_world)) ''/proj/runs/r1/datasets.log'' \<noteq> None"
    unfolding demo_wet_run(2) by simp
  from ne a demo_stage_ready b demo_wet_run(1) c show ?thesis by (intro conjI)
qed

text \<open>
  C9, as the specification states it, fails: a dry run of an enabled stage whose script
  does not exist returns no elapsed time; it raises \<open>FileNotFoundError\<close>.
\<close>

theorem dry_run_no_op_counterexample:
  "stage_enabled (demo_stage ''/proj/absent.py'')
   \<and> stage_script (demo_stage ''/proj/absent.py'') \<notin> existing demo_world
   \<and> run_stage demo_host ''datasets'' (demo_stage ''/proj/absent.py'') ''python'' ''/proj''
        (Some (load_global_env None ''monGARS_webLLM'')) (Some ''monGARS_webLLM'')
        (Some ''/proj/runs/r1'') True demo_world = (Inl FileNotFoundError, demo_world)"
proof -
  have a: "stage_enabled (demo_stage ''/proj/absent.py'')"
    "stage_script (demo_stage ''/proj/absent.py'') \<notin> existing demo_world"
    by code_simp+
  then have "run_stage demo_host ''datasets'' (demo_stage ''/proj/absent.py'') ''python'' ''/proj''
        (Some (load_global_env None ''monGARS_webLLM'')) (Some ''monGARS_webLLM'')
        (Some ''/proj/runs/r1'') True demo_world = (Inl FileNotFoundError, demo_world)"
    by (simp add: run_stage_def)
  with a show ?thesis by (intro conjI)
qed

section \<open>Timeout\<close>

text \<open>
  C6 fails on the code: a stage with \<open>timeout_seconds = 1\<close> whose script runs for five
  seconds and keeps its output open until it exits.  The loop over \<open>proc.stdout\<close> ends
  when the child exits, \<open>proc.wait\<close> returns at once, and the runner returns 5 seconds:
  no timeout error, and the child is not killed.
\<close>

theorem timeout_not_enforced:
  "stage_timeout_seconds ((demo_stage ''/proj/sleep5.py'')\<lparr>stage_args := [],
       stage_timeout_seconds := Some 1\<rparr>) = Some 1
   \<and> popen demo_host sleep_command Map.empty ''/proj'' =
       Some \<lparr>stdout_lines = [], stdout_decodes = True, stdout_closes_at = 5, exits_at = 5,
             returncode = 0\<rparr>
   \<and> fst (run_subprocess demo_host sleep_command Map.empty ''/proj'' False (Some 1) None
        demo_world) = Inr 5
   \<and> trace (snd (run_subprocess demo_host sleep_command Map.empty ''/proj'' False (Some 1) None
        demo_world)) = [Spawned sleep_command, Exited sleep_command 0]
   \<and> fst (run_stage demo_host ''datasets''
        ((demo_stage ''/proj/sleep5.py'')\<lparr>stage_args := [], stage_timeout_seconds := Some 1\<rparr>)
        ''python'' ''/proj'' None None None False demo_world) = Inr 5"
proof -
  have a: "stage_timeout_seconds ((demo_stage ''/proj/sleep5.py'')\<lparr>stage_args := [],
       stage_timeout_seconds := Some 1\<rparr>) = Some 1" by simp
  have b: "popen demo_host sleep_command Map.empty ''/proj'' =
       Some \<lparr>stdout_lines = [], stdout_decodes = True, stdout_closes_at = 5, exits_at = 5,
             returncode = 0\<rparr>"
    by code_simp
  have c: "fst (run_stage demo_host ''datasets''
        ((demo_stage ''/proj/sleep5.py'')\<lparr>stage_args := [], stage_timeout_seconds := Some 1\<rparr>)
        ''python'' ''/proj'' None None None False demo_world) = Inr 5"
    by code_simp
  from a b demo_sleep c show ?thesis by (intro conjI)
qed

text \<open>
  In general the runner raises the timeout error only for a child whose output reaches
  end of file before the child exits.
\<close>

lemma timeout_needs_early_eof:
  assumes "command \<noteq> []"
    and "fst (run_subprocess h command env cwd dry_run timeout log_file w) = Inl (TimeoutExpired t)"
  shows "\<exists>proc. popen h command env cwd = Some proc \<and> timeout = Some t
    \<and> stdout_closes_at proc < exits_at proc \<and> stdout_closes_at proc + t < exits_at proc"
  using assms
  by (auto simp: run_subprocess_def Let_def wait_timeout_def log_open_def
        split: option.splits if_splits sum.splits)

section \<open>Environment precedence\<close>

lemma build_env_lookup:
  "build_env inherited (Some global_env) (Some extra) model_profile k =
     (case extra k of
        Some v \<Rightarrow> Some v
      | None \<Rightarrow>
          (case global_env k of
             Some v \<Rightarrow> Some v
           | None \<Rightarrow>
               (case inherited k of
                  Some v \<Rightarrow> Some v
                | None \<Rightarrow>
                    (case model_profile of
                       None \<Rightarrow> None
                     | Some p \<Rightarrow>
                         if k = MONGARS_MODEL_PROFILE \<and> p \<noteq> [] then Some p else None))))"
  by (auto simp: build_env_def Let_def map_add_def split: option.splits)

lemma run_unsloth_task_env:
  assumes "unsloth_enabled u" and "unsloth_script u \<in> existing w"
  shows "\<exists>command log_file.
     run_unsloth_task h tname u tc pb pr ge mp rd dry_run w =
       run_subprocess h command
         (build_env (os_environ h) ge (Some (unsloth_env u ++ task_env tc)) mp)
         pr dry_run None log_file w"
  using assms unfolding run_unsloth_task_def Let_def by auto

lemma run_stage_env:
  assumes "stage_enabled sc" and "stage_script sc \<in> existing w"
  shows "\<exists>command log_file.
     run_stage h name sc pb pr ge mp rd dry_run w =
       run_subprocess h command (build_env (os_environ h) ge (Some (stage_env sc)) mp)
         pr dry_run (stage_timeout_seconds sc) log_file w"
  using assms unfolding run_stage_def Let_def by auto

text \<open>
  C2, amended: the stage and task runners pass to the child the environment that
  \<open>_build_env\<close> composes from the inherited environment, the global mapping and the
  stage mapping overlaid by the task mapping.  It maps a key to the task-level value if
  there is one, else to the stage-level value, else to the global value, else to the
  inherited value; only a key that no layer supplies can be the marker, inserted with
  the profile when the profile is not empty.  The global mapping of the loaded
  configuration always maps the marker to the configured profile, whatever the
  configuration gives under \<open>global_env\<close>, and is the configuration's mapping on every
  other key.
\<close>

theorem child_env_layers:
  "(unsloth_enabled u \<and> unsloth_script u \<in> existing w \<longrightarrow>
      (\<exists>command log_file.
         run_unsloth_task h tname u tc pb pr (Some global_env) mp rd dry_run w =
           run_subprocess h command
             (build_env (os_environ h) (Some global_env) (Some (unsloth_env u ++ task_env tc)) mp)
             pr dry_run None log_file w))
   \<and> (stage_enabled sc \<and> stage_script sc \<in> existing w \<longrightarrow>
      (\<exists>command log_file.
         run_stage h name sc pb pr (Some global_env) mp rd dry_run w =
           run_subprocess h command
             (build_env (os_environ h) (Some global_env) (Some (stage_env sc)) mp)
             pr dry_run (stage_timeout_seconds sc) log_file w))
   \<and> build_env inherited (Some global_env) (Some (stage ++ task)) model_profile k =
     (case task k of
        Some v \<Rightarrow> Some v
      | None \<Rightarrow>
          (case stage k of
             Some v \<Rightarrow> Some v
           | None \<Rightarrow>
               (case global_env k of
                  Some v \<Rightarrow> Some v
                | None \<Rightarrow>
                    (case inherited k of
                       Some v \<Rightarrow> Some v
                     | None \<Rightarrow>
                         (case model_profile of
                            None \<Rightarrow> None
                          | Some p \<Rightarrow>
                              if k = MONGARS_MODEL_PROFILE \<and> p \<noteq> [] then Some p
                              else None)))))
   \<and> build_env inherited (Some global_env) (Some stage) model_profile k =
     (case stage k of
        Some v \<Rightarrow> Some v
      | None \<Rightarrow>
          (case global_env k of
             Some v \<Rightarrow> Some v
           | None \<Rightarrow>
               (case inherited k of
                  Some v \<Rightarrow> Some v
                | None \<Rightarrow>
                    (case model_profile of
                       None \<Rightarrow> None
                     | Some p \<Rightarrow>
                         if k = MONGARS_MODEL_PROFILE \<and> p \<noteq> [] then Some p else None))))
   \<and> load_global_env global_env_raw profile MONGARS_MODEL_PROFILE = Some profile
   \<and> (k \<noteq> MONGARS_MODEL_PROFILE \<longrightarrow>
        load_global_env global_env_raw profile k =
          (case global_env_raw of None \<Rightarrow> None | Some g \<Rightarrow> g k))"
proof (intro conjI impI)
  show "\<exists>command log_file.
         run_unsloth_task h tname u tc pb pr (Some global_env) mp rd dry_run w =
           run_subprocess h command
             (build_env (os_environ h) (Some global_env) (Some (unsloth_env u ++ task_env tc)) mp)
             pr dry_run None log_file w"
    if "unsloth_enabled u \<and> unsloth_script u \<in> existing w"
    using that run_unsloth_task_env by blast
  show "\<exists>command log_file.
         run_stage h name sc pb pr (Some global_env) mp rd dry_run w =
           run_subprocess h command
             (build_env (os_environ h) (Some global_env) (Some (stage_env sc)) mp)
             pr dry_run (stage_timeout_seconds sc) log_file w"
    if "stage_enabled sc \<and> stage_script sc \<in> existing w"
    using that run_stage_env by blast
  show "build_env inherited (Some global_env) (Some (stage ++ task)) model_profile k =
     (case task k of
        Some v \<Rightarrow> Some v
      | None \<Rightarrow>
          (case stage k of
             Some v \<Rightarrow> Some v
           | None \<Rightarrow>
               (case global_env k of
                  Some v \<Rightarrow> Some v
                | None \<Rightarrow>
                    (case inherited k of
                       Some v \<Rightarrow> Some v
                     | None \<Rightarrow>
                         (case model_profile of
                            None \<Rightarrow> None
                          | Some p \<Rightarrow>
                              if k = MONGARS_MODEL_PROFILE \<and> p \<noteq> [] then Some p
                              else None)))))"
    by (auto simp: build_env_lookup map_add_def split: option.splits)
  show "build_env inherited (Some global_env) (Some stage) model_profile k =
     (case stage k of
        Some v \<Rightarrow> Some v
      | None \<Rightarrow>
          (case global_env k of
             Some v \<Rightarrow> Some v
           | None \<Rightarrow>
               (case inherited k of
                  Some v \<Rightarrow> Some v
                | None \<Rightarrow>
                    (case model_profile of
                       None \<Rightarrow> None
                     | Some p \<Rightarrow>
                         if k = MONGARS_MODEL_PROFILE \<and> p \<noteq> [] then Some p else None))))"
    by (rule build_env_lookup)
  show "load_global_env global_env_raw profile MONGARS_MODEL_PROFILE = Some profile"
    by (simp add: load_global_env_def)
  show "load_global_env global_env_raw profile k =
          (case global_env_raw of None \<Rightarrow> None | Some g \<Rightarrow> g k)"
    if "k \<noteq> MONGARS_MODEL_PROFILE"
    using that by (simp add: load_global_env_def split: option.splits)
qed

lemma echo_plain:
  "files (snd (run_unsloth_task echo_host ''dialog'' plain_unsloth demo_task ''python'' ''/proj''
      (Some (load_global_env (Some demo_global_raw) ''monGARS_webLLM''))
      (Some ''monGARS_webLLM'') (Some ''/proj/runs/r1'') False demo_world))
     ''/proj/runs/r1/unsloth_dialog.log'' =
   Some [''# Command: python /proj/mlc.py --task dialog'', ''# Started'', '''',
         ''SEED=task'', ''LR=stage'', ''HF_HOME=global'', ''HOME=/root'',
         ''MONGARS_MODEL_PROFILE=monGARS_webLLM'', '''', ''# Finished'']"
  by code_simp

lemma echo_demo:
  "files (snd (run_unsloth_task echo_host ''dialog'' demo_unsloth demo_task ''python'' ''/proj''
      (Some (load_global_env (Some demo_global_raw) ''monGARS_webLLM''))
      (Some ''monGARS_webLLM'') (Some ''/proj/runs/r1'') False demo_world))
     ''/proj/runs/r1/unsloth_dialog.log'' =
   Some [''# Command: python /proj/mlc.py --task dialog'', ''# Started'', '''',
         ''SEED=task'', ''LR=stage'', ''HF_HOME=global'', ''HOME=/root'',
         ''MONGARS_MODEL_PROFILE=stage-profile'', '''', ''# Finished'']"
  by code_simp

text \<open>
  C2, as the specification states it, fails: the configuration's global mapping sets
  the marker to \<open>custom\<close>, neither the task group nor the task sets it, and the child
  gets, and prints, the configured profile.
\<close>

theorem child_env_layers_counterexample:
  "demo_global_raw MONGARS_MODEL_PROFILE = Some ''custom''
   \<and> unsloth_env plain_unsloth MONGARS_MODEL_PROFILE = None
   \<and> task_env demo_task MONGARS_MODEL_PROFILE = None
   \<and> build_env (os_environ echo_host)
        (Some (load_global_env (Some demo_global_raw) ''monGARS_webLLM''))
        (Some (unsloth_env plain_unsloth ++ task_env demo_task)) (Some ''monGARS_webLLM'')
        MONGARS_MODEL_PROFILE = Some ''monGARS_webLLM''
   \<and> files (snd (run_unsloth_task echo_host ''dialog'' plain_unsloth demo_task ''python'' ''/proj''
        (Some (load_global_env (Some demo_global_raw) ''monGARS_webLLM''))
        (Some ''monGARS_webLLM'') (Some ''/proj/runs/r1'') False demo_world))
       ''/proj/runs/r1/unsloth_dialog.log'' =
     Some [''# Command: python /proj/mlc.py --task dialog'', ''# Started'', '''',
           ''SEED=task'', ''LR=stage'', ''HF_HOME=global'', ''HOME=/root'',
           ''MONGARS_MODEL_PROFILE=monGARS_webLLM'', '''', ''# Finished'']"
proof -
  have a: "demo_global_raw MONGARS_MODEL_PROFILE = Some ''custom''" by code_simp
  have b: "unsloth_env plain_unsloth MONGARS_MODEL_PROFILE = None" by code_simp
  have c: "task_env demo_task MONGARS_MODEL_PROFILE = None" by code_simp
  have d: "build_env (os_environ echo_host)
        (Some (load_global_env (Some demo_global_raw) ''monGARS_webLLM''))
        (Some (unsloth_env plain_unsloth ++ task_env demo_task)) (Some ''monGARS_webLLM'')
        MONGARS_MODEL_PROFILE = Some ''monGARS_webLLM''" by code_simp
  from a b c d echo_plain show ?thesis by (intro conjI)
qed

text \<open>
  Four keys, each decided by a different layer, and the marker, which the task group
  sets; the child prints these values.
\<close>

theorem child_env_layers_witness:
  "unsloth_enabled demo_unsloth
   \<and> unsloth_script demo_unsloth \<in> existing demo_world
   \<and> build_env (os_environ echo_host)
      (Some (load_global_env (Some demo_global_raw) ''monGARS_webLLM''))
      (Some (unsloth_env demo_unsloth ++ task_env demo_task)) (Some ''monGARS_webLLM'') ''SEED'' =
       Some ''task''
   \<and> build_env (os_environ echo_host)
      (Some (load_global_env (Some demo_global_raw) ''monGARS_webLLM''))
      (Some (unsloth_env demo_unsloth ++ task_env demo_task)) (Some ''monGARS_webLLM'') ''LR'' =
       Some ''stage''
   \<and> build_env (os_environ echo_host)
      (Some (load_global_env (Some demo_global_raw) ''monGARS_webLLM''))
      (Some (unsloth_env demo_unsloth ++ task_env demo_task)) (Some ''monGARS_webLLM'') ''HF_HOME'' =
       Some ''global''
   \<and> build_env (os_environ echo_host)
      (Some (load_global_env (Some demo_global_raw) ''monGARS_webLLM''))
      (Some (unsloth_env demo_unsloth ++ task_env demo_task)) (Some ''monGARS_webLLM'') ''HOME'' =
       Some ''/root''
   \<and> ''HF_HOME'' \<noteq> MONGARS_MODEL_PROFILE
   \<and> load_global_env (Some demo_global_raw) ''monGARS_webLLM'' ''HF_HOME'' = Some ''global''
   \<and> build_env (os_environ echo_host)
      (Some (load_global_env (Some demo_global_raw) ''monGARS_webLLM''))
      (Some (unsloth_env demo_unsloth ++ task_env demo_task)) (Some ''monGARS_webLLM'')
      MONGARS_MODEL_PROFILE = Some ''stage-profile''
   \<and> files (snd (run_unsloth_task echo_host ''dialog'' demo_unsloth demo_task ''python'' ''/proj''
        (Some (load_global_env (Some demo_global_raw) ''monGARS_webLLM''))
        (Some ''monGARS_webLLM'') (Some ''/proj/runs/r1'') False demo_world))
       ''/proj/runs/r1/unsloth_dialog.log'' =
     Some [''# Command: python /proj/mlc.py --task dialog'', ''# Started'', '''',
           ''SEED=task'', ''LR=stage'', ''HF_HOME=global'', ''HOME=/root'',
           ''MONGARS_MODEL_PROFILE=stage-profile'', '''', ''# Finished'']"
proof -
  note t = child_env_layers [where inherited = "os_environ echo_host"
      and global_env = "load_global_env (Some demo_global_raw) ''monGARS_webLLM''"
      and stage = "unsloth_env demo_unsloth" and task = "task_env demo_task"
      and model_profile = "Some ''monGARS_webLLM''" and global_env_raw = "Some demo_global_raw"
      and profile = "''monGARS_webLLM''" and u = demo_unsloth and w = demo_world
      and h = echo_host and tc = demo_task]
  have e: "unsloth_enabled demo_unsloth" "unsloth_script demo_unsloth \<in> existing demo_world"
    by code_simp+
  have k: "''HF_HOME'' \<noteq> MONGARS_MODEL_PROFILE" by code_simp
  have 1: "task_env demo_task ''SEED'' = Some ''task''" by code_simp
  have 2: "task_env demo_task ''LR'' = None" "unsloth_env demo_unsloth ''LR'' = Some ''stage''"
    by code_simp+
  have 3: "task_env demo_task ''HF_HOME'' = None" "unsloth_env demo_unsloth ''HF_HOME'' = None"
    "demo_global_raw ''HF_HOME'' = Some ''global''" by code_simp+
  have 4: "task_env demo_task ''HOME'' = None" "unsloth_env demo_unsloth ''HOME'' = None"
    "load_global_env (Some demo_global_raw) ''monGARS_webLLM'' ''HOME'' = None"
    "os_environ echo_host ''HOME'' = Some ''/root''" by code_simp+
  have 5: "task_env demo_task MONGARS_MODEL_PROFILE = None"
    "unsloth_env demo_unsloth MONGARS_MODEL_PROFILE = Some ''stage-profile''" by code_simp+
  from t [where k = "''HF_HOME''"] k 3
  have g: "load_global_env (Some demo_global_raw) ''monGARS_webLLM'' ''HF_HOME'' = Some ''global''"
    by simp
  show ?thesis
  proof (intro conjI)
    show "unsloth_enabled demo_unsloth" by (rule e(1))
    show "unsloth_script demo_unsloth \<in> existing demo_world" by (rule e(2))
    show "build_env (os_environ echo_host)
      (Some (load_global_env (Some demo_global_raw) ''monGARS_webLLM''))
      (Some (unsloth_env demo_unsloth ++ task_env demo_task)) (Some ''monGARS_webLLM'') ''SEED'' =
       Some ''task''"
      using t [where k = "''SEED''"] 1 by simp
    show "build_env (os_environ echo_host)
      (Some (load_global_env (Some demo_global_raw) ''monGARS_webLLM''))
      (Some (unsloth_env demo_unsloth ++ task_env demo_task)) (Some ''monGARS_webLLM'') ''LR'' =
       Some ''stage''"
      using t [where k = "''LR''"] 2 by simp
    show "build_env (os_environ echo_host)
      (Some (load_global_env (Some demo_global_raw) ''monGARS_webLLM''))
      (Some (unsloth_env demo_unsloth ++ task_env demo_task)) (Some ''monGARS_webLLM'') ''HF_HOME'' =
       Some ''global''"
      using t [where k = "''HF_HOME''"] 3 g by simp
    show "build_env (os_environ echo_host)
      (Some (load_global_env (Some demo_global_raw) ''monGARS_webLLM''))
      (Some (unsloth_env demo_unsloth ++ task_env demo_task)) (Some ''monGARS_webLLM'') ''HOME'' =
       Some ''/root''"
      using t [where k = "''HOME''"] 4 by simp
    show "''HF_HOME'' \<noteq> MONGARS_MODEL_PROFILE" by (rule k)
    show "load_global_env (Some demo_global_raw) ''monGARS_webLLM'' ''HF_HOME'' = Some ''global''"
      by (rule g)
    show "build_env (os_environ echo_host)
      (Some (load_global_env (Some demo_global_raw) ''monGARS_webLLM''))
      (Some (unsloth_env demo_unsloth ++ task_env demo_task)) (Some ''monGARS_webLLM'')
      MONGARS_MODEL_PROFILE = Some ''stage-profile''"
      using t [where k = MONGARS_MODEL_PROFILE] 5 by simp
    show "files (snd (run_unsloth_task echo_host ''dialog'' demo_unsloth demo_task ''python'' ''/proj''
        (Some (load_global_env (Some demo_global_raw) ''monGARS_webLLM''))
        (Some ''monGARS_webLLM'') (Some ''/proj/runs/r1'') False demo_world))
       ''/proj/runs/r1/unsloth_dialog.log'' =
     Some [''# Command: python /proj/mlc.py --task dialog'', ''# Started'', '''',
           ''SEED=task'', ''LR=stage'', ''HF_HOME=global'', ''HOME=/root'',
           ''MONGARS_MODEL_PROFILE=stage-profile'', '''', ''# Finished'']"
      by (rule echo_demo)
  qed
qed

end
